theory Spec2Isabelle
  imports Main "HOL-Library.Word"
begin

unbundle bit_operations_syntax

section \<open>Machine words and bit-field macros\<close>

type_synonym u8 = "8 word"
type_synonym u32 = "32 word"

text \<open>
  Modelled from the spec: the macros \<open>BITS(s, a, b)\<close> and \<open>BIT(s, n)\<close> come from a
  header that is not part of the sources. \<open>BITS\<close> is the field of bits \<open>a\<close> to \<open>b\<close>
  (both included) moved down to bit 0, \<open>BIT\<close> is a single bit as 0 or 1.
\<close>

definition BITS :: "u32 \<Rightarrow> nat \<Rightarrow> nat \<Rightarrow> u32" where
  "BITS s a b = drop_bit a (take_bit (Suc b) s)"

definition BIT :: "u32 \<Rightarrow> nat \<Rightarrow> u32" where
  "BIT s n = drop_bit n s AND 1"

text \<open>\<open>ROTATE_RIGHT(n, i, l) = (n << (l - i)) | (n >> i)\<close> at \<open>l = 32\<close>.\<close>

definition ROTATE_RIGHT_32 :: "u32 \<Rightarrow> nat \<Rightarrow> u32" where
  "ROTATE_RIGHT_32 n i = push_bit (32 - i) n OR drop_bit i n"

section \<open>The CPU state block\<close>

text \<open>
  The fields of \<open>ARMul_State\<close> that the interpreter reads and writes. The struct is
  declared in a header outside the sources; the fields below are the ones the code
  names. Guest memory (reached through \<open>cpu->ReadMemory32\<close>, \<open>Memory::Read8\<close> and
  their siblings) is carried as the field \<open>mem\<close>, and the calls made to the external
  supervisor-call handler are recorded in \<open>svc_calls\<close>.
\<close>

record ARMul_State =
  Reg :: "nat \<Rightarrow> u32"
  Reg_usr :: "nat \<Rightarrow> u32"
  Reg_bank :: "u32 \<Rightarrow> nat \<Rightarrow> u32"
  Spsr :: "u32 \<Rightarrow> u32"
  Cpsr :: u32
  Spsr_copy :: u32
  Mode :: u32
  NFlag :: u32
  ZFlag :: u32
  CFlag :: u32
  VFlag :: u32
  TFlag :: u32
  shifter_carry_out :: u32
  NumInstrsToExecute :: u32
  NirqSig :: u32
  exclusive :: "u32 option"
  CP15 :: "u32 \<times> u32 \<times> u32 \<times> u32 \<Rightarrow> u32"
  instruction_cache :: "u32 \<rightharpoonup> nat"
  mem :: "u32 \<Rightarrow> u8"
  svc_calls :: "u32 list"

text \<open>
  Modelled from the spec: \<open>GetInstructionSize\<close> is a method of the state block
  (2 in Thumb state, 4 in ARM state).
\<close>

definition GetInstructionSize :: "ARMul_State \<Rightarrow> u32" where
  "GetInstructionSize cpu = (if TFlag cpu \<noteq> 0 then 2 else 4)"

text \<open>
  Modelled from the spec: \<open>CHECK_READ_REG15\<close> and \<open>CHECK_READ_REG15_WA\<close> are
  helpers of a header outside the sources; they read a register and substitute the
  program counter plus the pipeline offset (two instruction sizes) for register 15.
\<close>

definition CHECK_READ_REG15 :: "ARMul_State \<Rightarrow> u32 \<Rightarrow> u32" where
  "CHECK_READ_REG15 cpu Rn =
     (if Rn = 15 then Reg cpu 15 + GetInstructionSize cpu * 2 else Reg cpu (unat Rn))"

definition CHECK_READ_REG15_WA :: "ARMul_State \<Rightarrow> u32 \<Rightarrow> u32" where
  "CHECK_READ_REG15_WA cpu Rn =
     (if Rn = 15 then Reg cpu 15 + GetInstructionSize cpu * 2 else Reg cpu (unat Rn))"

section \<open>Condition codes\<close>

text \<open>\<open>CondPassed\<close>: C truth values, so a flag counts as set when it is not 0.\<close>

definition CondPassed :: "ARMul_State \<Rightarrow> u32 \<Rightarrow> bool" where
  "CondPassed cpu cond =
    (let NFLAG = (NFlag cpu \<noteq> 0); ZFLAG = (ZFlag cpu \<noteq> 0);
         CFLAG = (CFlag cpu \<noteq> 0); VFLAG = (VFlag cpu \<noteq> 0) in
     if cond = 0x0 then ZFLAG
     else if cond = 0x1 then \<not> ZFLAG
     else if cond = 0x2 then CFLAG
     else if cond = 0x3 then \<not> CFLAG
     else if cond = 0x4 then NFLAG
     else if cond = 0x5 then \<not> NFLAG
     else if cond = 0x6 then VFLAG
     else if cond = 0x7 then \<not> VFLAG
     else if cond = 0x8 then (CFLAG \<and> \<not> ZFLAG)
     else if cond = 0x9 then (\<not> CFLAG \<or> ZFLAG)
     else if cond = 0xa then ((\<not> NFLAG \<and> \<not> VFLAG) \<or> (NFLAG \<and> VFLAG))
     else if cond = 0xb then ((NFLAG \<and> \<not> VFLAG) \<or> (\<not> NFLAG \<and> VFLAG))
     else if cond = 0xc then
       ((\<not> NFLAG \<and> \<not> VFLAG \<and> \<not> ZFLAG) \<or> (NFLAG \<and> VFLAG \<and> \<not> ZFLAG))
     else if cond = 0xd then (((NFLAG \<and> \<not> VFLAG) \<or> (\<not> NFLAG \<and> VFLAG)) \<or> ZFLAG)
     else if cond = 0xe then True
     else if cond = 0xf then True
     else False)"

section \<open>Shifter operand engine\<close>

text \<open>
  Each \<open>DataProcessingOperands\<close> function returns the operand and leaves the carry
  in \<open>cpu->shifter_carry_out\<close>; the model returns the operand and the updated state.
  \<open>RM\<close> and \<open>RS\<close> are bits 0 to 3 and 8 to 11 of the operand field.
\<close>

definition RM_of :: "u32 \<Rightarrow> u32" where
  "RM_of sht_oper = BITS sht_oper 0 3"

definition RS_of :: "u32 \<Rightarrow> u32" where
  "RS_of sht_oper = BITS sht_oper 8 11"

definition set_sco :: "u32 \<Rightarrow> ARMul_State \<Rightarrow> ARMul_State" where
  "set_sco c cpu = cpu\<lparr>shifter_carry_out := c\<rparr>"

definition DPO_Immediate :: "ARMul_State \<Rightarrow> u32 \<Rightarrow> u32 \<times> ARMul_State" where
  "DPO_Immediate cpu sht_oper =
    (let immed_8 = BITS sht_oper 0 7;
         rotate_imm = BITS sht_oper 8 11;
         shifter_operand = ROTATE_RIGHT_32 immed_8 (unat (rotate_imm * 2)) in
     if rotate_imm = 0 then (shifter_operand, set_sco (CFlag cpu) cpu)
     else (shifter_operand, set_sco (BIT shifter_operand 31) cpu))"

definition DPO_Register :: "ARMul_State \<Rightarrow> u32 \<Rightarrow> u32 \<times> ARMul_State" where
  "DPO_Register cpu sht_oper =
    (let rm = CHECK_READ_REG15 cpu (RM_of sht_oper) in (rm, set_sco (CFlag cpu) cpu))"

definition DPO_LogicalShiftLeftByImmediate :: "ARMul_State \<Rightarrow> u32 \<Rightarrow> u32 \<times> ARMul_State" where
  "DPO_LogicalShiftLeftByImmediate cpu sht_oper =
    (let shift_imm = unat (BITS sht_oper 7 11);
         rm = CHECK_READ_REG15 cpu (RM_of sht_oper) in
     if shift_imm = 0 then (rm, set_sco (CFlag cpu) cpu)
     else (push_bit shift_imm rm, set_sco (BIT rm (32 - shift_imm)) cpu))"

definition DPO_LogicalShiftLeftByRegister :: "ARMul_State \<Rightarrow> u32 \<Rightarrow> u32 \<times> ARMul_State" where
  "DPO_LogicalShiftLeftByRegister cpu sht_oper =
    (let rm = CHECK_READ_REG15 cpu (RM_of sht_oper);
         rs = CHECK_READ_REG15 cpu (RS_of sht_oper) in
     if BITS rs 0 7 = 0 then (rm, set_sco (CFlag cpu) cpu)
     else if BITS rs 0 7 < 32 then
       (push_bit (unat (BITS rs 0 7)) rm, set_sco (BIT rm (32 - unat (BITS rs 0 7))) cpu)
     else if BITS rs 0 7 = 32 then (0, set_sco (BIT rm 0) cpu)
     else (0, set_sco 0 cpu))"

definition DPO_LogicalShiftRightByImmediate :: "ARMul_State \<Rightarrow> u32 \<Rightarrow> u32 \<times> ARMul_State" where
  "DPO_LogicalShiftRightByImmediate cpu sht_oper =
    (let rm = CHECK_READ_REG15 cpu (RM_of sht_oper);
         shift_imm = unat (BITS sht_oper 7 11) in
     if shift_imm = 0 then (0, set_sco (BIT rm 31) cpu)
     else (drop_bit shift_imm rm, set_sco (BIT rm (shift_imm - 1)) cpu))"

definition DPO_LogicalShiftRightByRegister :: "ARMul_State \<Rightarrow> u32 \<Rightarrow> u32 \<times> ARMul_State" where
  "DPO_LogicalShiftRightByRegister cpu sht_oper =
    (let rs = CHECK_READ_REG15 cpu (RS_of sht_oper);
         rm = CHECK_READ_REG15 cpu (RM_of sht_oper) in
     if BITS rs 0 7 = 0 then (rm, set_sco (CFlag cpu) cpu)
     else if BITS rs 0 7 < 32 then
       (drop_bit (unat (BITS rs 0 7)) rm, set_sco (BIT rm (unat (BITS rs 0 7) - 1)) cpu)
     else if BITS rs 0 7 = 32 then (0, set_sco (BIT rm 31) cpu)
     else (0, set_sco 0 cpu))"

definition DPO_ArithmeticShiftRightByImmediate :: "ARMul_State \<Rightarrow> u32 \<Rightarrow> u32 \<times> ARMul_State" where
  "DPO_ArithmeticShiftRightByImmediate cpu sht_oper =
    (let rm = CHECK_READ_REG15 cpu (RM_of sht_oper);
         shift_imm = unat (BITS sht_oper 7 11) in
     if shift_imm = 0 then
       ((if BIT rm 31 = 0 then 0 else 0xFFFFFFFF), set_sco (BIT rm 31) cpu)
     else (signed_drop_bit shift_imm rm, set_sco (BIT rm (shift_imm - 1)) cpu))"

definition DPO_ArithmeticShiftRightByRegister :: "ARMul_State \<Rightarrow> u32 \<Rightarrow> u32 \<times> ARMul_State" where
  "DPO_ArithmeticShiftRightByRegister cpu sht_oper =
    (let rs = CHECK_READ_REG15 cpu (RS_of sht_oper);
         rm = CHECK_READ_REG15 cpu (RM_of sht_oper) in
     if BITS rs 0 7 = 0 then (rm, set_sco (CFlag cpu) cpu)
     else if BITS rs 0 7 < 32 then
       (signed_drop_bit (unat (BITS rs 0 7)) rm,
        set_sco (BIT rm (unat (BITS rs 0 7) - 1)) cpu)
     else ((if BIT rm 31 = 0 then 0 else 0xffffffff), set_sco (BIT rm 31) cpu))"

definition DPO_RotateRightByImmediate :: "ARMul_State \<Rightarrow> u32 \<Rightarrow> u32 \<times> ARMul_State" where
  "DPO_RotateRightByImmediate cpu sht_oper =
    (let rm = CHECK_READ_REG15 cpu (RM_of sht_oper);
         shift_imm = unat (BITS sht_oper 7 11) in
     if shift_imm = 0 then
       (push_bit 31 (CFlag cpu) OR drop_bit 1 rm, set_sco (BIT rm 0) cpu)
     else (ROTATE_RIGHT_32 rm shift_imm, set_sco (BIT rm (shift_imm - 1)) cpu))"

definition DPO_RotateRightByRegister :: "ARMul_State \<Rightarrow> u32 \<Rightarrow> u32 \<times> ARMul_State" where
  "DPO_RotateRightByRegister cpu sht_oper =
    (let rm = CHECK_READ_REG15 cpu (RM_of sht_oper);
         rs = CHECK_READ_REG15 cpu (RS_of sht_oper) in
     if BITS rs 0 7 = 0 then (rm, set_sco (CFlag cpu) cpu)
     else if BITS rs 0 4 = 0 then (rm, set_sco (BIT rm 31) cpu)
     else (ROTATE_RIGHT_32 rm (unat (BITS rs 0 4)),
           set_sco (BIT rm (unat (BITS rs 0 4) - 1)) cpu))"

section \<open>Addressing-mode engine\<close>

text \<open>
  Each function computes \<open>virt_addr\<close> and may write the base register back; the
  model returns the address and the updated state. \<open>U_BIT\<close> is bit 23 and
  \<open>OFFSET_12\<close> is bits 0 to 11 of the instruction.
\<close>

definition U_BIT :: "u32 \<Rightarrow> bool" where
  "U_BIT inst = (BIT inst 23 \<noteq> 0)"

definition OFFSET_12 :: "u32 \<Rightarrow> u32" where
  "OFFSET_12 inst = BITS inst 0 11"

definition set_reg :: "u32 \<Rightarrow> u32 \<Rightarrow> ARMul_State \<Rightarrow> ARMul_State" where
  "set_reg r v cpu = cpu\<lparr>Reg := (Reg cpu)(unat r := v)\<rparr>"

definition LnSWoUB_ImmediateOffset :: "ARMul_State \<Rightarrow> u32 \<Rightarrow> u32 \<times> ARMul_State" where
  "LnSWoUB_ImmediateOffset cpu inst =
    (let Rn = BITS inst 16 19;
         addr = (if U_BIT inst then CHECK_READ_REG15_WA cpu Rn + OFFSET_12 inst
                 else CHECK_READ_REG15_WA cpu Rn - OFFSET_12 inst) in
     (addr, cpu))"

definition LnSWoUB_RegisterOffset :: "ARMul_State \<Rightarrow> u32 \<Rightarrow> u32 \<times> ARMul_State" where
  "LnSWoUB_RegisterOffset cpu inst =
    (let Rn = BITS inst 16 19; Rm = BITS inst 0 3;
         rn = CHECK_READ_REG15_WA cpu Rn;
         rm = CHECK_READ_REG15_WA cpu Rm;
         addr = (if U_BIT inst then rn + rm else rn - rm) in
     (addr, cpu))"

definition LnSWoUB_ImmediatePostIndexed :: "ARMul_State \<Rightarrow> u32 \<Rightarrow> u32 \<times> ARMul_State" where
  "LnSWoUB_ImmediatePostIndexed cpu inst =
    (let Rn = BITS inst 16 19;
         addr = CHECK_READ_REG15_WA cpu Rn;
         cpu' = (if U_BIT inst then set_reg Rn (Reg cpu (unat Rn) + OFFSET_12 inst) cpu
                 else set_reg Rn (Reg cpu (unat Rn) - OFFSET_12 inst) cpu) in
     (addr, cpu'))"

definition LnSWoUB_ImmediatePreIndexed :: "ARMul_State \<Rightarrow> u32 \<Rightarrow> u32 \<times> ARMul_State" where
  "LnSWoUB_ImmediatePreIndexed cpu inst =
    (let Rn = BITS inst 16 19;
         addr = (if U_BIT inst then CHECK_READ_REG15_WA cpu Rn + OFFSET_12 inst
                 else CHECK_READ_REG15_WA cpu Rn - OFFSET_12 inst) in
     (addr, if CondPassed cpu (BITS inst 28 31) then set_reg Rn addr cpu else cpu))"

definition MLnS_RegisterPreIndexed :: "ARMul_State \<Rightarrow> u32 \<Rightarrow> u32 \<times> ARMul_State" where
  "MLnS_RegisterPreIndexed cpu inst =
    (let Rn = BITS inst 16 19; Rm = BITS inst 0 3;
         rn = CHECK_READ_REG15_WA cpu Rn;
         rm = CHECK_READ_REG15_WA cpu Rm;
         addr = (if U_BIT inst then rn + rm else rn - rm) in
     (addr, if CondPassed cpu (BITS inst 28 31) then set_reg Rn addr cpu else cpu))"

definition LnSWoUB_RegisterPreIndexed :: "ARMul_State \<Rightarrow> u32 \<Rightarrow> u32 \<times> ARMul_State" where
  "LnSWoUB_RegisterPreIndexed cpu inst =
    (let Rn = BITS inst 16 19; Rm = BITS inst 0 3;
         rn = CHECK_READ_REG15_WA cpu Rn;
         rm = CHECK_READ_REG15_WA cpu Rm;
         addr = (if U_BIT inst then rn + rm else rn - rm) in
     (addr, if CondPassed cpu (BITS inst 28 31) then set_reg Rn addr cpu else cpu))"

text \<open>
  The \<open>switch (shift)\<close> on bits 5 and 6 that the three scaled-register modes repeat
  word for word: the index register shifted by an immediate.
\<close>

definition scaled_index :: "ARMul_State \<Rightarrow> u32 \<Rightarrow> u32 \<Rightarrow> u32" where
  "scaled_index cpu inst rm =
    (let shift = BITS inst 5 6; shift_imm = unat (BITS inst 7 11) in
     if shift = 0 then push_bit shift_imm rm
     else if shift = 1 then (if shift_imm = 0 then 0 else drop_bit shift_imm rm)
     else if shift = 2 then
       (if shift_imm = 0 then (if BIT rm 31 = 1 then 0xFFFFFFFF else 0)
        else signed_drop_bit shift_imm rm)
     else if shift = 3 then
       (if shift_imm = 0 then push_bit 31 (CFlag cpu) OR drop_bit 1 rm
        else ROTATE_RIGHT_32 rm shift_imm)
     else 0)"

definition LnSWoUB_ScaledRegisterPreIndexed :: "ARMul_State \<Rightarrow> u32 \<Rightarrow> u32 \<times> ARMul_State" where
  "LnSWoUB_ScaledRegisterPreIndexed cpu inst =
    (let Rn = BITS inst 16 19; Rm = BITS inst 0 3;
         rm = CHECK_READ_REG15_WA cpu Rm;
         rn = CHECK_READ_REG15_WA cpu Rn;
         index = scaled_index cpu inst rm;
         addr = (if U_BIT inst then rn + index else rn - index) in
     (addr, if CondPassed cpu (BITS inst 28 31) then set_reg Rn addr cpu else cpu))"

definition LnSWoUB_ScaledRegisterPostIndexed :: "ARMul_State \<Rightarrow> u32 \<Rightarrow> u32 \<times> ARMul_State" where
  "LnSWoUB_ScaledRegisterPostIndexed cpu inst =
    (let Rn = BITS inst 16 19; Rm = BITS inst 0 3;
         addr = CHECK_READ_REG15_WA cpu Rn;
         rm = CHECK_READ_REG15_WA cpu Rm;
         index = scaled_index cpu inst rm in
     (addr,
      if CondPassed cpu (BITS inst 28 31) then
        (if U_BIT inst then set_reg Rn (Reg cpu (unat Rn) + index) cpu
         else set_reg Rn (Reg cpu (unat Rn) - index) cpu)
      else cpu))"

definition LnSWoUB_RegisterPostIndexed :: "ARMul_State \<Rightarrow> u32 \<Rightarrow> u32 \<times> ARMul_State" where
  "LnSWoUB_RegisterPostIndexed cpu inst =
    (let Rn = BITS inst 16 19; Rm = BITS inst 0 3;
         rm = CHECK_READ_REG15_WA cpu Rm;
         virt_addr = CHECK_READ_REG15_WA cpu Rn in
     (virt_addr,
      if CondPassed cpu (BITS inst 28 31) then
        (if U_BIT inst then set_reg Rn (Reg cpu (unat Rn) + rm) cpu
         else set_reg Rn (Reg cpu (unat Rn) - rm) cpu)
      else cpu))"

definition offset_8 :: "u32 \<Rightarrow> u32" where
  "offset_8 inst = push_bit 4 (BITS inst 8 11) OR BITS inst 0 3"

definition MLnS_ImmediateOffset :: "ARMul_State \<Rightarrow> u32 \<Rightarrow> u32 \<times> ARMul_State" where
  "MLnS_ImmediateOffset cpu inst =
    (let Rn = BITS inst 16 19;
         addr = (if U_BIT inst then CHECK_READ_REG15_WA cpu Rn + offset_8 inst
                 else CHECK_READ_REG15_WA cpu Rn - offset_8 inst) in
     (addr, cpu))"

definition MLnS_RegisterOffset :: "ARMul_State \<Rightarrow> u32 \<Rightarrow> u32 \<times> ARMul_State" where
  "MLnS_RegisterOffset cpu inst =
    (let Rn = BITS inst 16 19; Rm = BITS inst 0 3;
         rn = CHECK_READ_REG15_WA cpu Rn;
         rm = CHECK_READ_REG15_WA cpu Rm;
         addr = (if U_BIT inst then rn + rm else rn - rm) in
     (addr, cpu))"

definition MLnS_ImmediatePreIndexed :: "ARMul_State \<Rightarrow> u32 \<Rightarrow> u32 \<times> ARMul_State" where
  "MLnS_ImmediatePreIndexed cpu inst =
    (let Rn = BITS inst 16 19;
         rn = CHECK_READ_REG15_WA cpu Rn;
         addr = (if U_BIT inst then rn + offset_8 inst else rn - offset_8 inst) in
     (addr, if CondPassed cpu (BITS inst 28 31) then set_reg Rn addr cpu else cpu))"

definition MLnS_ImmediatePostIndexed :: "ARMul_State \<Rightarrow> u32 \<Rightarrow> u32 \<times> ARMul_State" where
  "MLnS_ImmediatePostIndexed cpu inst =
    (let Rn = BITS inst 16 19;
         rn = CHECK_READ_REG15_WA cpu Rn in
     (rn,
      if CondPassed cpu (BITS inst 28 31) then
        set_reg Rn (if U_BIT inst then rn + offset_8 inst else rn - offset_8 inst) cpu
      else cpu))"

definition MLnS_RegisterPostIndexed :: "ARMul_State \<Rightarrow> u32 \<Rightarrow> u32 \<times> ARMul_State" where
  "MLnS_RegisterPostIndexed cpu inst =
    (let Rn = BITS inst 16 19; Rm = BITS inst 0 3;
         rm = CHECK_READ_REG15_WA cpu Rm;
         virt_addr = CHECK_READ_REG15_WA cpu Rn in
     (virt_addr,
      if CondPassed cpu (BITS inst 28 31) then
        (if U_BIT inst then set_reg Rn (Reg cpu (unat Rn) + rm) cpu
         else set_reg Rn (Reg cpu (unat Rn) - rm) cpu)
      else cpu))"

text \<open>
  The register-list population count of the block-transfer modes:
  \<open>while (i) { if (i & 1) count++; i = i >> 1; }\<close>.
\<close>

function count_regs :: "u32 \<Rightarrow> nat \<Rightarrow> nat" where
  "count_regs i count =
     (if i \<noteq> 0 then count_regs (drop_bit 1 i) (if i AND 1 \<noteq> 0 then Suc count else count)
      else count)"
  by pat_completeness auto
termination
proof (relation "measure (\<lambda>(i, count). unat i)")
  show "wf (measure (\<lambda>(i :: u32, count :: nat). unat i))" by simp
next
  fix i :: u32 and count :: nat
  assume nz: "i \<noteq> 0"
  have "unat (drop_bit 1 i) = unat i div 2"
    by (simp add: drop_bit_eq_div unat_div)
  moreover have "0 < unat i" using nz by (simp add: unat_gt_0)
  ultimately show "((drop_bit 1 i, if i AND 1 \<noteq> 0 then Suc count else count), (i, count))
      \<in> measure (\<lambda>(i, count). unat i)"
    by simp
qed

definition LdnStM_DecrementBefore :: "ARMul_State \<Rightarrow> u32 \<Rightarrow> u32 \<times> ARMul_State" where
  "LdnStM_DecrementBefore cpu inst =
    (let Rn = BITS inst 16 19;
         count = count_regs (BITS inst 0 15) 0;
         virt_addr = CHECK_READ_REG15_WA cpu Rn - of_nat count * 4 in
     (virt_addr,
      if CondPassed cpu (BITS inst 28 31) \<and> BIT inst 21 \<noteq> 0 then
        set_reg Rn (Reg cpu (unat Rn) - of_nat count * 4) cpu
      else cpu))"

definition LdnStM_IncrementBefore :: "ARMul_State \<Rightarrow> u32 \<Rightarrow> u32 \<times> ARMul_State" where
  "LdnStM_IncrementBefore cpu inst =
    (let Rn = BITS inst 16 19;
         count = count_regs (BITS inst 0 15) 0;
         virt_addr = CHECK_READ_REG15_WA cpu Rn + 4 in
     (virt_addr,
      if CondPassed cpu (BITS inst 28 31) \<and> BIT inst 21 \<noteq> 0 then
        set_reg Rn (Reg cpu (unat Rn) + of_nat count * 4) cpu
      else cpu))"

definition LdnStM_IncrementAfter :: "ARMul_State \<Rightarrow> u32 \<Rightarrow> u32 \<times> ARMul_State" where
  "LdnStM_IncrementAfter cpu inst =
    (let Rn = BITS inst 16 19;
         count = count_regs (BITS inst 0 15) 0;
         virt_addr = CHECK_READ_REG15_WA cpu Rn in
     (virt_addr,
      if CondPassed cpu (BITS inst 28 31) \<and> BIT inst 21 \<noteq> 0 then
        set_reg Rn (Reg cpu (unat Rn) + of_nat count * 4) cpu
      else cpu))"

definition LdnStM_DecrementAfter :: "ARMul_State \<Rightarrow> u32 \<Rightarrow> u32 \<times> ARMul_State" where
  "LdnStM_DecrementAfter cpu inst =
    (let Rn = BITS inst 16 19;
         count = count_regs (BITS inst 0 15) 0;
         rn = CHECK_READ_REG15_WA cpu Rn;
         start_addr = rn - of_nat count * 4 + 4 in
     (start_addr,
      if CondPassed cpu (BITS inst 28 31) \<and> BIT inst 21 \<noteq> 0 then
        set_reg Rn (Reg cpu (unat Rn) - of_nat count * 4) cpu
      else cpu))"

definition LnSWoUB_ScaledRegisterOffset :: "ARMul_State \<Rightarrow> u32 \<Rightarrow> u32 \<times> ARMul_State" where
  "LnSWoUB_ScaledRegisterOffset cpu inst =
    (let Rn = BITS inst 16 19; Rm = BITS inst 0 3;
         rm = CHECK_READ_REG15_WA cpu Rm;
         rn = CHECK_READ_REG15_WA cpu Rn;
         index = scaled_index cpu inst rm;
         addr = (if U_BIT inst then rn + index else rn - index) in
     (addr, cpu))"

text \<open>
  The function pointers \<open>shtop_fp_t\<close> and \<open>get_addr_fp_t\<close> stored in a pre-decoded
  record name one of the functions above; \<open>get_shtop\<close> and \<open>get_calc_addr_op\<close>
  pick them from the instruction word and return \<open>nullptr\<close> (here \<open>None\<close>) when no
  case matches.
\<close>

datatype shtop_fp_t =
    DPO_Immediate_fp | DPO_Register_fp
  | DPO_LogicalShiftLeftByImmediate_fp | DPO_LogicalShiftLeftByRegister_fp
  | DPO_LogicalShiftRightByImmediate_fp | DPO_LogicalShiftRightByRegister_fp
  | DPO_ArithmeticShiftRightByImmediate_fp | DPO_ArithmeticShiftRightByRegister_fp
  | DPO_RotateRightByImmediate_fp | DPO_RotateRightByRegister_fp

fun call_shtop :: "shtop_fp_t \<Rightarrow> ARMul_State \<Rightarrow> u32 \<Rightarrow> u32 \<times> ARMul_State" where
  "call_shtop DPO_Immediate_fp = DPO_Immediate"
| "call_shtop DPO_Register_fp = DPO_Register"
| "call_shtop DPO_LogicalShiftLeftByImmediate_fp = DPO_LogicalShiftLeftByImmediate"
| "call_shtop DPO_LogicalShiftLeftByRegister_fp = DPO_LogicalShiftLeftByRegister"
| "call_shtop DPO_LogicalShiftRightByImmediate_fp = DPO_LogicalShiftRightByImmediate"
| "call_shtop DPO_LogicalShiftRightByRegister_fp = DPO_LogicalShiftRightByRegister"
| "call_shtop DPO_ArithmeticShiftRightByImmediate_fp = DPO_ArithmeticShiftRightByImmediate"
| "call_shtop DPO_ArithmeticShiftRightByRegister_fp = DPO_ArithmeticShiftRightByRegister"
| "call_shtop DPO_RotateRightByImmediate_fp = DPO_RotateRightByImmediate"
| "call_shtop DPO_RotateRightByRegister_fp = DPO_RotateRightByRegister"

definition get_shtop :: "u32 \<Rightarrow> shtop_fp_t option" where
  "get_shtop inst =
    (if BIT inst 25 \<noteq> 0 then Some DPO_Immediate_fp
     else if BITS inst 4 11 = 0 then Some DPO_Register_fp
     else if BITS inst 4 6 = 0 then Some DPO_LogicalShiftLeftByImmediate_fp
     else if BITS inst 4 7 = 1 then Some DPO_LogicalShiftLeftByRegister_fp
     else if BITS inst 4 6 = 2 then Some DPO_LogicalShiftRightByImmediate_fp
     else if BITS inst 4 7 = 3 then Some DPO_LogicalShiftRightByRegister_fp
     else if BITS inst 4 6 = 4 then Some DPO_ArithmeticShiftRightByImmediate_fp
     else if BITS inst 4 7 = 5 then Some DPO_ArithmeticShiftRightByRegister_fp
     else if BITS inst 4 6 = 6 then Some DPO_RotateRightByImmediate_fp
     else if BITS inst 4 7 = 7 then Some DPO_RotateRightByRegister_fp
     else None)"

datatype get_addr_fp_t =
    LnSWoUB_ImmediateOffset_fp | LnSWoUB_RegisterOffset_fp | LnSWoUB_ScaledRegisterOffset_fp
  | LnSWoUB_ImmediatePreIndexed_fp | LnSWoUB_RegisterPreIndexed_fp
  | LnSWoUB_ScaledRegisterPreIndexed_fp
  | LnSWoUB_ImmediatePostIndexed_fp | LnSWoUB_RegisterPostIndexed_fp
  | LnSWoUB_ScaledRegisterPostIndexed_fp
  | MLnS_ImmediateOffset_fp | MLnS_RegisterOffset_fp
  | MLnS_ImmediatePreIndexed_fp | MLnS_RegisterPreIndexed_fp
  | MLnS_ImmediatePostIndexed_fp | MLnS_RegisterPostIndexed_fp
  | LdnStM_IncrementAfter_fp | LdnStM_IncrementBefore_fp
  | LdnStM_DecrementAfter_fp | LdnStM_DecrementBefore_fp

fun call_get_addr :: "get_addr_fp_t \<Rightarrow> ARMul_State \<Rightarrow> u32 \<Rightarrow> u32 \<times> ARMul_State" where
  "call_get_addr LnSWoUB_ImmediateOffset_fp = LnSWoUB_ImmediateOffset"
| "call_get_addr LnSWoUB_RegisterOffset_fp = LnSWoUB_RegisterOffset"
| "call_get_addr LnSWoUB_ScaledRegisterOffset_fp = LnSWoUB_ScaledRegisterOffset"
| "call_get_addr LnSWoUB_ImmediatePreIndexed_fp = LnSWoUB_ImmediatePreIndexed"
| "call_get_addr LnSWoUB_RegisterPreIndexed_fp = LnSWoUB_RegisterPreIndexed"
| "call_get_addr LnSWoUB_ScaledRegisterPreIndexed_fp = LnSWoUB_ScaledRegisterPreIndexed"
| "call_get_addr LnSWoUB_ImmediatePostIndexed_fp = LnSWoUB_ImmediatePostIndexed"
| "call_get_addr LnSWoUB_RegisterPostIndexed_fp = LnSWoUB_RegisterPostIndexed"
| "call_get_addr LnSWoUB_ScaledRegisterPostIndexed_fp = LnSWoUB_ScaledRegisterPostIndexed"
| "call_get_addr MLnS_ImmediateOffset_fp = MLnS_ImmediateOffset"
| "call_get_addr MLnS_RegisterOffset_fp = MLnS_RegisterOffset"
| "call_get_addr MLnS_ImmediatePreIndexed_fp = MLnS_ImmediatePreIndexed"
| "call_get_addr MLnS_RegisterPreIndexed_fp = MLnS_RegisterPreIndexed"
| "call_get_addr MLnS_ImmediatePostIndexed_fp = MLnS_ImmediatePostIndexed"
| "call_get_addr MLnS_RegisterPostIndexed_fp = MLnS_RegisterPostIndexed"
| "call_get_addr LdnStM_IncrementAfter_fp = LdnStM_IncrementAfter"
| "call_get_addr LdnStM_IncrementBefore_fp = LdnStM_IncrementBefore"
| "call_get_addr LdnStM_DecrementAfter_fp = LdnStM_DecrementAfter"
| "call_get_addr LdnStM_DecrementBefore_fp = LdnStM_DecrementBefore"

definition get_calc_addr_op :: "u32 \<Rightarrow> get_addr_fp_t option" where
  "get_calc_addr_op inst =
    (if BITS inst 24 27 = 5 \<and> BIT inst 21 = 0 then Some LnSWoUB_ImmediateOffset_fp
     else if BITS inst 24 27 = 7 \<and> BIT inst 21 = 0 \<and> BITS inst 4 11 = 0 then
       Some LnSWoUB_RegisterOffset_fp
     else if BITS inst 24 27 = 7 \<and> BIT inst 21 = 0 \<and> BIT inst 4 = 0 then
       Some LnSWoUB_ScaledRegisterOffset_fp
     else if BITS inst 24 27 = 5 \<and> BIT inst 21 = 1 then Some LnSWoUB_ImmediatePreIndexed_fp
     else if BITS inst 24 27 = 7 \<and> BIT inst 21 = 1 \<and> BITS inst 4 11 = 0 then
       Some LnSWoUB_RegisterPreIndexed_fp
     else if BITS inst 24 27 = 7 \<and> BIT inst 21 = 1 \<and> BIT inst 4 = 0 then
       Some LnSWoUB_ScaledRegisterPreIndexed_fp
     else if BITS inst 24 27 = 4 \<and> BIT inst 21 = 0 then Some LnSWoUB_ImmediatePostIndexed_fp
     else if BITS inst 24 27 = 6 \<and> BIT inst 21 = 0 \<and> BITS inst 4 11 = 0 then
       Some LnSWoUB_RegisterPostIndexed_fp
     else if BITS inst 24 27 = 6 \<and> BIT inst 21 = 0 \<and> BIT inst 4 = 0 then
       Some LnSWoUB_ScaledRegisterPostIndexed_fp
     else if BITS inst 24 27 = 1 \<and> BITS inst 21 22 = 2 \<and> BIT inst 7 = 1 \<and> BIT inst 4 = 1 then
       Some MLnS_ImmediateOffset_fp
     else if BITS inst 24 27 = 1 \<and> BITS inst 21 22 = 0 \<and> BIT inst 7 = 1 \<and> BIT inst 4 = 1 then
       Some MLnS_RegisterOffset_fp
     else if BITS inst 24 27 = 1 \<and> BITS inst 21 22 = 3 \<and> BIT inst 7 = 1 \<and> BIT inst 4 = 1 then
       Some MLnS_ImmediatePreIndexed_fp
     else if BITS inst 24 27 = 1 \<and> BITS inst 21 22 = 1 \<and> BIT inst 7 = 1 \<and> BIT inst 4 = 1 then
       Some MLnS_RegisterPreIndexed_fp
     else if BITS inst 24 27 = 0 \<and> BITS inst 21 22 = 2 \<and> BIT inst 7 = 1 \<and> BIT inst 4 = 1 then
       Some MLnS_ImmediatePostIndexed_fp
     else if BITS inst 24 27 = 0 \<and> BITS inst 21 22 = 0 \<and> BIT inst 7 = 1 \<and> BIT inst 4 = 1 then
       Some MLnS_RegisterPostIndexed_fp
     else if BITS inst 23 27 = 0x11 then Some LdnStM_IncrementAfter_fp
     else if BITS inst 23 27 = 0x13 then Some LdnStM_IncrementBefore_fp
     else if BITS inst 23 27 = 0x10 then Some LdnStM_DecrementAfter_fp
     else if BITS inst 23 27 = 0x12 then Some LdnStM_DecrementBefore_fp
     else None)"

section \<open>The operation arena\<close>

text \<open>
  \<open>AllocBuffer\<close> works on the static \<open>inst_buf\<close> of \<open>CACHE_BUFFER_SIZE\<close> bytes and the
  \<open>int top\<close>. \<open>top += size\<close> adds an \<open>unsigned\<close> to an \<open>int\<close>, that is modulo
  \<open>2 ^ 32\<close>; the comparison with the capacity is signed. \<open>LOG_ERROR\<close> only prints and
  \<open>CITRA_IGNORE_EXIT(x)\<close> is defined empty, so the branch changes nothing. The result is
  the offset of the returned pointer in \<open>inst_buf\<close>, the new \<open>top\<close>, and whether the
  error was logged.
\<close>

definition CACHE_BUFFER_SIZE :: int where
  "CACHE_BUFFER_SIZE = 64 * 1024 * 2000"

record alloc_result =
  alloc_start :: int
  alloc_top :: u32
  alloc_logged_full :: bool

definition AllocBuffer :: "u32 \<Rightarrow> u32 \<Rightarrow> alloc_result" where
  "AllocBuffer top0 sz =
    (let start = sint top0;
         top' = top0 + sz in
     \<lparr>alloc_start = start, alloc_top = top', alloc_logged_full = (sint top' > CACHE_BUFFER_SIZE)\<rparr>)"

text \<open>An allocation of \<open>size\<close> bytes at offset \<open>start\<close> lies inside the arena.\<close>

definition in_arena :: "int \<Rightarrow> u32 \<Rightarrow> bool" where
  "in_arena start sz = (0 \<le> start \<and> start + uint sz \<le> CACHE_BUFFER_SIZE)"

section \<open>Collaborators of the interpreter\<close>

text \<open>
  Modelled from the spec: the guest memory service (\<open>Memory::Read8\<close>,
  \<open>Memory::Write8\<close>, and the \<open>ReadMemory16/32\<close> and \<open>WriteMemory16/32/64\<close> methods
  of the state block) is not part of the sources. Memory is an array of bytes, a wider
  access is its bytes in little-endian order.
\<close>

definition Read8 :: "ARMul_State \<Rightarrow> u32 \<Rightarrow> u32" where
  "Read8 cpu a = ucast (mem cpu a)"

definition ReadMemory16 :: "ARMul_State \<Rightarrow> u32 \<Rightarrow> u32" where
  "ReadMemory16 cpu a = ucast (mem cpu a) OR push_bit 8 (ucast (mem cpu (a + 1)))"

definition ReadMemory32 :: "ARMul_State \<Rightarrow> u32 \<Rightarrow> u32" where
  "ReadMemory32 cpu a =
     ucast (mem cpu a) OR push_bit 8 (ucast (mem cpu (a + 1)))
       OR push_bit 16 (ucast (mem cpu (a + 2))) OR push_bit 24 (ucast (mem cpu (a + 3)))"

definition Write8 :: "u32 \<Rightarrow> u32 \<Rightarrow> ARMul_State \<Rightarrow> ARMul_State" where
  "Write8 a v cpu = cpu\<lparr>mem := (mem cpu)(a := ucast v)\<rparr>"

definition WriteMemory16 :: "u32 \<Rightarrow> u32 \<Rightarrow> ARMul_State \<Rightarrow> ARMul_State" where
  "WriteMemory16 a v cpu =
     cpu\<lparr>mem := (mem cpu)(a := ucast v, a + 1 := ucast (drop_bit 8 v))\<rparr>"

definition WriteMemory32 :: "u32 \<Rightarrow> u32 \<Rightarrow> ARMul_State \<Rightarrow> ARMul_State" where
  "WriteMemory32 a v cpu =
     cpu\<lparr>mem := (mem cpu)(a := ucast v, a + 1 := ucast (drop_bit 8 v),
       a + 2 := ucast (drop_bit 16 v), a + 3 := ucast (drop_bit 24 v))\<rparr>"

definition WriteMemory64 :: "u32 \<Rightarrow> 64 word \<Rightarrow> ARMul_State \<Rightarrow> ARMul_State" where
  "WriteMemory64 a v cpu =
     WriteMemory32 (a + 4) (ucast (drop_bit 32 v)) (WriteMemory32 a (ucast v) cpu)"

text \<open>
  Modelled from the spec: the exclusive monitor methods of the state block (set, unset,
  check) are not part of the sources. The monitor is an optional guest address.
\<close>

definition SetExclusiveMemoryAddress :: "u32 \<Rightarrow> ARMul_State \<Rightarrow> ARMul_State" where
  "SetExclusiveMemoryAddress a cpu = cpu\<lparr>exclusive := Some a\<rparr>"

definition UnsetExclusiveMemoryAddress :: "ARMul_State \<Rightarrow> ARMul_State" where
  "UnsetExclusiveMemoryAddress cpu = cpu\<lparr>exclusive := None\<rparr>"

definition IsExclusiveMemoryAccess :: "ARMul_State \<Rightarrow> u32 \<Rightarrow> bool" where
  "IsExclusiveMemoryAccess cpu a = (exclusive cpu = Some a)"

text \<open>
  Modelled from the spec: the mode constants and the mode accessors of the state block
  are not part of the sources. The values are the architectural mode encodings.
\<close>

definition USER32MODE :: u32 where "USER32MODE = 16"
definition FIQ32MODE :: u32 where "FIQ32MODE = 17"
definition SYSTEM32MODE :: u32 where "SYSTEM32MODE = 31"

definition InAPrivilegedMode :: "ARMul_State \<Rightarrow> bool" where
  "InAPrivilegedMode cpu = (Mode cpu \<noteq> USER32MODE)"

definition InBigEndianMode :: "ARMul_State \<Rightarrow> bool" where
  "InBigEndianMode cpu = (Cpsr cpu AND push_bit 9 1 \<noteq> 0)"

definition CurrentModeHasSPSR :: "ARMul_State \<Rightarrow> bool" where
  "CurrentModeHasSPSR cpu = (Mode cpu \<noteq> SYSTEM32MODE \<and> Mode cpu \<noteq> USER32MODE)"

text \<open>
  Modelled from the spec: \<open>ChangePrivilegeMode\<close> is a method of the state block that
  is not part of the sources. It swaps R13 and R14 (and R8 to R12 for FIQ) and the
  saved status register with the shadow bank of the mode; system mode shares the user
  bank, whose R13 and R14 are \<open>Reg_usr[0]\<close> and \<open>Reg_usr[1]\<close>.
\<close>

definition bank_of :: "u32 \<Rightarrow> u32" where
  "bank_of m = (if m = SYSTEM32MODE then USER32MODE else m)"

definition save_bank :: "ARMul_State \<Rightarrow> ARMul_State" where
  "save_bank cpu =
    (let b = bank_of (Mode cpu) in
     if b = USER32MODE then
       cpu\<lparr>Reg_usr := (Reg_usr cpu)(0 := Reg cpu 13, 1 := Reg cpu 14),
           Reg_bank := (Reg_bank cpu)(USER32MODE := Reg cpu)\<rparr>
     else if b = FIQ32MODE then
       cpu\<lparr>Reg_bank := (Reg_bank cpu)(b := Reg cpu), Spsr := (Spsr cpu)(b := Spsr_copy cpu)\<rparr>
     else
       cpu\<lparr>Reg_bank := (Reg_bank cpu)(b := Reg cpu,
             USER32MODE := (\<lambda>r. if 8 \<le> r \<and> r \<le> 12 then Reg cpu r
                                else Reg_bank cpu USER32MODE r)),
           Spsr := (Spsr cpu)(b := Spsr_copy cpu)\<rparr>)"

definition load_bank :: "u32 \<Rightarrow> ARMul_State \<Rightarrow> ARMul_State" where
  "load_bank new_mode cpu =
    (let b = bank_of new_mode;
         low = (if b = FIQ32MODE then Reg_bank cpu FIQ32MODE else Reg_bank cpu USER32MODE) in
     if b = USER32MODE then
       cpu\<lparr>Reg := (\<lambda>r. if 8 \<le> r \<and> r \<le> 12 then low r
                       else if r = 13 then Reg_usr cpu 0
                       else if r = 14 then Reg_usr cpu 1 else Reg cpu r)\<rparr>
     else
       cpu\<lparr>Reg := (\<lambda>r. if 8 \<le> r \<and> r \<le> 12 then low r
                       else if r = 13 \<or> r = 14 then Reg_bank cpu b r else Reg cpu r),
           Spsr_copy := Spsr cpu b\<rparr>)"

definition ChangePrivilegeMode :: "u32 \<Rightarrow> ARMul_State \<Rightarrow> ARMul_State" where
  "ChangePrivilegeMode new_mode cpu =
    (if Mode cpu = new_mode then cpu
     else (load_bank new_mode (save_bank cpu))\<lparr>Mode := new_mode\<rparr>)"

text \<open>
  Modelled from the spec: the CP15 register file accessors of the state block are not
  part of the sources; a register is selected by (crn, op1, crm, op2).
\<close>

definition ReadCP15Register :: "ARMul_State \<Rightarrow> u32 \<Rightarrow> u32 \<Rightarrow> u32 \<Rightarrow> u32 \<Rightarrow> u32" where
  "ReadCP15Register cpu crn op1 crm op2 = CP15 cpu (crn, op1, crm, op2)"

definition WriteCP15Register ::
    "u32 \<Rightarrow> u32 \<Rightarrow> u32 \<Rightarrow> u32 \<Rightarrow> u32 \<Rightarrow> ARMul_State \<Rightarrow> ARMul_State" where
  "WriteCP15Register v crn op1 crm op2 cpu =
     cpu\<lparr>CP15 := (CP15 cpu)((crn, op1, crm, op2) := v)\<rparr>"

text \<open>
  Modelled from the spec: \<open>SVC::CallSVC\<close> is the external supervisor-call handler. It
  takes the immediate only; what it does to the guest is outside the interpreter, so
  the model records the argument of each call.
\<close>

definition CallSVC :: "u32 \<Rightarrow> ARMul_State \<Rightarrow> ARMul_State" where
  "CallSVC imm cpu = cpu\<lparr>svc_calls := svc_calls cpu @ [imm]\<rparr>"

text \<open>
  Modelled from the spec: \<open>AddWithCarry\<close>, \<open>AddOverflow\<close>, \<open>SubOverflow\<close> and \<open>POS\<close>
  come from a support file outside the sources. An addition yields the 32-bit sum, the
  carry (unsigned overflow) and the signed overflow; the overflow predicates compare
  the signs of the operands and of the result.
\<close>

definition AddWithCarry :: "u32 \<Rightarrow> u32 \<Rightarrow> u32 \<Rightarrow> u32 \<times> bool \<times> bool" where
  "AddWithCarry left right carry_in =
    (let unsigned_sum = unat left + unat right + unat carry_in;
         signed_sum = sint left + sint right + uint carry_in;
         result = (of_nat unsigned_sum :: u32) in
     (result, unat result \<noteq> unsigned_sum, sint result \<noteq> signed_sum))"

definition POS :: "u32 \<Rightarrow> bool" where
  "POS i = (drop_bit 31 (NOT i) \<noteq> 0)"

definition NEG :: "u32 \<Rightarrow> bool" where
  "NEG i = (drop_bit 31 i \<noteq> 0)"

definition AddOverflow :: "u32 \<Rightarrow> u32 \<Rightarrow> u32 \<Rightarrow> bool" where
  "AddOverflow a b result =
     ((NEG a \<and> NEG b \<and> POS result) \<or> (POS a \<and> POS b \<and> NEG result))"

definition SubOverflow :: "u32 \<Rightarrow> u32 \<Rightarrow> u32 \<Rightarrow> bool" where
  "SubOverflow a b result =
     ((NEG a \<and> POS b \<and> POS result) \<or> (POS a \<and> NEG b \<and> NEG result))"

section \<open>Macros of the dispatch loop\<close>

definition UPDATE_NFLAG :: "u32 \<Rightarrow> ARMul_State \<Rightarrow> ARMul_State" where
  "UPDATE_NFLAG dst cpu = cpu\<lparr>NFlag := (if BIT dst 31 \<noteq> 0 then 1 else 0)\<rparr>"

definition UPDATE_ZFLAG :: "u32 \<Rightarrow> ARMul_State \<Rightarrow> ARMul_State" where
  "UPDATE_ZFLAG dst cpu = cpu\<lparr>ZFlag := (if dst \<noteq> 0 then 0 else 1)\<rparr>"

definition UPDATE_CFLAG_WITH_SC :: "ARMul_State \<Rightarrow> ARMul_State" where
  "UPDATE_CFLAG_WITH_SC cpu = cpu\<lparr>CFlag := shifter_carry_out cpu\<rparr>"

definition SAVE_NZCVT :: "ARMul_State \<Rightarrow> ARMul_State" where
  "SAVE_NZCVT cpu =
     cpu\<lparr>Cpsr := (Cpsr cpu AND 0x0fffffdf) OR push_bit 31 (NFlag cpu) OR push_bit 30 (ZFlag cpu)
        OR push_bit 29 (CFlag cpu) OR push_bit 28 (VFlag cpu) OR push_bit 5 (TFlag cpu)\<rparr>"

definition LOAD_NZCVT :: "ARMul_State \<Rightarrow> ARMul_State" where
  "LOAD_NZCVT cpu =
     cpu\<lparr>NFlag := drop_bit 31 (Cpsr cpu),
         ZFlag := drop_bit 30 (Cpsr cpu) AND 1,
         CFlag := drop_bit 29 (Cpsr cpu) AND 1,
         VFlag := drop_bit 28 (Cpsr cpu) AND 1,
         TFlag := drop_bit 5 (Cpsr cpu) AND 1\<rparr>"

definition bool_u32 :: "bool \<Rightarrow> u32" where
  "bool_u32 b = (if b then 1 else 0)"

text \<open>\<open>cpu->Reg[15] += cpu->GetInstructionSize()\<close>.\<close>

definition advance_pc :: "ARMul_State \<Rightarrow> ARMul_State" where
  "advance_pc cpu = cpu\<lparr>Reg := (Reg cpu)(15 := Reg cpu 15 + GetInstructionSize cpu)\<rparr>"

text \<open>
  The block that the flag-setting handlers repeat when \<open>S\<close> is set and \<open>Rd\<close> is 15:
  in a mode with an SPSR, copy it to the CPSR, change mode and reload the flags.
\<close>

definition restore_cpsr :: "ARMul_State \<Rightarrow> ARMul_State" where
  "restore_cpsr cpu =
    (if CurrentModeHasSPSR cpu then
       (let cpu1 = cpu\<lparr>Cpsr := Spsr_copy cpu\<rparr> in
        LOAD_NZCVT (ChangePrivilegeMode (Cpsr cpu1 AND 0x1F) cpu1))
     else cpu)"

section \<open>Pre-decoded operation records\<close>

text \<open>
  The payload structs that follow the \<open>arm_inst\<close> header. The structs of the
  data-processing operations with the same fields share one record. The function
  pointer fields hold the name of an engine function, never \<open>nullptr\<close>.
\<close>

record dp_inst =
  dp_I :: u32
  dp_S :: u32
  dp_Rn :: u32
  dp_Rd :: u32
  dp_shifter_operand :: u32
  dp_shtop_func :: shtop_fp_t

record mov_inst =
  mov_I :: u32
  mov_S :: u32
  mov_Rd :: u32
  mov_shifter_operand :: u32
  mov_shtop_func :: shtop_fp_t

record cmp_inst =
  cmp_I :: u32
  cmp_Rn :: u32
  cmp_shifter_operand :: u32
  cmp_shtop_func :: shtop_fp_t

record bbl_inst =
  bbl_L :: u32
  signed_immed_24 :: u32
  next_addr :: u32
  jmp_addr :: u32

record blx_inst =
  blx_val :: u32
  blx_inst_word :: u32

record cps_inst =
  imod0 :: u32
  imod1 :: u32
  mmod :: u32
  cps_A :: u32
  cps_I :: u32
  cps_F :: u32
  cps_mode :: u32

record mcr_inst =
  opcode_1 :: u32
  opcode_2 :: u32
  cp_num :: u32
  crn :: u32
  crm :: u32
  mcr_Rd :: u32
  mcr_inst_word :: u32

record mul_inst =
  mul_S :: u32
  mul_Rn :: u32
  mul_Rd :: u32
  mul_Rs :: u32
  mul_Rm :: u32

record ldst_inst =
  ldst_inst_word :: u32
  get_addr :: get_addr_fp_t

record generic_arm_inst =
  Ra :: u32
  Rm :: u32
  Rn :: u32
  Rd :: u32
  op1 :: u8
  op2 :: u8

record ext_inst =
  ext_Rn :: u32
  ext_Rd :: u32
  ext_rotate :: u32
  ext_Rm :: u32

text \<open>
  The payloads of the packing, multiply and saturation operations. \<open>umlal_inst\<close> and
  \<open>smlal_inst\<close> have the fields of \<open>umull_inst\<close>; \<open>sxtab_inst\<close>, \<open>sxtah_inst\<close>,
  \<open>uxtab_inst\<close> and \<open>uxtah_inst\<close> are \<open>ext_inst\<close>.
\<close>

record pkh_inst =
  pkh_Rm :: u32
  pkh_Rn :: u32
  pkh_Rd :: u32
  pkh_imm :: u8

record smul_inst =
  smul_Rd :: u32
  smul_Rs :: u32
  smul_Rm :: u32
  smul_x :: u32
  smul_y :: u32

record umull_inst =
  umull_S :: u32
  umull_RdHi :: u32
  umull_RdLo :: u32
  umull_Rs :: u32
  umull_Rm :: u32

record smlad_inst =
  smlad_m :: u32
  smlad_Rm :: u32
  smlad_Rd :: u32
  smlad_Ra :: u32
  smlad_Rn :: u32
  smlad_op1 :: u32
  smlad_op2 :: u32

record smla_inst =
  smla_x :: u32
  smla_y :: u32
  smla_Rm :: u32
  smla_Rd :: u32
  smla_Rs :: u32
  smla_Rn :: u32

record smlalxy_inst =
  smlalxy_x :: u32
  smlalxy_y :: u32
  smlalxy_RdLo :: u32
  smlalxy_RdHi :: u32
  smlalxy_Rm :: u32
  smlalxy_Rn :: u32

record ssat_inst =
  ssat_Rn :: u32
  ssat_Rd :: u32
  ssat_imm5 :: u32
  ssat_sat_imm :: u32
  ssat_shift_type :: u32

record umaal_inst =
  umaal_Rn :: u32
  umaal_Rm :: u32
  umaal_RdHi :: u32
  umaal_RdLo :: u32

record smlald_inst =
  smlald_RdLo :: u32
  smlald_RdHi :: u32
  smlald_Rm :: u32
  smlald_Rn :: u32
  smlald_swap :: u32
  smlald_op1 :: u32
  smlald_op2 :: u32

text \<open>
  The operation tag together with its payload. A tag stands for one label of the
  dispatch table; tags whose handlers cast \<open>component\<close> to the same struct are
  grouped, and the group carries that struct.
\<close>

datatype dp_op = ADC | ADD | AND_op | BIC | EOR | ORR | RSB | RSC | SBC | SUB

datatype mov_op = MOV | MVN | CPY

datatype cmp_op = CMN | CMP | TEQ | TST

datatype load_op =
  LDM | LDR | LDRCOND | LDRB | LDRBT | LDRD | LDRH | LDRSB | LDRSH | LDRT | RFE

datatype store_op = STM | STR_op | STRB | STRBT | STRD | STRH | STRT | SRS

datatype generic_op =
    LDREX | LDREXB | LDREXH | LDREXD | STREX | STREXB | STREXH | STREXD
  | QADD | QDADD | QDSUB | QSUB

datatype ext_op =
    SXTB | SXTH | UXTB | UXTH | UXTAB | UXTAH
  | SXTAB | SXTAH | SXTAB16 | SXTB16 | UXTAB16 | UXTB16

datatype stub_op =
  CDP | LDC | STC | MCRR | MRRC | CLREX | NOP | YIELD | WFE | WFI | SEV | PLD

datatype branch_op =
    BBL bbl_inst | BLX blx_inst | BX u32 | BXJ u32
  | B_2_THUMB u32 | B_COND_THUMB u32 u32 | BL_1_THUMB u32 | BL_2_THUMB u32
  | BLX_1_THUMB u32 u32

datatype sys_op =
    MCR mcr_inst | MRC mcr_inst | CPS cps_inst | SETEND u32
  | MRS u32 u32 | MSR u32 u32 | SWI u32 | BKPT u32

datatype misc_op =
    CLZ u32 u32 | MUL mul_inst | MLA mul_inst
  | REV u32 u32 u32 u32 | REV16 u32 u32 u32 u32 | REVSH u32 u32 u32 u32
  | SWP u32 u32 u32 | SWPB u32 u32 u32

datatype pkh_op = PKHBT | PKHTB

datatype sat_op = SSAT | SSAT16 | USAT | USAT16

datatype media_op =
    QADD8 | QADD16 | QADDSUBX | QSUB8 | QSUB16 | QSUBADDX
  | SADD8 | SSUB8 | SADD16 | SADDSUBX | SSUBADDX | SSUB16
  | SEL
  | SHADD8 | SHADD16 | SHADDSUBX | SHSUB8 | SHSUB16 | SHSUBADDX
  | UADD8 | UADD16 | UADDSUBX | USUB8 | USUB16 | USUBADDX
  | UHADD8 | UHADD16 | UHADDSUBX | UHSUBADDX | UHSUB8 | UHSUB16
  | UQADD8 | UQADD16 | UQADDSUBX | UQSUB8 | UQSUB16 | UQSUBADDX
  | USAD8 | USADA8

datatype dsp_op =
    SMLA smla_inst
  | SMLAD smlad_inst | SMLSD smlad_inst | SMUAD smlad_inst | SMUSD smlad_inst
  | SMLAL umull_inst | SMLALXY smlalxy_inst | SMLAW smlad_inst
  | SMLALD smlald_inst | SMLSLD smlald_inst
  | SMMLA smlad_inst | SMMLS smlad_inst | SMMUL smlad_inst
  | SMUL smul_inst | SMULL umull_inst | SMULW smlad_inst
  | UMAAL umaal_inst | UMLAL umull_inst | UMULL umull_inst

datatype component =
    DataProc dp_op dp_inst
  | Move mov_op mov_inst
  | Compare cmp_op cmp_inst
  | Branch branch_op
  | System sys_op
  | Misc misc_op
  | Stub stub_op
  | Load load_op ldst_inst
  | Store store_op ldst_inst
  | Generic generic_op generic_arm_inst
  | Extend ext_op ext_inst
  | Media media_op generic_arm_inst
  | Pkh pkh_op pkh_inst
  | Dsp dsp_op
  | Sat sat_op ssat_inst

text \<open>The \<open>arm_inst\<close> header: condition, flow bits and the tagged payload.\<close>

record arm_inst =
  cond :: u32
  br :: u32
  component :: component

definition NON_BRANCH :: u32 where "NON_BRANCH = push_bit 1 1"
definition DIRECT_BRANCH :: u32 where "DIRECT_BRANCH = push_bit 2 1"
definition INDIRECT_BRANCH :: u32 where "INDIRECT_BRANCH = push_bit 3 1"
definition END_OF_PAGE :: u32 where "END_OF_PAGE = push_bit 6 1"

text \<open>
  How a handler leaves: \<open>FETCH_INST; GOTO_NEXT_INST\<close>, \<open>goto DISPATCH\<close>, \<open>goto END\<close>,
  or \<open>return num_instrs\<close> from inside the handler.
\<close>

datatype flow = Next | Dispatch | End | Return

text \<open>The guard \<open>inst_base->cond == 0xE || CondPassed(cpu, inst_base->cond)\<close>.\<close>

definition cond_ok :: "ARMul_State \<Rightarrow> u32 \<Rightarrow> bool" where
  "cond_ok cpu c = (c = 0xE \<or> CondPassed cpu c)"

section \<open>Operation semantics\<close>

subsection \<open>Data processing\<close>

text \<open>
  \<open>SHIFTER_OPERAND\<close> calls the stored shifter function on the stored operand field.
  The two flag epilogues are the blocks the handlers repeat after writing \<open>RD\<close>:
  \<open>RD\<close> is read back from the register file.
\<close>

definition rn_val_of :: "ARMul_State \<Rightarrow> u32 \<Rightarrow> u32" where
  "rn_val_of cpu r =
     (if r = 15 then Reg cpu (unat r) + 2 * GetInstructionSize cpu else Reg cpu (unat r))"

definition arith_flags :: "u32 \<Rightarrow> u32 \<Rightarrow> bool \<Rightarrow> bool \<Rightarrow> ARMul_State \<Rightarrow> ARMul_State" where
  "arith_flags S rd carry overflow cpu =
    (if S \<noteq> 0 \<and> rd = 15 then restore_cpsr cpu
     else if S \<noteq> 0 then
       (UPDATE_ZFLAG (Reg cpu (unat rd)) (UPDATE_NFLAG (Reg cpu (unat rd)) cpu))
         \<lparr>CFlag := bool_u32 carry, VFlag := bool_u32 overflow\<rparr>
     else cpu)"

definition logic_flags :: "u32 \<Rightarrow> u32 \<Rightarrow> ARMul_State \<Rightarrow> ARMul_State" where
  "logic_flags S rd cpu =
    (if S \<noteq> 0 \<and> rd = 15 then restore_cpsr cpu
     else if S \<noteq> 0 then
       UPDATE_CFLAG_WITH_SC (UPDATE_ZFLAG (Reg cpu (unat rd)) (UPDATE_NFLAG (Reg cpu (unat rd)) cpu))
     else cpu)"

text \<open>\<open>if (Rd == 15) { INC_PC; goto DISPATCH; }\<close>, else fall to the common tail.\<close>

definition finish_rd :: "u32 \<Rightarrow> ARMul_State \<Rightarrow> ARMul_State \<times> flow" where
  "finish_rd rd cpu = (if rd = 15 then (cpu, Dispatch) else (advance_pc cpu, Next))"

definition dp_arith ::
    "dp_inst \<Rightarrow> (u32 \<Rightarrow> u32 \<Rightarrow> u32 \<Rightarrow> u32 \<times> bool \<times> bool) \<Rightarrow> ARMul_State \<Rightarrow> ARMul_State \<times> flow" where
  "dp_arith ic f cpu =
    (let rn_val = rn_val_of cpu (dp_Rn ic);
         (sh, cpu1) = call_shtop (dp_shtop_func ic) cpu (dp_shifter_operand ic);
         (res, carry, overflow) = f rn_val sh (CFlag cpu1);
         cpu2 = set_reg (dp_Rd ic) res cpu1;
         cpu3 = arith_flags (dp_S ic) (dp_Rd ic) carry overflow cpu2 in
     finish_rd (dp_Rd ic) cpu3)"

definition dp_logic ::
    "dp_inst \<Rightarrow> (u32 \<Rightarrow> u32 \<Rightarrow> u32) \<Rightarrow> ARMul_State \<Rightarrow> ARMul_State \<times> flow" where
  "dp_logic ic f cpu =
    (let lop = rn_val_of cpu (dp_Rn ic);
         (rop, cpu1) = call_shtop (dp_shtop_func ic) cpu (dp_shifter_operand ic);
         cpu2 = set_reg (dp_Rd ic) (f lop rop) cpu1;
         cpu3 = logic_flags (dp_S ic) (dp_Rd ic) cpu2 in
     finish_rd (dp_Rd ic) cpu3)"

text \<open>
  The ten handlers \<open>ADC_INST\<close> to \<open>SUB_INST\<close>: what each passes to \<open>AddWithCarry\<close>,
  or the bitwise operation it applies.
\<close>

fun dp_body :: "dp_op \<Rightarrow> dp_inst \<Rightarrow> ARMul_State \<Rightarrow> ARMul_State \<times> flow" where
  "dp_body ADC ic cpu = dp_arith ic (\<lambda>rn sh c. AddWithCarry rn sh c) cpu"
| "dp_body ADD ic cpu = dp_arith ic (\<lambda>rn sh c. AddWithCarry rn sh 0) cpu"
| "dp_body RSB ic cpu = dp_arith ic (\<lambda>rn sh c. AddWithCarry (NOT rn) sh 1) cpu"
| "dp_body RSC ic cpu = dp_arith ic (\<lambda>rn sh c. AddWithCarry (NOT rn) sh c) cpu"
| "dp_body SBC ic cpu = dp_arith ic (\<lambda>rn sh c. AddWithCarry rn (NOT sh) c) cpu"
| "dp_body SUB ic cpu = dp_arith ic (\<lambda>rn sh c. AddWithCarry rn (NOT sh) 1) cpu"
| "dp_body AND_op ic cpu = dp_logic ic (\<lambda>lop rop. lop AND rop) cpu"
| "dp_body BIC ic cpu = dp_logic ic (\<lambda>lop rop. lop AND NOT rop) cpu"
| "dp_body EOR ic cpu = dp_logic ic (\<lambda>lop rop. lop XOR rop) cpu"
| "dp_body ORR ic cpu = dp_logic ic (\<lambda>lop rop. lop OR rop) cpu"

definition DataProc_INST :: "dp_op \<Rightarrow> u32 \<Rightarrow> dp_inst \<Rightarrow> ARMul_State \<Rightarrow> ARMul_State \<times> flow" where
  "DataProc_INST op c ic cpu =
    (if cond_ok cpu c then dp_body op ic cpu else (advance_pc cpu, Next))"

text \<open>\<open>MOV_INST\<close>, \<open>MVN_INST\<close> and \<open>CPY_INST\<close> (which sets no flags).\<close>

fun mov_body :: "mov_op \<Rightarrow> mov_inst \<Rightarrow> ARMul_State \<Rightarrow> ARMul_State \<times> flow" where
  "mov_body MOV ic cpu =
    (let (sh, cpu1) = call_shtop (mov_shtop_func ic) cpu (mov_shifter_operand ic);
         cpu2 = set_reg (mov_Rd ic) sh cpu1;
         cpu3 = logic_flags (mov_S ic) (mov_Rd ic) cpu2 in
     finish_rd (mov_Rd ic) cpu3)"
| "mov_body MVN ic cpu =
    (let (sh, cpu1) = call_shtop (mov_shtop_func ic) cpu (mov_shifter_operand ic);
         cpu2 = set_reg (mov_Rd ic) (NOT sh) cpu1;
         cpu3 = logic_flags (mov_S ic) (mov_Rd ic) cpu2 in
     finish_rd (mov_Rd ic) cpu3)"
| "mov_body CPY ic cpu =
    (let (sh, cpu1) = call_shtop (mov_shtop_func ic) cpu (mov_shifter_operand ic);
         cpu2 = set_reg (mov_Rd ic) sh cpu1 in
     finish_rd (mov_Rd ic) cpu2)"

definition Move_INST :: "mov_op \<Rightarrow> u32 \<Rightarrow> mov_inst \<Rightarrow> ARMul_State \<Rightarrow> ARMul_State \<times> flow" where
  "Move_INST op c ic cpu =
    (if cond_ok cpu c then mov_body op ic cpu else (advance_pc cpu, Next))"

text \<open>\<open>CMN_INST\<close>, \<open>CMP_INST\<close>, \<open>TEQ_INST\<close> and \<open>TST_INST\<close> only set flags.\<close>

definition cmp_arith_flags :: "u32 \<times> bool \<times> bool \<Rightarrow> ARMul_State \<Rightarrow> ARMul_State" where
  "cmp_arith_flags r cpu =
    (case r of (result, carry, overflow) \<Rightarrow>
      (UPDATE_ZFLAG result (UPDATE_NFLAG result cpu))
        \<lparr>CFlag := bool_u32 carry, VFlag := bool_u32 overflow\<rparr>)"

fun cmp_body :: "cmp_op \<Rightarrow> cmp_inst \<Rightarrow> ARMul_State \<Rightarrow> ARMul_State" where
  "cmp_body CMN ic cpu =
    (let rn_val = rn_val_of cpu (cmp_Rn ic);
         (sh, cpu1) = call_shtop (cmp_shtop_func ic) cpu (cmp_shifter_operand ic) in
     cmp_arith_flags (AddWithCarry rn_val sh 0) cpu1)"
| "cmp_body CMP ic cpu =
    (let rn_val = rn_val_of cpu (cmp_Rn ic);
         (sh, cpu1) = call_shtop (cmp_shtop_func ic) cpu (cmp_shifter_operand ic) in
     cmp_arith_flags (AddWithCarry rn_val (NOT sh) 1) cpu1)"
| "cmp_body TEQ ic cpu =
    (let lop = rn_val_of cpu (cmp_Rn ic);
         (rop, cpu1) = call_shtop (cmp_shtop_func ic) cpu (cmp_shifter_operand ic);
         result = lop XOR rop in
     UPDATE_CFLAG_WITH_SC (UPDATE_ZFLAG result (UPDATE_NFLAG result cpu1)))"
| "cmp_body TST ic cpu =
    (let lop = rn_val_of cpu (cmp_Rn ic);
         (rop, cpu1) = call_shtop (cmp_shtop_func ic) cpu (cmp_shifter_operand ic);
         result = lop AND rop in
     UPDATE_CFLAG_WITH_SC (UPDATE_ZFLAG result (UPDATE_NFLAG result cpu1)))"

definition Compare_INST :: "cmp_op \<Rightarrow> u32 \<Rightarrow> cmp_inst \<Rightarrow> ARMul_State \<Rightarrow> ARMul_State \<times> flow" where
  "Compare_INST op c ic cpu =
    (if cond_ok cpu c then (advance_pc (cmp_body op ic cpu), Next)
     else (advance_pc cpu, Next))"

subsection \<open>Branches\<close>

definition BBL_INST :: "u32 \<Rightarrow> bbl_inst \<Rightarrow> ARMul_State \<Rightarrow> ARMul_State \<times> flow" where
  "BBL_INST c ic cpu =
    (if cond_ok cpu c then
       (let cpu1 = (if bbl_L ic \<noteq> 0 then set_reg 14 (Reg cpu 15 + 4) cpu else cpu) in
        (set_reg 15 (Reg cpu1 15 + 8 + signed_immed_24 ic) cpu1, Dispatch))
     else (advance_pc cpu, Dispatch))"

definition BLX_INST :: "u32 \<Rightarrow> blx_inst \<Rightarrow> ARMul_State \<Rightarrow> ARMul_State \<times> flow" where
  "BLX_INST c ic cpu =
    (if cond_ok cpu c then
       (let inst = blx_inst_word ic in
        if BITS inst 20 27 = 0x12 \<and> BITS inst 4 7 = 0x3 then
          (let cpu1 = set_reg 14 (Reg cpu 15 + GetInstructionSize cpu) cpu;
               cpu2 = (if TFlag cpu1 \<noteq> 0 then set_reg 14 (Reg cpu1 14 OR 0x1) cpu1 else cpu1);
               cpu3 = set_reg 15 (Reg cpu2 (unat (blx_val ic)) AND 0xfffffffe) cpu2 in
           (cpu3\<lparr>TFlag := Reg cpu3 (unat (blx_val ic)) AND 0x1\<rparr>, Dispatch))
        else
          (let cpu1 = set_reg 14 (Reg cpu 15 + GetInstructionSize cpu) cpu;
               cpu2 = cpu1\<lparr>TFlag := 0x1\<rparr>;
               signed_int = blx_val ic;
               signed_int = (if signed_int AND 0x800000 \<noteq> 0 then 0x3F000000 OR signed_int
                             else signed_int);
               signed_int = push_bit 2 signed_int in
           (set_reg 15 (Reg cpu2 15 + 8 + signed_int + push_bit 1 (BIT inst 24)) cpu2, Dispatch)))
     else (advance_pc cpu, Dispatch))"

definition BX_INST :: "u32 \<Rightarrow> u32 \<Rightarrow> ARMul_State \<Rightarrow> ARMul_State \<times> flow" where
  "BX_INST c rm cpu =
    (if cond_ok cpu c then
       (let address = rn_val_of cpu rm;
            cpu1 = cpu\<lparr>TFlag := address AND 1\<rparr> in
        (set_reg 15 (address AND 0xfffffffe) cpu1, Dispatch))
     else (advance_pc cpu, Dispatch))"

definition B_2_THUMB_INST :: "u32 \<Rightarrow> ARMul_State \<Rightarrow> ARMul_State \<times> flow" where
  "B_2_THUMB_INST imm cpu = (set_reg 15 (Reg cpu 15 + 4 + imm) cpu, Dispatch)"

definition B_COND_THUMB_INST :: "u32 \<Rightarrow> u32 \<Rightarrow> ARMul_State \<Rightarrow> ARMul_State \<times> flow" where
  "B_COND_THUMB_INST imm c cpu =
    (if CondPassed cpu c then (set_reg 15 (Reg cpu 15 + 4 + imm) cpu, Dispatch)
     else (set_reg 15 (Reg cpu 15 + 2) cpu, Dispatch))"

definition BL_1_THUMB_INST :: "u32 \<Rightarrow> ARMul_State \<Rightarrow> ARMul_State \<times> flow" where
  "BL_1_THUMB_INST imm cpu = (advance_pc (set_reg 14 (Reg cpu 15 + 4 + imm) cpu), Next)"

definition BL_2_THUMB_INST :: "u32 \<Rightarrow> ARMul_State \<Rightarrow> ARMul_State \<times> flow" where
  "BL_2_THUMB_INST imm cpu =
    (let tmp = (Reg cpu 15 + 2) OR 1;
         cpu1 = set_reg 15 (Reg cpu 14 + imm) cpu in
     (set_reg 14 tmp cpu1, Dispatch))"

definition BLX_1_THUMB_INST :: "u32 \<Rightarrow> ARMul_State \<Rightarrow> ARMul_State \<times> flow" where
  "BLX_1_THUMB_INST imm cpu =
    (let tmp = Reg cpu 15;
         cpu1 = set_reg 15 ((Reg cpu 14 + imm) AND 0xFFFFFFFC) cpu;
         cpu2 = set_reg 14 ((tmp + 2) OR 1) cpu1 in
     (cpu2\<lparr>TFlag := 0\<rparr>, Dispatch))"

fun Branch_INST :: "branch_op \<Rightarrow> u32 \<Rightarrow> ARMul_State \<Rightarrow> ARMul_State \<times> flow" where
  "Branch_INST (BBL ic) c cpu = BBL_INST c ic cpu"
| "Branch_INST (BLX ic) c cpu = BLX_INST c ic cpu"
| "Branch_INST (BX rm) c cpu = BX_INST c rm cpu"
| "Branch_INST (BXJ rm) c cpu = BX_INST c rm cpu"
| "Branch_INST (B_2_THUMB imm) c cpu = B_2_THUMB_INST imm cpu"
| "Branch_INST (B_COND_THUMB imm tc) c cpu = B_COND_THUMB_INST imm tc cpu"
| "Branch_INST (BL_1_THUMB imm) c cpu = BL_1_THUMB_INST imm cpu"
| "Branch_INST (BL_2_THUMB imm) c cpu = BL_2_THUMB_INST imm cpu"
| "Branch_INST (BLX_1_THUMB imm instr) c cpu = BLX_1_THUMB_INST imm cpu"

subsection \<open>Coprocessor, status and supervisor operations\<close>

text \<open>
  \<open>CDP_INST\<close> is the undefined-instruction trap: it clears the budget and returns
  from the loop. \<open>LDC_INST\<close> and \<open>STC_INST\<close> hold no code but the common tail, and
  \<open>CLREX_INST\<close>, \<open>NOP_INST\<close> and \<open>PLD_INST\<close> have no condition check. The bodies of
  \<open>MCRR\<close>, \<open>MRRC\<close>, \<open>YIELD\<close>, \<open>WFE\<close>, \<open>WFI\<close>, \<open>SEV\<close> and \<open>BKPT\<close> only log.
\<close>

fun Stub_INST :: "stub_op \<Rightarrow> u32 \<Rightarrow> ARMul_State \<Rightarrow> ARMul_State \<times> flow" where
  "Stub_INST CDP c cpu =
    (if cond_ok cpu c then (cpu\<lparr>NumInstrsToExecute := 0\<rparr>, Return)
     else (advance_pc cpu, Next))"
| "Stub_INST LDC c cpu = (advance_pc cpu, Next)"
| "Stub_INST STC c cpu = (advance_pc cpu, Next)"
| "Stub_INST MCRR c cpu = (if cond_ok cpu c then (advance_pc cpu, Next) else (advance_pc cpu, Next))"
| "Stub_INST MRRC c cpu = (if cond_ok cpu c then (advance_pc cpu, Next) else (advance_pc cpu, Next))"
| "Stub_INST CLREX c cpu = (advance_pc (UnsetExclusiveMemoryAddress cpu), Next)"
| "Stub_INST NOP c cpu = (advance_pc cpu, Next)"
| "Stub_INST YIELD c cpu = (if cond_ok cpu c then (advance_pc cpu, Next) else (advance_pc cpu, Next))"
| "Stub_INST WFE c cpu = (if cond_ok cpu c then (advance_pc cpu, Next) else (advance_pc cpu, Next))"
| "Stub_INST WFI c cpu = (if cond_ok cpu c then (advance_pc cpu, Next) else (advance_pc cpu, Next))"
| "Stub_INST SEV c cpu = (if cond_ok cpu c then (advance_pc cpu, Next) else (advance_pc cpu, Next))"
| "Stub_INST PLD c cpu = (advance_pc cpu, Next)"

definition MCR_INST :: "u32 \<Rightarrow> mcr_inst \<Rightarrow> ARMul_State \<Rightarrow> ARMul_State \<times> flow" where
  "MCR_INST c ic cpu =
    (if cond_ok cpu c then
       (let cpu1 =
          (if mcr_Rd ic = 15 then cpu
           else if cp_num ic = 15 then
             WriteCP15Register (Reg cpu (unat (mcr_Rd ic))) (crn ic) (opcode_1 ic) (crm ic)
               (opcode_2 ic) cpu
           else cpu) in
        (advance_pc cpu1, Next))
     else (advance_pc cpu, Next))"

definition MRC_INST :: "u32 \<Rightarrow> mcr_inst \<Rightarrow> ARMul_State \<Rightarrow> ARMul_State \<times> flow" where
  "MRC_INST c ic cpu =
    (if cond_ok cpu c then
       (if mcr_inst_word ic = 0xeef04a10 then (set_reg (mcr_Rd ic) 0x20000000 cpu, End)
        else
          (let cpu1 =
             (if cp_num ic = 15 then
                set_reg (mcr_Rd ic)
                  (ReadCP15Register cpu (crn ic) (opcode_1 ic) (crm ic) (opcode_2 ic)) cpu
              else cpu) in
           (advance_pc cpu1, Next)))
     else (advance_pc cpu, Next))"

definition CPS_INST :: "cps_inst \<Rightarrow> ARMul_State \<Rightarrow> ARMul_State \<times> flow" where
  "CPS_INST ic cpu =
    (let cpu2 =
       (if InAPrivilegedMode cpu then
          (let cpu1 =
             (if imod1 ic \<noteq> 0 then
                (let (aif_val, aif_mask) = (0 :: u32, 0 :: u32);
                     (aif_val, aif_mask) =
                       (if cps_A ic \<noteq> 0 then (aif_val OR push_bit 8 (imod0 ic), aif_mask OR push_bit 8 1)
                        else (aif_val, aif_mask));
                     (aif_val, aif_mask) =
                       (if cps_I ic \<noteq> 0 then (aif_val OR push_bit 7 (imod0 ic), aif_mask OR push_bit 7 1)
                        else (aif_val, aif_mask));
                     (aif_val, aif_mask) =
                       (if cps_F ic \<noteq> 0 then (aif_val OR push_bit 6 (imod0 ic), aif_mask OR push_bit 6 1)
                        else (aif_val, aif_mask));
                     aif_mask = NOT aif_mask in
                 cpu\<lparr>Cpsr := (Cpsr cpu AND aif_mask) OR aif_val\<rparr>)
              else cpu) in
           if mmod ic \<noteq> 0 then
             ChangePrivilegeMode (cps_mode ic)
               (cpu1\<lparr>Cpsr := (Cpsr cpu1 AND 0xffffffe0) OR cps_mode ic\<rparr>)
           else cpu1)
        else cpu) in
     (advance_pc cpu2, Next))"

definition SETEND_INST :: "u32 \<Rightarrow> ARMul_State \<Rightarrow> ARMul_State \<times> flow" where
  "SETEND_INST set_bigend cpu =
    (let big_endian = (set_bigend = 1);
         cpu1 = (if big_endian then cpu\<lparr>Cpsr := Cpsr cpu OR push_bit 9 1\<rparr>
                 else cpu\<lparr>Cpsr := Cpsr cpu AND NOT (push_bit 9 1)\<rparr>) in
     (advance_pc cpu1, Next))"

definition MRS_INST :: "u32 \<Rightarrow> u32 \<Rightarrow> u32 \<Rightarrow> ARMul_State \<Rightarrow> ARMul_State \<times> flow" where
  "MRS_INST c R rd cpu =
    (if cond_ok cpu c then
       (let cpu1 =
          (if R \<noteq> 0 then set_reg rd (Spsr_copy cpu) cpu
           else (let cpu' = SAVE_NZCVT cpu in set_reg rd (Cpsr cpu') cpu')) in
        (advance_pc cpu1, Next))
     else (advance_pc cpu, Next))"

definition UserMask :: u32 where "UserMask = 0xf80f0200"
definition PrivMask :: u32 where "PrivMask = 0x000001df"
definition StateMask :: u32 where "StateMask = 0x01000020"

definition msr_operand :: "ARMul_State \<Rightarrow> u32 \<Rightarrow> u32" where
  "msr_operand cpu inst =
    (if BIT inst 25 \<noteq> 0 then ROTATE_RIGHT_32 (BITS inst 0 7) (unat (BITS inst 8 11 * 2))
     else Reg cpu (unat (BITS inst 0 3)))"

definition msr_byte_mask :: "u32 \<Rightarrow> u32" where
  "msr_byte_mask inst =
     (if BIT inst 16 \<noteq> 0 then 0xff else 0) OR (if BIT inst 17 \<noteq> 0 then 0xff00 else 0)
       OR (if BIT inst 18 \<noteq> 0 then 0xff0000 else 0)
       OR (if BIT inst 19 \<noteq> 0 then 0xff000000 else 0)"

definition MSR_INST :: "u32 \<Rightarrow> u32 \<Rightarrow> u32 \<Rightarrow> ARMul_State \<Rightarrow> ARMul_State \<times> flow" where
  "MSR_INST c R inst cpu =
    (if cond_ok cpu c then
       (let operand = msr_operand cpu inst;
            byte_mask = msr_byte_mask inst;
            cpu3 =
              (if R = 0 then
                 (let mask =
                        (if InAPrivilegedMode cpu then
                           (if operand AND StateMask \<noteq> 0 then 0
                            else byte_mask AND (UserMask OR PrivMask))
                         else byte_mask AND UserMask);
                      cpu1 = SAVE_NZCVT cpu;
                      cpu2 = cpu1\<lparr>Cpsr := (Cpsr cpu1 AND NOT mask) OR (operand AND mask)\<rparr> in
                  LOAD_NZCVT (ChangePrivilegeMode (Cpsr cpu2 AND 0x1F) cpu2))
               else if CurrentModeHasSPSR cpu then
                 (let mask = byte_mask AND (UserMask OR PrivMask OR StateMask) in
                  cpu\<lparr>Spsr_copy := (Spsr_copy cpu AND NOT mask) OR (operand AND mask)\<rparr>)
               else cpu) in
        (advance_pc cpu3, Next))
     else (advance_pc cpu, Next))"

text \<open>\<open>SWI_INST\<close>: the call passes \<open>inst_cream->num & 0xFFFF\<close>.\<close>

definition SWI_INST :: "u32 \<Rightarrow> u32 \<Rightarrow> ARMul_State \<Rightarrow> ARMul_State \<times> flow" where
  "SWI_INST c num cpu =
    (if cond_ok cpu c then (advance_pc (CallSVC (num AND 0xFFFF) cpu), Next)
     else (advance_pc cpu, Next))"

definition BKPT_INST :: "u32 \<Rightarrow> u32 \<Rightarrow> ARMul_State \<Rightarrow> ARMul_State \<times> flow" where
  "BKPT_INST c imm cpu =
    (if cond_ok cpu c then (advance_pc cpu, Next) else (advance_pc cpu, Next))"

fun System_INST :: "sys_op \<Rightarrow> u32 \<Rightarrow> ARMul_State \<Rightarrow> ARMul_State \<times> flow" where
  "System_INST (MCR ic) c cpu = MCR_INST c ic cpu"
| "System_INST (MRC ic) c cpu = MRC_INST c ic cpu"
| "System_INST (CPS ic) c cpu = CPS_INST ic cpu"
| "System_INST (SETEND b) c cpu = SETEND_INST b cpu"
| "System_INST (MRS R rd) c cpu = MRS_INST c R rd cpu"
| "System_INST (MSR R inst) c cpu = MSR_INST c R inst cpu"
| "System_INST (SWI num) c cpu = SWI_INST c num cpu"
| "System_INST (BKPT imm) c cpu = BKPT_INST c imm cpu"

subsection \<open>Multiplies, bit manipulation, swaps\<close>

definition clz :: "u32 \<Rightarrow> u32" where
  "clz x =
    (if x = 0 then 32
     else
       (let n = (1 :: u32);
            (n, x) = (if drop_bit 16 x = 0 then (n + 16, push_bit 16 x) else (n, x));
            (n, x) = (if drop_bit 24 x = 0 then (n + 8, push_bit 8 x) else (n, x));
            (n, x) = (if drop_bit 28 x = 0 then (n + 4, push_bit 4 x) else (n, x));
            (n, x) = (if drop_bit 30 x = 0 then (n + 2, push_bit 2 x) else (n, x)) in
        n - drop_bit 31 x))"

definition CLZ_INST :: "u32 \<Rightarrow> u32 \<Rightarrow> u32 \<Rightarrow> ARMul_State \<Rightarrow> ARMul_State \<times> flow" where
  "CLZ_INST c rm rd cpu =
    (if cond_ok cpu c then (advance_pc (set_reg rd (clz (Reg cpu (unat rm))) cpu), Next)
     else (advance_pc cpu, Next))"

definition mul_flags :: "mul_inst \<Rightarrow> ARMul_State \<Rightarrow> ARMul_State" where
  "mul_flags ic cpu =
    (if mul_S ic \<noteq> 0 then
       UPDATE_ZFLAG (Reg cpu (unat (mul_Rd ic))) (UPDATE_NFLAG (Reg cpu (unat (mul_Rd ic))) cpu)
     else cpu)"

definition MUL_INST :: "u32 \<Rightarrow> mul_inst \<Rightarrow> ARMul_State \<Rightarrow> ARMul_State \<times> flow" where
  "MUL_INST c ic cpu =
    (if cond_ok cpu c then
       (let rm = (ucast (Reg cpu (unat (mul_Rm ic))) :: 64 word);
            rs = (ucast (Reg cpu (unat (mul_Rs ic))) :: 64 word);
            cpu1 = set_reg (mul_Rd ic) (ucast ((rm * rs) AND 0xffffffff)) cpu in
        finish_rd (mul_Rd ic) (mul_flags ic cpu1))
     else (advance_pc cpu, Next))"

definition MLA_INST :: "u32 \<Rightarrow> mul_inst \<Rightarrow> ARMul_State \<Rightarrow> ARMul_State \<times> flow" where
  "MLA_INST c ic cpu =
    (if cond_ok cpu c then
       (let rm = (ucast (Reg cpu (unat (mul_Rm ic))) :: 64 word);
            rs = (ucast (Reg cpu (unat (mul_Rs ic))) :: 64 word);
            rn = (ucast (Reg cpu (unat (mul_Rn ic))) :: 64 word);
            cpu1 = set_reg (mul_Rd ic) (ucast ((rm * rs + rn) AND 0xffffffff)) cpu in
        finish_rd (mul_Rd ic) (mul_flags ic cpu1))
     else (advance_pc cpu, Next))"

definition rev_result :: "u32 \<Rightarrow> u32 \<Rightarrow> u32 \<Rightarrow> u32 \<Rightarrow> ARMul_State \<Rightarrow> ARMul_State" where
  "rev_result rd rm o1 o2 cpu =
    (let RM = Reg cpu (unat rm); op1 = (ucast o1 :: u8); op2 = (ucast o2 :: u8) in
     if op1 = 0x03 \<and> op2 = 0x01 then
       set_reg rd (push_bit 24 (RM AND 0xFF) OR push_bit 16 (drop_bit 8 RM AND 0xFF)
         OR push_bit 8 (drop_bit 16 RM AND 0xFF) OR (drop_bit 24 RM AND 0xFF)) cpu
     else if op1 = 0x03 \<and> op2 = 0x05 then
       set_reg rd (push_bit 8 (RM AND 0xFF) OR drop_bit 8 (RM AND 0xFF00)
         OR push_bit 8 (RM AND 0xFF0000) OR drop_bit 8 (RM AND 0xFF000000)) cpu
     else if op1 = 0x07 \<and> op2 = 0x05 then
       (let cpu1 = set_reg rd (push_bit 8 (RM AND 0xFF) OR drop_bit 8 (RM AND 0xFF00)) cpu in
        if Reg cpu1 (unat rd) AND 0x8000 \<noteq> 0 then
          set_reg rd (Reg cpu1 (unat rd) OR 0xffff0000) cpu1
        else cpu1)
     else cpu)"

definition REV_INST :: "u32 \<Rightarrow> u32 \<Rightarrow> u32 \<Rightarrow> u32 \<Rightarrow> u32 \<Rightarrow> ARMul_State \<Rightarrow> ARMul_State \<times> flow" where
  "REV_INST c rd rm o1 o2 cpu =
    (if cond_ok cpu c then (advance_pc (rev_result rd rm o1 o2 cpu), Next)
     else (advance_pc cpu, Next))"

definition SWP_INST :: "u32 \<Rightarrow> u32 \<Rightarrow> u32 \<Rightarrow> u32 \<Rightarrow> ARMul_State \<Rightarrow> ARMul_State \<times> flow" where
  "SWP_INST c rn rd rm cpu =
    (if cond_ok cpu c then
       (let addr = Reg cpu (unat rn);
            v = ReadMemory32 cpu addr;
            cpu1 = WriteMemory32 addr (Reg cpu (unat rm)) cpu in
        (advance_pc (set_reg rd v cpu1), Next))
     else (advance_pc cpu, Next))"

definition SWPB_INST :: "u32 \<Rightarrow> u32 \<Rightarrow> u32 \<Rightarrow> u32 \<Rightarrow> ARMul_State \<Rightarrow> ARMul_State \<times> flow" where
  "SWPB_INST c rn rd rm cpu =
    (if cond_ok cpu c then
       (let addr = Reg cpu (unat rn);
            v = Read8 cpu addr;
            cpu1 = Write8 addr (Reg cpu (unat rm) AND 0xFF) cpu in
        (advance_pc (set_reg rd v cpu1), Next))
     else (advance_pc cpu, Next))"

fun Misc_INST :: "misc_op \<Rightarrow> u32 \<Rightarrow> ARMul_State \<Rightarrow> ARMul_State \<times> flow" where
  "Misc_INST (CLZ rm rd) c cpu = CLZ_INST c rm rd cpu"
| "Misc_INST (MUL ic) c cpu = MUL_INST c ic cpu"
| "Misc_INST (MLA ic) c cpu = MLA_INST c ic cpu"
| "Misc_INST (REV rd rm o1 o2) c cpu = REV_INST c rd rm o1 o2 cpu"
| "Misc_INST (REV16 rd rm o1 o2) c cpu = REV_INST c rd rm o1 o2 cpu"
| "Misc_INST (REVSH rd rm o1 o2) c cpu = REV_INST c rd rm o1 o2 cpu"
| "Misc_INST (SWP rn rd rm) c cpu = SWP_INST c rn rd rm cpu"
| "Misc_INST (SWPB rn rd rm) c cpu = SWPB_INST c rn rd rm cpu"

text \<open>
  \<open>SXTAB16_INST\<close> and \<open>SXTB16_INST\<close> share one body, and so do \<open>UXTAB16_INST\<close> and
  \<open>UXTB16_INST\<close>: the form without accumulate is the one with \<open>Rn = 15\<close>. The rotation
  is written with two shifts; \<open>rotate\<close> is a two-bit field, so the amounts are 0, 8, 16
  or 24. In the second body the rotation by 0 shifts left by 32, which C++ leaves
  undefined; with \<open>push_bit\<close> the left part is 0 and the result is \<open>rm_val\<close>, as it is
  when the hardware takes the amount modulo 32.
\<close>

definition sxtab16_value :: "ext_inst \<Rightarrow> ARMul_State \<Rightarrow> u32" where
  "sxtab16_value ic cpu =
    (let rotation = (ucast (ext_rotate ic * 8) :: u8);
         rm0 = Reg cpu (unat (ext_Rm ic));
         rn_val = Reg cpu (unat (ext_Rn ic));
         rm_val = (if rotation \<noteq> 0
                   then push_bit (32 - unat rotation) rm0 OR drop_bit (unat rotation) rm0
                   else rm0) in
     if ext_Rn ic = 15 then
       (let lo = (scast (ucast rm_val :: u8) :: u32);
            hi = (scast (ucast (drop_bit 16 rm_val) :: u8) :: u32) in
        lo OR push_bit 16 hi)
     else
       (let lo = (rn_val AND 0xFFFF) + (scast (ucast (rm_val AND 0xFF) :: u8) :: u32);
            hi = (drop_bit 16 rn_val AND 0xFFFF)
                   + (scast (ucast (drop_bit 16 rm_val AND 0xFF) :: u8) :: u32) in
        lo OR push_bit 16 hi))"

definition uxtab16_value :: "ext_inst \<Rightarrow> ARMul_State \<Rightarrow> u32" where
  "uxtab16_value ic cpu =
    (let rn_idx = (ucast (ext_Rn ic) :: u8);
         rm_val = Reg cpu (unat (ext_Rm ic));
         rotation = ext_rotate ic * 8;
         rotated_rm = push_bit (unat (32 - rotation)) rm_val OR drop_bit (unat rotation) rm_val in
     if rn_idx = 15 then rotated_rm AND 0x00FF00FF
     else
       (let rn_val = Reg cpu (unat (ext_Rn ic));
            lo_rotated = (ucast (rotated_rm AND 0xFF) :: u8);
            lo_result = (ucast ((rn_val AND 0xFFFF) + ucast lo_rotated) :: 16 word);
            hi_rotated = (ucast (drop_bit 16 rotated_rm AND 0xFF) :: u8);
            hi_result = (ucast (drop_bit 16 rn_val + ucast hi_rotated) :: 16 word) in
        push_bit 16 (ucast hi_result) OR (ucast lo_result AND 0xFFFF)))"

text \<open>The extend handlers rotate \<open>RM\<close> right by \<open>8 * rotate\<close> first.\<close>

fun ext_value :: "ext_op \<Rightarrow> ext_inst \<Rightarrow> ARMul_State \<Rightarrow> u32" where
  "ext_value SXTB ic cpu =
    (let operand2 = ROTATE_RIGHT_32 (Reg cpu (unat (ext_Rm ic))) (unat (8 * ext_rotate ic)) in
     if BIT operand2 7 \<noteq> 0 then operand2 OR 0xffffff00 else operand2 AND 0xff)"
| "ext_value SXTH ic cpu =
    (let operand2 = ROTATE_RIGHT_32 (Reg cpu (unat (ext_Rm ic))) (unat (8 * ext_rotate ic)) in
     if BIT operand2 15 \<noteq> 0 then operand2 OR 0xffff0000 else operand2 AND 0xffff)"
| "ext_value UXTB ic cpu =
     ROTATE_RIGHT_32 (Reg cpu (unat (ext_Rm ic))) (unat (8 * ext_rotate ic)) AND 0xff"
| "ext_value UXTH ic cpu =
     ROTATE_RIGHT_32 (Reg cpu (unat (ext_Rm ic))) (unat (8 * ext_rotate ic)) AND 0xffff"
| "ext_value UXTAB ic cpu =
     Reg cpu (unat (ext_Rn ic))
       + (ROTATE_RIGHT_32 (Reg cpu (unat (ext_Rm ic))) (unat (8 * ext_rotate ic)) AND 0xff)"
| "ext_value UXTAH ic cpu =
     Reg cpu (unat (ext_Rn ic))
       + (ROTATE_RIGHT_32 (Reg cpu (unat (ext_Rm ic))) (unat (8 * ext_rotate ic)) AND 0xffff)"
| "ext_value SXTAB ic cpu =
    (let operand2 = ROTATE_RIGHT_32 (Reg cpu (unat (ext_Rm ic))) (unat (8 * ext_rotate ic)) AND 0xff in
     Reg cpu (unat (ext_Rn ic))
       + (if 0x80 AND operand2 \<noteq> 0 then 0xFFFFFF00 OR operand2 else operand2))"
| "ext_value SXTAH ic cpu =
    (let operand2 = ROTATE_RIGHT_32 (Reg cpu (unat (ext_Rm ic))) (unat (8 * ext_rotate ic)) AND 0xffff in
     Reg cpu (unat (ext_Rn ic))
       + (if 0x8000 AND operand2 \<noteq> 0 then 0xFFFF0000 OR operand2 else operand2))"
| "ext_value SXTAB16 ic cpu = sxtab16_value ic cpu"
| "ext_value SXTB16 ic cpu = sxtab16_value ic cpu"
| "ext_value UXTAB16 ic cpu = uxtab16_value ic cpu"
| "ext_value UXTB16 ic cpu = uxtab16_value ic cpu"

definition Extend_INST :: "ext_op \<Rightarrow> u32 \<Rightarrow> ext_inst \<Rightarrow> ARMul_State \<Rightarrow> ARMul_State \<times> flow" where
  "Extend_INST op c ic cpu =
    (if cond_ok cpu c then (advance_pc (set_reg (ext_Rd ic) (ext_value op ic cpu) cpu), Next)
     else (advance_pc cpu, Next))"

subsection \<open>Loads and stores\<close>

text \<open>
  \<open>inst_cream->get_addr(cpu, inst_cream->inst, addr)\<close> and the destination register
  field, bits 12 to 15 of the instruction.
\<close>

definition calc_addr :: "ldst_inst \<Rightarrow> ARMul_State \<Rightarrow> u32 \<times> ARMul_State" where
  "calc_addr ic cpu = call_get_addr (get_addr ic) cpu (ldst_inst_word ic)"

definition ldst_Rd :: "ldst_inst \<Rightarrow> u32" where
  "ldst_Rd ic = BITS (ldst_inst_word ic) 12 15"

text \<open>The register loops of \<open>LDM_INST\<close>, over the register numbers in order.\<close>

fun ldm_loop :: "u32 \<Rightarrow> nat list \<Rightarrow> ARMul_State \<Rightarrow> u32 \<Rightarrow> ARMul_State \<times> u32" where
  "ldm_loop inst [] cpu addr = (cpu, addr)"
| "ldm_loop inst (i # rest) cpu addr =
    (if BIT inst i \<noteq> 0 then
       ldm_loop inst rest (cpu\<lparr>Reg := (Reg cpu)(i := ReadMemory32 cpu addr)\<rparr>) (addr + 4)
     else ldm_loop inst rest cpu addr)"

fun ldm_plain_loop :: "u32 \<Rightarrow> nat list \<Rightarrow> ARMul_State \<Rightarrow> u32 \<Rightarrow> ARMul_State \<times> u32" where
  "ldm_plain_loop inst [] cpu addr = (cpu, addr)"
| "ldm_plain_loop inst (i # rest) cpu addr =
    (if BIT inst i \<noteq> 0 then
       (let ret = ReadMemory32 cpu addr;
            cpu1 = (if i = 15 then cpu\<lparr>TFlag := ret AND 0x1\<rparr> else cpu);
            ret = (if i = 15 then ret AND 0xFFFFFFFE else ret) in
        ldm_plain_loop inst rest (cpu1\<lparr>Reg := (Reg cpu1)(i := ret)\<rparr>) (addr + 4))
     else ldm_plain_loop inst rest cpu addr)"

definition ldm_user_reg :: "u32 \<Rightarrow> nat \<Rightarrow> nat \<Rightarrow> ARMul_State \<times> u32 \<Rightarrow> ARMul_State \<times> u32" where
  "ldm_user_reg inst i k st =
    (case st of (cpu, addr) \<Rightarrow>
      if BIT inst i \<noteq> 0 then
        ((if Mode cpu = USER32MODE then cpu\<lparr>Reg := (Reg cpu)(i := ReadMemory32 cpu addr)\<rparr>
          else cpu\<lparr>Reg_usr := (Reg_usr cpu)(k := ReadMemory32 cpu addr)\<rparr>), addr + 4)
      else (cpu, addr))"

definition ldm_body :: "ldst_inst \<Rightarrow> ARMul_State \<Rightarrow> ARMul_State" where
  "ldm_body ic cpu =
    (let (addr, cpu1) = calc_addr ic cpu;
         inst = ldst_inst_word ic in
     if BIT inst 22 \<noteq> 0 \<and> BIT inst 15 = 0 then
       fst (ldm_user_reg inst 14 1 (ldm_user_reg inst 13 0 (ldm_loop inst [0..<13] cpu1 addr)))
     else if BIT inst 22 = 0 then fst (ldm_plain_loop inst [0..<16] cpu1 addr)
     else if BIT inst 22 \<noteq> 0 \<and> BIT inst 15 \<noteq> 0 then
       (let (cpu2, addr2) = ldm_loop inst [0..<15] cpu1 addr;
            cpu3 = restore_cpsr cpu2 in
        cpu3\<lparr>Reg := (Reg cpu3)(15 := ReadMemory32 cpu3 addr2)\<rparr>)
     else cpu1)"

definition LDM_INST :: "u32 \<Rightarrow> ldst_inst \<Rightarrow> ARMul_State \<Rightarrow> ARMul_State \<times> flow" where
  "LDM_INST c ic cpu =
    (if cond_ok cpu c then
       (let cpu1 = ldm_body ic cpu in
        if BIT (ldst_inst_word ic) 15 \<noteq> 0 then (cpu1, Dispatch) else (advance_pc cpu1, Next))
     else (advance_pc cpu, Next))"

text \<open>The register loops of \<open>STM_INST\<close>.\<close>

fun stm_user_loop :: "u32 \<Rightarrow> nat list \<Rightarrow> ARMul_State \<Rightarrow> u32 \<Rightarrow> ARMul_State \<times> u32" where
  "stm_user_loop inst [] cpu addr = (cpu, addr)"
| "stm_user_loop inst (i # rest) cpu addr =
    (if BIT inst i \<noteq> 0 then
       stm_user_loop inst rest (WriteMemory32 addr (Reg cpu i) cpu) (addr + 4)
     else stm_user_loop inst rest cpu addr)"

fun stm_plain_loop ::
    "u32 \<Rightarrow> u32 \<Rightarrow> u32 \<Rightarrow> nat list \<Rightarrow> ARMul_State \<Rightarrow> u32 \<Rightarrow> ARMul_State \<times> u32" where
  "stm_plain_loop inst rn old_RN [] cpu addr = (cpu, addr)"
| "stm_plain_loop inst rn old_RN (i # rest) cpu addr =
    (if BIT inst i \<noteq> 0 then
       stm_plain_loop inst rn old_RN rest
         (if i = unat rn then WriteMemory32 addr old_RN cpu
          else WriteMemory32 addr (Reg cpu i) cpu) (addr + 4)
     else stm_plain_loop inst rn old_RN rest cpu addr)"

definition stm_user_reg :: "u32 \<Rightarrow> nat \<Rightarrow> nat \<Rightarrow> ARMul_State \<times> u32 \<Rightarrow> ARMul_State \<times> u32" where
  "stm_user_reg inst i k st =
    (case st of (cpu, addr) \<Rightarrow>
      if BIT inst i \<noteq> 0 then
        ((if Mode cpu = USER32MODE then WriteMemory32 addr (Reg cpu i) cpu
          else WriteMemory32 addr (Reg_usr cpu k) cpu), addr + 4)
      else (cpu, addr))"

definition stm_pc :: "u32 \<Rightarrow> ARMul_State \<times> u32 \<Rightarrow> ARMul_State" where
  "stm_pc inst st =
    (case st of (cpu, addr) \<Rightarrow>
      if BIT inst 15 \<noteq> 0 then WriteMemory32 addr (Reg_usr cpu 1 + 8) cpu else cpu)"

definition stm_body :: "ldst_inst \<Rightarrow> ARMul_State \<Rightarrow> ARMul_State" where
  "stm_body ic cpu =
    (let inst = ldst_inst_word ic;
         rn = BITS inst 16 19;
         old_RN = Reg cpu (unat rn);
         (addr, cpu1) = calc_addr ic cpu in
     if BIT inst 22 = 1 then
       stm_pc inst
         (stm_user_reg inst 14 1 (stm_user_reg inst 13 0 (stm_user_loop inst [0..<13] cpu1 addr)))
     else stm_pc inst (stm_plain_loop inst rn old_RN [0..<15] cpu1 addr))"

definition STM_INST :: "u32 \<Rightarrow> ldst_inst \<Rightarrow> ARMul_State \<Rightarrow> ARMul_State \<times> flow" where
  "STM_INST c ic cpu =
    (if cond_ok cpu c then (advance_pc (stm_body ic cpu), Next)
     else (advance_pc cpu, Next))"

text \<open>
  \<open>LDR_INST\<close> has no condition check; \<open>LDRCOND_INST\<close> is the same code under
  \<open>CondPassed\<close>. A loaded program counter switches to Thumb on bit 0.
\<close>

definition ldr_body :: "ldst_inst \<Rightarrow> ARMul_State \<Rightarrow> ARMul_State \<times> flow" where
  "ldr_body ic cpu =
    (let (addr, cpu1) = calc_addr ic cpu;
         v = ReadMemory32 cpu1 addr;
         cpu2 = set_reg (ldst_Rd ic) v cpu1 in
     if ldst_Rd ic = 15 then
       (let cpu3 = cpu2\<lparr>TFlag := v AND 0x1\<rparr> in
        (set_reg 15 (Reg cpu3 15 AND 0xFFFFFFFE) cpu3, Dispatch))
     else (advance_pc cpu2, Next))"

definition LDR_INST :: "ldst_inst \<Rightarrow> ARMul_State \<Rightarrow> ARMul_State \<times> flow" where
  "LDR_INST ic cpu = ldr_body ic cpu"

definition LDRCOND_INST :: "u32 \<Rightarrow> ldst_inst \<Rightarrow> ARMul_State \<Rightarrow> ARMul_State \<times> flow" where
  "LDRCOND_INST c ic cpu =
    (if CondPassed cpu c then ldr_body ic cpu else (advance_pc cpu, Next))"

text \<open>The other single loads: the value each writes to the destination register.\<close>

fun load_value :: "load_op \<Rightarrow> ARMul_State \<Rightarrow> u32 \<Rightarrow> u32" where
  "load_value LDRB cpu addr = Read8 cpu addr"
| "load_value LDRBT cpu addr = Read8 cpu addr"
| "load_value LDRH cpu addr = ReadMemory16 cpu addr"
| "load_value LDRSB cpu addr =
    (let v = Read8 cpu addr in if BIT v 7 \<noteq> 0 then v OR 0xffffff00 else v)"
| "load_value LDRSH cpu addr =
    (let v = ReadMemory16 cpu addr in if BIT v 15 \<noteq> 0 then v OR 0xffff0000 else v)"
| "load_value LDRT cpu addr = ReadMemory32 cpu addr"
| "load_value op cpu addr = ReadMemory32 cpu addr"

definition load_body :: "load_op \<Rightarrow> ldst_inst \<Rightarrow> ARMul_State \<Rightarrow> ARMul_State \<times> flow" where
  "load_body op ic cpu =
    (let (addr, cpu1) = calc_addr ic cpu;
         cpu2 = set_reg (ldst_Rd ic) (load_value op cpu1 addr) cpu1 in
     finish_rd (ldst_Rd ic) cpu2)"

definition LDRD_INST :: "u32 \<Rightarrow> ldst_inst \<Rightarrow> ARMul_State \<Rightarrow> ARMul_State \<times> flow" where
  "LDRD_INST c ic cpu =
    (let cpu3 =
       (if cond_ok cpu c then
          (let (addr, cpu1) = calc_addr ic cpu;
               cpu2 = cpu1\<lparr>Reg := (Reg cpu1)(unat (ldst_Rd ic) + 0 := ReadMemory32 cpu1 addr)\<rparr> in
           cpu2\<lparr>Reg := (Reg cpu2)(unat (ldst_Rd ic) + 1 := ReadMemory32 cpu2 (addr + 4))\<rparr>)
        else cpu) in
     (set_reg 15 (Reg cpu3 15 + 4) cpu3, Next))"

definition RFE_INST :: "ldst_inst \<Rightarrow> ARMul_State \<Rightarrow> ARMul_State \<times> flow" where
  "RFE_INST ic cpu =
    (let (address, cpu1) = calc_addr ic cpu;
         cpu2 = cpu1\<lparr>Cpsr := ReadMemory32 cpu1 address\<rparr> in
     (set_reg 15 (ReadMemory32 cpu2 (address + 4)) cpu2, Dispatch))"

fun Load_INST :: "load_op \<Rightarrow> u32 \<Rightarrow> ldst_inst \<Rightarrow> ARMul_State \<Rightarrow> ARMul_State \<times> flow" where
  "Load_INST LDM c ic cpu = LDM_INST c ic cpu"
| "Load_INST LDR c ic cpu = LDR_INST ic cpu"
| "Load_INST LDRCOND c ic cpu = LDRCOND_INST c ic cpu"
| "Load_INST LDRD c ic cpu = LDRD_INST c ic cpu"
| "Load_INST RFE c ic cpu = RFE_INST ic cpu"
| "Load_INST op c ic cpu =
    (if cond_ok cpu c then load_body op ic cpu else (advance_pc cpu, Next))"

text \<open>The single stores: what each writes at the computed address.\<close>

fun store_body :: "store_op \<Rightarrow> ldst_inst \<Rightarrow> ARMul_State \<Rightarrow> ARMul_State" where
  "store_body STR_op ic cpu =
    (let (addr, cpu1) = calc_addr ic cpu;
         reg = ldst_Rd ic;
         v = Reg cpu1 (unat reg);
         v = (if reg = 15 then v + 2 * GetInstructionSize cpu1 else v) in
     WriteMemory32 addr v cpu1)"
| "store_body STRB ic cpu =
    (let (addr, cpu1) = calc_addr ic cpu in
     Write8 addr (Reg cpu1 (unat (ldst_Rd ic)) AND 0xff) cpu1)"
| "store_body STRBT ic cpu =
    (let (addr, cpu1) = calc_addr ic cpu in
     Write8 addr (Reg cpu1 (unat (ldst_Rd ic)) AND 0xff) cpu1)"
| "store_body STRD ic cpu =
    (let (addr, cpu1) = calc_addr ic cpu;
         cpu2 = WriteMemory32 (addr + 0) (Reg cpu1 (unat (ldst_Rd ic))) cpu1 in
     WriteMemory32 (addr + 4) (Reg cpu2 (unat (ldst_Rd ic) + 1)) cpu2)"
| "store_body STRH ic cpu =
    (let (addr, cpu1) = calc_addr ic cpu in
     WriteMemory16 addr (Reg cpu1 (unat (ldst_Rd ic)) AND 0xffff) cpu1)"
| "store_body STRT ic cpu =
    (let (addr, cpu1) = calc_addr ic cpu in
     WriteMemory32 addr (Reg cpu1 (unat (ldst_Rd ic))) cpu1)"
| "store_body STM ic cpu = stm_body ic cpu"
| "store_body SRS ic cpu =
    (let (address, cpu1) = calc_addr ic cpu;
         cpu2 = WriteMemory32 (address + 0) (Reg cpu1 14) cpu1 in
     WriteMemory32 (address + 4) (Spsr_copy cpu2) cpu2)"

fun Store_INST :: "store_op \<Rightarrow> u32 \<Rightarrow> ldst_inst \<Rightarrow> ARMul_State \<Rightarrow> ARMul_State \<times> flow" where
  "Store_INST SRS c ic cpu = (advance_pc (store_body SRS ic cpu), Next)"
| "Store_INST STM c ic cpu = STM_INST c ic cpu"
| "Store_INST op c ic cpu =
    (if cond_ok cpu c then (advance_pc (store_body op ic cpu), Next)
     else (advance_pc cpu, Next))"

subsection \<open>Exclusive access and saturating arithmetic\<close>

text \<open>\<open>RD\<close>, \<open>RN\<close> and \<open>RM\<close> are plain reads of the register file here.\<close>

definition ldrex_body :: "generic_op \<Rightarrow> generic_arm_inst \<Rightarrow> ARMul_State \<Rightarrow> ARMul_State \<times> flow" where
  "ldrex_body op ic cpu =
    (let read_addr = Reg cpu (unat (Rn ic));
         cpu1 = SetExclusiveMemoryAddress read_addr cpu;
         cpu2 =
           (if op = LDREX then set_reg (Rd ic) (ReadMemory32 cpu1 read_addr) cpu1
            else if op = LDREXB then set_reg (Rd ic) (Read8 cpu1 read_addr) cpu1
            else if op = LDREXH then set_reg (Rd ic) (ReadMemory16 cpu1 read_addr) cpu1
            else
              (let cpu' = set_reg (Rd ic) (ReadMemory32 cpu1 read_addr) cpu1 in
               cpu'\<lparr>Reg := (Reg cpu')(unat (Rd ic) + 1 := ReadMemory32 cpu' (read_addr + 4))\<rparr>)) in
     finish_rd (Rd ic) cpu2)"

definition strex_write :: "generic_op \<Rightarrow> generic_arm_inst \<Rightarrow> u32 \<Rightarrow> ARMul_State \<Rightarrow> ARMul_State" where
  "strex_write op ic write_addr cpu =
    (if op = STREX then WriteMemory32 write_addr (Reg cpu (unat (Rm ic))) cpu
     else if op = STREXB then Write8 write_addr (Reg cpu (unat (Rm ic))) cpu
     else if op = STREXH then WriteMemory16 write_addr (Reg cpu (unat (Rm ic))) cpu
     else
       (let rt = (ucast (Reg cpu (unat (Rm ic) + 0)) :: 64 word);
            rt2 = (ucast (Reg cpu (unat (Rm ic) + 1)) :: 64 word);
            v = (if InBigEndianMode cpu then push_bit 32 rt OR rt2 else push_bit 32 rt2 OR rt) in
        WriteMemory64 write_addr v cpu))"

definition strex_body :: "generic_op \<Rightarrow> generic_arm_inst \<Rightarrow> ARMul_State \<Rightarrow> ARMul_State" where
  "strex_body op ic cpu =
    (let write_addr = Reg cpu (unat (Rn ic)) in
     if IsExclusiveMemoryAccess cpu write_addr then
       set_reg (Rd ic) 0 (strex_write op ic write_addr (UnsetExclusiveMemoryAddress cpu))
     else set_reg (Rd ic) 1 cpu)"

text \<open>
  \<open>QADD_INST\<close>, \<open>QDADD_INST\<close>, \<open>QDSUB_INST\<close> and \<open>QSUB_INST\<close> share one body, selected
  by \<open>op1\<close>; saturation sets bit 27 of the CPSR.
\<close>

definition set_Q :: "ARMul_State \<Rightarrow> ARMul_State" where
  "set_Q cpu = cpu\<lparr>Cpsr := Cpsr cpu OR push_bit 27 1\<rparr>"

definition saturate :: "bool \<Rightarrow> u32 \<Rightarrow> ARMul_State \<Rightarrow> u32 \<times> ARMul_State" where
  "saturate ov r cpu =
    (if ov then ((if POS r then 0x80000000 else 0x7FFFFFFF), set_Q cpu) else (r, cpu))"

definition qadd_body :: "generic_arm_inst \<Rightarrow> ARMul_State \<Rightarrow> ARMul_State" where
  "qadd_body ic cpu =
    (let rm_val = Reg cpu (unat (Rm ic));
         rn_val = Reg cpu (unat (Rn ic));
         (result, cpu1) =
           (if op1 ic = 0x00 then
              saturate (AddOverflow rm_val rn_val (rm_val + rn_val)) (rm_val + rn_val) cpu
            else if op1 ic = 0x01 then
              saturate (SubOverflow rm_val rn_val (rm_val - rn_val)) (rm_val - rn_val) cpu
            else if op1 ic = 0x02 then
              (let (mul, cpu') = saturate (AddOverflow rn_val rn_val (rn_val * 2)) (rn_val * 2) cpu in
               saturate (AddOverflow rm_val mul (mul + rm_val)) (mul + rm_val) cpu')
            else if op1 ic = 0x03 then
              (let (mul, cpu') = saturate (AddOverflow rn_val rn_val (rn_val * 2)) (rn_val * 2) cpu in
               saturate (SubOverflow rm_val mul (rm_val - mul)) (rm_val - mul) cpu')
            else (0, cpu)) in
     set_reg (Rd ic) result cpu1)"

definition Generic_INST ::
    "generic_op \<Rightarrow> u32 \<Rightarrow> generic_arm_inst \<Rightarrow> ARMul_State \<Rightarrow> ARMul_State \<times> flow" where
  "Generic_INST op c ic cpu =
    (if cond_ok cpu c then
       (if op = QADD \<or> op = QDADD \<or> op = QDSUB \<or> op = QSUB then
          (advance_pc (qadd_body ic cpu), Next)
        else if op = LDREX \<or> op = LDREXB \<or> op = LDREXH \<or> op = LDREXD then ldrex_body op ic cpu
        else (advance_pc (strex_body op ic cpu), Next))
     else (advance_pc cpu, Next))"

subsection \<open>Packing, SIMD on words and saturation\<close>

text \<open>
  Lanes of a word: \<open>lane8 x n\<close> is \<open>(x >> 8n) & 0xFF\<close> as a byte and \<open>lane16 x n\<close> is
  \<open>(x >> 16n) & 0xFFFF\<close> as a halfword. \<open>pack8\<close> and \<open>pack16\<close> are the expressions
  \<open>(a & 0xFF) | ((b & 0xFF) << 8) | ((c & 0xFF) << 16) | ((d & 0xFF) << 24)\<close> and
  \<open>(lo & 0xFFFF) | ((hi & 0xFFFF) << 16)\<close> that assemble \<open>RD\<close>. Where the source computes
  a lane in a signed C type, the model computes it in \<open>int\<close> and the packing truncates.
\<close>

type_synonym u16 = "16 word"

definition lane8 :: "u32 \<Rightarrow> nat \<Rightarrow> u8" where
  "lane8 x n = ucast (drop_bit (8 * n) x AND 0xFF)"

definition lane16 :: "u32 \<Rightarrow> nat \<Rightarrow> u16" where
  "lane16 x n = ucast (drop_bit (16 * n) x AND 0xFFFF)"

definition pack8 :: "u8 \<Rightarrow> u8 \<Rightarrow> u8 \<Rightarrow> u8 \<Rightarrow> u32" where
  "pack8 a b c d =
     ucast a OR push_bit 8 (ucast b) OR push_bit 16 (ucast c) OR push_bit 24 (ucast d)"

definition pack16 :: "u16 \<Rightarrow> u16 \<Rightarrow> u32" where
  "pack16 lo hi = ucast lo OR push_bit 16 (ucast hi)"

text \<open>
  Modelled from the spec: the saturation helpers \<open>ARMul_SignedSaturatedAdd8\<close> to
  \<open>ARMul_UnsignedSatQ\<close> and \<open>ARMul_UnsignedAbsoluteDifference\<close> are defined outside
  the sources. The saturating lane operations clamp the exact sum or difference to
  the range of the lane; \<open>ARMul_AddOverflowQ\<close> tells whether a signed 32-bit sum
  overflows; \<open>ARMul_SignedSatQ v n\<close> clamps a signed value to \<open>n + 1\<close> bits and
  \<open>ARMul_UnsignedSatQ v n\<close> to the unsigned \<open>n\<close>-bit range, and both tell whether they
  clamped.
\<close>

definition ARMul_SignedSaturatedAdd8 :: "u8 \<Rightarrow> u8 \<Rightarrow> u8" where
  "ARMul_SignedSaturatedAdd8 l r =
    (let s = sint l + sint r in
     if 127 < s then 0x7F else if s < - 128 then 0x80 else word_of_int s)"

definition ARMul_SignedSaturatedSub8 :: "u8 \<Rightarrow> u8 \<Rightarrow> u8" where
  "ARMul_SignedSaturatedSub8 l r =
    (let s = sint l - sint r in
     if 127 < s then 0x7F else if s < - 128 then 0x80 else word_of_int s)"

definition ARMul_SignedSaturatedAdd16 :: "u16 \<Rightarrow> u16 \<Rightarrow> u16" where
  "ARMul_SignedSaturatedAdd16 l r =
    (let s = sint l + sint r in
     if 32767 < s then 0x7FFF else if s < - 32768 then 0x8000 else word_of_int s)"

definition ARMul_SignedSaturatedSub16 :: "u16 \<Rightarrow> u16 \<Rightarrow> u16" where
  "ARMul_SignedSaturatedSub16 l r =
    (let s = sint l - sint r in
     if 32767 < s then 0x7FFF else if s < - 32768 then 0x8000 else word_of_int s)"

definition ARMul_UnsignedSaturatedAdd8 :: "u8 \<Rightarrow> u8 \<Rightarrow> u8" where
  "ARMul_UnsignedSaturatedAdd8 l r = (if 255 < unat l + unat r then 0xFF else l + r)"

definition ARMul_UnsignedSaturatedSub8 :: "u8 \<Rightarrow> u8 \<Rightarrow> u8" where
  "ARMul_UnsignedSaturatedSub8 l r = (if l \<le> r then 0 else l - r)"

definition ARMul_UnsignedSaturatedAdd16 :: "u16 \<Rightarrow> u16 \<Rightarrow> u16" where
  "ARMul_UnsignedSaturatedAdd16 l r = (if 65535 < unat l + unat r then 0xFFFF else l + r)"

definition ARMul_UnsignedSaturatedSub16 :: "u16 \<Rightarrow> u16 \<Rightarrow> u16" where
  "ARMul_UnsignedSaturatedSub16 l r = (if l \<le> r then 0 else l - r)"

definition ARMul_UnsignedAbsoluteDifference :: "u8 \<Rightarrow> u8 \<Rightarrow> u8" where
  "ARMul_UnsignedAbsoluteDifference l r = (if r < l then l - r else r - l)"

definition ARMul_AddOverflowQ :: "u32 \<Rightarrow> u32 \<Rightarrow> bool" where
  "ARMul_AddOverflowQ a b = (sint (a + b) \<noteq> sint a + sint b)"

definition ARMul_SignedSatQ :: "u32 \<Rightarrow> u8 \<Rightarrow> u32 \<times> bool" where
  "ARMul_SignedSatQ v n =
    (let top = (2 :: int) ^ unat n - 1 in
     if top < sint v then (word_of_int top, True)
     else if sint v < - top - 1 then (word_of_int (- top - 1), True)
     else (v, False))"

definition ARMul_UnsignedSatQ :: "u32 \<Rightarrow> u8 \<Rightarrow> u32 \<times> bool" where
  "ARMul_UnsignedSatQ v n =
    (let top = (2 :: int) ^ unat n - 1 in
     if sint v < 0 then (0, True)
     else if top < sint v then (word_of_int top, True)
     else (v, False))"

text \<open>
  \<open>cpu->Cpsr |= (1 << n)\<close> or \<open>cpu->Cpsr &= ~(1 << n)\<close> on a test; the halfword forms
  set two neighbouring GE bits on one test.
\<close>

definition set_GE :: "nat \<Rightarrow> bool \<Rightarrow> ARMul_State \<Rightarrow> ARMul_State" where
  "set_GE n b cpu =
    (if b then cpu\<lparr>Cpsr := Cpsr cpu OR push_bit n 1\<rparr>
     else cpu\<lparr>Cpsr := Cpsr cpu AND NOT (push_bit n 1)\<rparr>)"

definition set_GE_pair :: "nat \<Rightarrow> bool \<Rightarrow> ARMul_State \<Rightarrow> ARMul_State" where
  "set_GE_pair n b cpu = set_GE (n + 1) b (set_GE n b cpu)"

definition pkhbt_body :: "pkh_inst \<Rightarrow> ARMul_State \<Rightarrow> ARMul_State" where
  "pkhbt_body ic cpu =
    set_reg (pkh_Rd ic)
      ((Reg cpu (unat (pkh_Rn ic)) AND 0xFFFF)
         OR (push_bit (unat (pkh_imm ic)) (Reg cpu (unat (pkh_Rm ic))) AND 0xFFFF0000)) cpu"

definition pkhtb_body :: "pkh_inst \<Rightarrow> ARMul_State \<Rightarrow> ARMul_State" where
  "pkhtb_body ic cpu =
    (let shift_imm = (if pkh_imm ic \<noteq> 0 then unat (pkh_imm ic) else 31) in
     set_reg (pkh_Rd ic)
       ((signed_drop_bit shift_imm (Reg cpu (unat (pkh_Rm ic))) AND 0xFFFF)
          OR (Reg cpu (unat (pkh_Rn ic)) AND 0xFFFF0000)) cpu)"

fun Pkh_INST :: "pkh_op \<Rightarrow> u32 \<Rightarrow> pkh_inst \<Rightarrow> ARMul_State \<Rightarrow> ARMul_State \<times> flow" where
  "Pkh_INST PKHBT c ic cpu =
    (if cond_ok cpu c then (advance_pc (pkhbt_body ic cpu), Next) else (advance_pc cpu, Next))"
| "Pkh_INST PKHTB c ic cpu =
    (if cond_ok cpu c then (advance_pc (pkhtb_body ic cpu), Next) else (advance_pc cpu, Next))"

text \<open>\<open>QADD8_INST\<close> to \<open>QSUBADDX_INST\<close>: one body, selected by \<open>op2\<close>.\<close>

definition qadd8_body :: "generic_arm_inst \<Rightarrow> ARMul_State \<Rightarrow> ARMul_State" where
  "qadd8_body ic cpu =
    (let rm_lo = lane16 (Reg cpu (unat (Rm ic))) 0;
         rm_hi = lane16 (Reg cpu (unat (Rm ic))) 1;
         rn_lo = lane16 (Reg cpu (unat (Rn ic))) 0;
         rn_hi = lane16 (Reg cpu (unat (Rn ic))) 1;
         (lo_result, hi_result) =
           (if op2 ic = 0x00 then
              (ARMul_SignedSaturatedAdd16 rn_lo rm_lo, ARMul_SignedSaturatedAdd16 rn_hi rm_hi)
            else if op2 ic = 0x01 then
              (ARMul_SignedSaturatedSub16 rn_lo rm_hi, ARMul_SignedSaturatedAdd16 rn_hi rm_lo)
            else if op2 ic = 0x02 then
              (ARMul_SignedSaturatedAdd16 rn_lo rm_hi, ARMul_SignedSaturatedSub16 rn_hi rm_lo)
            else if op2 ic = 0x03 then
              (ARMul_SignedSaturatedSub16 rn_lo rm_lo, ARMul_SignedSaturatedSub16 rn_hi rm_hi)
            else if op2 ic = 0x04 then
              (ucast (ARMul_SignedSaturatedAdd8 (ucast (rn_lo AND 0xFF)) (ucast (rm_lo AND 0xFF)))
                 OR push_bit 8 (ucast (ARMul_SignedSaturatedAdd8 (ucast (drop_bit 8 rn_lo))
                                         (ucast (drop_bit 8 rm_lo)))),
               ucast (ARMul_SignedSaturatedAdd8 (ucast (rn_hi AND 0xFF)) (ucast (rm_hi AND 0xFF)))
                 OR push_bit 8 (ucast (ARMul_SignedSaturatedAdd8 (ucast (drop_bit 8 rn_hi))
                                         (ucast (drop_bit 8 rm_hi)))))
            else if op2 ic = 0x07 then
              (ucast (ARMul_SignedSaturatedSub8 (ucast (rn_lo AND 0xFF)) (ucast (rm_lo AND 0xFF)))
                 OR push_bit 8 (ucast (ARMul_SignedSaturatedSub8 (ucast (drop_bit 8 rn_lo))
                                         (ucast (drop_bit 8 rm_lo)))),
               ucast (ARMul_SignedSaturatedSub8 (ucast (rn_hi AND 0xFF)) (ucast (rm_hi AND 0xFF)))
                 OR push_bit 8 (ucast (ARMul_SignedSaturatedSub8 (ucast (drop_bit 8 rn_hi))
                                         (ucast (drop_bit 8 rm_hi)))))
            else (0, 0)) in
     set_reg (Rd ic) (pack16 lo_result hi_result) cpu)"

text \<open>
  \<open>SADD8_INST\<close> to \<open>SSUB16_INST\<close>: the lane results are signed, and a GE bit is set
  when its lane is not negative. Another \<open>op2\<close> does nothing.
\<close>

definition sadd8_body :: "generic_arm_inst \<Rightarrow> ARMul_State \<Rightarrow> ARMul_State" where
  "sadd8_body ic cpu =
    (let RN = Reg cpu (unat (Rn ic)); RM = Reg cpu (unat (Rm ic)) in
     if op2 ic = 0x00 \<or> op2 ic = 0x01 \<or> op2 ic = 0x02 \<or> op2 ic = 0x03 then
       (let rn_lo = sint (lane16 RN 0); rn_hi = sint (lane16 RN 1);
            rm_lo = sint (lane16 RM 0); rm_hi = sint (lane16 RM 1);
            (lo_result, hi_result) =
              (if op2 ic = 0x00 then (rn_lo + rm_lo, rn_hi + rm_hi)
               else if op2 ic = 0x01 then (rn_lo - rm_hi, rn_hi + rm_lo)
               else if op2 ic = 0x02 then (rn_lo + rm_hi, rn_hi - rm_lo)
               else if op2 ic = 0x03 then (rn_lo - rm_lo, rn_hi - rm_hi)
               else (0, 0));
            cpu1 = set_reg (Rd ic) (pack16 (word_of_int lo_result) (word_of_int hi_result)) cpu in
        set_GE_pair 18 (0 \<le> hi_result) (set_GE_pair 16 (0 \<le> lo_result) cpu1))
     else if op2 ic = 0x04 \<or> op2 ic = 0x07 then
       (let v = (\<lambda>n. if op2 ic = 0x04 then sint (lane8 RN n) + sint (lane8 RM n)
                      else sint (lane8 RN n) - sint (lane8 RM n));
            cpu1 = set_reg (Rd ic)
                     (pack8 (word_of_int (v 0)) (word_of_int (v 1)) (word_of_int (v 2))
                        (word_of_int (v 3))) cpu in
        set_GE 19 (0 \<le> v 3) (set_GE 18 (0 \<le> v 2) (set_GE 17 (0 \<le> v 1)
          (set_GE 16 (0 \<le> v 0) cpu1))))
     else cpu)"

definition sel_body :: "generic_arm_inst \<Rightarrow> ARMul_State \<Rightarrow> ARMul_State" where
  "sel_body ic cpu =
    (let to = Reg cpu (unat (Rm ic));
         from = Reg cpu (unat (Rn ic));
         cpsr = Cpsr cpu;
         r0 = (if cpsr AND push_bit 16 1 \<noteq> 0 then from AND 0xff else to AND 0xff);
         r1 = r0 OR (if cpsr AND push_bit 17 1 \<noteq> 0 then from AND 0x0000ff00
                     else to AND 0x0000ff00);
         r2 = r1 OR (if cpsr AND push_bit 18 1 \<noteq> 0 then from AND 0x00ff0000
                     else to AND 0x00ff0000);
         r3 = r2 OR (if cpsr AND push_bit 19 1 \<noteq> 0 then from AND 0xff000000
                     else to AND 0xff000000) in
     set_reg (Rd ic) r3 cpu)"

text \<open>
  \<open>SHADD8_INST\<close> to \<open>SHSUBADDX_INST\<close>: signed lanes halved by an arithmetic shift
  (\<open>div 2\<close> on \<open>int\<close> rounds down, as the shift does).
\<close>

definition shadd8_body :: "generic_arm_inst \<Rightarrow> ARMul_State \<Rightarrow> ARMul_State" where
  "shadd8_body ic cpu =
    (let rm_val = Reg cpu (unat (Rm ic)); rn_val = Reg cpu (unat (Rn ic)) in
     if op2 ic = 0x00 \<or> op2 ic = 0x01 \<or> op2 ic = 0x02 \<or> op2 ic = 0x03 then
       (let rn_lo = sint (lane16 rn_val 0); rn_hi = sint (lane16 rn_val 1);
            rm_lo = sint (lane16 rm_val 0); rm_hi = sint (lane16 rm_val 1);
            (lo_result, hi_result) =
              (if op2 ic = 0x00 then ((rn_lo + rm_lo) div 2, (rn_hi + rm_hi) div 2)
               else if op2 ic = 0x01 then ((rn_lo - rm_hi) div 2, (rn_hi + rm_lo) div 2)
               else if op2 ic = 0x02 then ((rn_lo + rm_hi) div 2, (rn_hi - rm_lo) div 2)
               else if op2 ic = 0x03 then ((rn_lo - rm_lo) div 2, (rn_hi - rm_hi) div 2)
               else (0, 0)) in
        set_reg (Rd ic) (pack16 (word_of_int lo_result) (word_of_int hi_result)) cpu)
     else if op2 ic = 0x04 \<or> op2 ic = 0x07 then
       (let v = (\<lambda>n. if op2 ic = 0x04 then (sint (lane8 rn_val n) + sint (lane8 rm_val n)) div 2
                      else (sint (lane8 rn_val n) - sint (lane8 rm_val n)) div 2) in
        set_reg (Rd ic)
          (pack8 (word_of_int (v 0)) (word_of_int (v 1)) (word_of_int (v 2)) (word_of_int (v 3)))
          cpu)
     else cpu)"

text \<open>
  \<open>UADD8_INST\<close> to \<open>USUBADDX_INST\<close>. \<open>lo_result\<close> and \<open>hi_result\<close> are \<open>s32\<close> holding
  an unsigned 32-bit sum or difference, so the test \<open>>= 0\<close> reads the sign bit. Another
  \<open>op2\<close> writes 0 to \<open>RD\<close>.
\<close>

definition uadd8_body :: "generic_arm_inst \<Rightarrow> ARMul_State \<Rightarrow> ARMul_State" where
  "uadd8_body ic cpu =
    (let rm_val = Reg cpu (unat (Rm ic)); rn_val = Reg cpu (unat (Rn ic));
         rn_lo = rn_val AND 0xFFFF; rn_hi = drop_bit 16 rn_val AND 0xFFFF;
         rm_lo = rm_val AND 0xFFFF; rm_hi = drop_bit 16 rm_val AND 0xFFFF;
         (lo_result, hi_result, cpu1) =
           (if op2 ic = 0x00 then
              (rn_lo + rm_lo, rn_hi + rm_hi,
               set_GE_pair 18 ((rn_hi + rm_hi) AND 0xFFFF0000 \<noteq> 0)
                 (set_GE_pair 16 ((rn_lo + rm_lo) AND 0xFFFF0000 \<noteq> 0) cpu))
            else if op2 ic = 0x01 then
              (rn_lo - rm_hi, rn_hi + rm_lo,
               set_GE_pair 18 (0x10000 \<le> sint (rn_hi + rm_lo))
                 (set_GE_pair 16 (0 \<le> sint (rn_lo - rm_hi)) cpu))
            else if op2 ic = 0x02 then
              (rn_lo + rm_hi, rn_hi - rm_lo,
               set_GE_pair 18 (0 \<le> sint (rn_hi - rm_lo))
                 (set_GE_pair 16 (0x10000 \<le> sint (rn_lo + rm_hi)) cpu))
            else if op2 ic = 0x03 then
              (rn_lo - rm_lo, rn_hi - rm_hi,
               set_GE_pair 18 ((rn_hi - rm_hi) AND 0xFFFF0000 = 0)
                 (set_GE_pair 16 ((rn_lo - rm_lo) AND 0xFFFF0000 = 0) cpu))
            else if op2 ic = 0x04 then
              (let sum = (\<lambda>n. unat (lane8 rn_val n) + unat (lane8 rm_val n)) in
               (ucast (of_nat (sum 0) :: u8) OR push_bit 8 (ucast (of_nat (sum 1) :: u8)),
                ucast (of_nat (sum 2) :: u8) OR push_bit 8 (ucast (of_nat (sum 3) :: u8)),
                set_GE 19 (0x100 \<le> sum 3) (set_GE 18 (0x100 \<le> sum 2)
                  (set_GE 17 (0x100 \<le> sum 1) (set_GE 16 (0x100 \<le> sum 0) cpu)))))
            else if op2 ic = 0x07 then
              (let diff = (\<lambda>n. int (unat (lane8 rn_val n)) - int (unat (lane8 rm_val n))) in
               (ucast (word_of_int (diff 0) :: u8) OR push_bit 8 (ucast (word_of_int (diff 1) :: u8)),
                ucast (word_of_int (diff 2) :: u8) OR push_bit 8 (ucast (word_of_int (diff 3) :: u8)),
                set_GE 19 (0 \<le> diff 3) (set_GE 18 (0 \<le> diff 2)
                  (set_GE 17 (0 \<le> diff 1) (set_GE 16 (0 \<le> diff 0) cpu)))))
            else (0, 0, cpu)) in
     set_reg (Rd ic) ((lo_result AND 0xFFFF) OR push_bit 16 (hi_result AND 0xFFFF)) cpu1)"

text \<open>\<open>UHADD8_INST\<close> to \<open>UHSUB16_INST\<close>: unsigned 32-bit lanes, shifted right by one.\<close>

definition uhadd8_body :: "generic_arm_inst \<Rightarrow> ARMul_State \<Rightarrow> ARMul_State" where
  "uhadd8_body ic cpu =
    (let rm_val = Reg cpu (unat (Rm ic)); rn_val = Reg cpu (unat (Rn ic));
         rn_lo = rn_val AND 0xFFFF; rn_hi = drop_bit 16 rn_val AND 0xFFFF;
         rm_lo = rm_val AND 0xFFFF; rm_hi = drop_bit 16 rm_val AND 0xFFFF in
     if op2 ic = 0x00 \<or> op2 ic = 0x01 \<or> op2 ic = 0x02 \<or> op2 ic = 0x03 then
       (let (lo_val, hi_val) =
              (if op2 ic = 0x00 then (rn_lo + rm_lo, rn_hi + rm_hi)
               else if op2 ic = 0x01 then (rn_lo - rm_hi, rn_hi + rm_lo)
               else if op2 ic = 0x02 then (rn_lo + rm_hi, rn_hi - rm_lo)
               else if op2 ic = 0x03 then (rn_lo - rm_lo, rn_hi - rm_hi)
               else (0, 0)) in
        set_reg (Rd ic)
          ((drop_bit 1 lo_val AND 0xFFFF) OR push_bit 16 (drop_bit 1 hi_val AND 0xFFFF)) cpu)
     else if op2 ic = 0x04 \<or> op2 ic = 0x07 then
       (let b = (\<lambda>x n. drop_bit (8 * n) x AND (0xFF :: u32));
            sum = (\<lambda>n. if op2 ic = 0x04 then b rn_val n + b rm_val n
                        else b rn_val n - b rm_val n) in
        set_reg (Rd ic)
          ((drop_bit 1 (sum 0) AND 0xFF) OR push_bit 8 (drop_bit 1 (sum 1) AND 0xFF)
             OR push_bit 16 (drop_bit 1 (sum 2) AND 0xFF)
             OR push_bit 24 (drop_bit 1 (sum 3) AND 0xFF)) cpu)
     else cpu)"

text \<open>
  \<open>UQADD8_INST\<close> to \<open>UQSUBADDX_INST\<close>. The byte helpers take \<open>u8\<close> arguments, so the
  shifted words are truncated by the call. The last branch has no test: every other
  \<open>op2\<close> is \<open>UQSUB8\<close>.
\<close>

definition uqadd8_body :: "generic_arm_inst \<Rightarrow> ARMul_State \<Rightarrow> ARMul_State" where
  "uqadd8_body ic cpu =
    (let rm_val = Reg cpu (unat (Rm ic)); rn_val = Reg cpu (unat (Rn ic));
         (lo_val, hi_val) =
           (if op2 ic = 0x00 then
              (ARMul_UnsignedSaturatedAdd16 (lane16 rn_val 0) (lane16 rm_val 0),
               ARMul_UnsignedSaturatedAdd16 (lane16 rn_val 1) (lane16 rm_val 1))
            else if op2 ic = 0x01 then
              (ARMul_UnsignedSaturatedSub16 (lane16 rn_val 0) (lane16 rm_val 1),
               ARMul_UnsignedSaturatedAdd16 (lane16 rn_val 1) (lane16 rm_val 0))
            else if op2 ic = 0x02 then
              (ARMul_UnsignedSaturatedAdd16 (lane16 rn_val 0) (lane16 rm_val 1),
               ARMul_UnsignedSaturatedSub16 (lane16 rn_val 1) (lane16 rm_val 0))
            else if op2 ic = 0x03 then
              (ARMul_UnsignedSaturatedSub16 (lane16 rn_val 0) (lane16 rm_val 0),
               ARMul_UnsignedSaturatedSub16 (lane16 rn_val 1) (lane16 rm_val 1))
            else if op2 ic = 0x04 then
              (ucast (ARMul_UnsignedSaturatedAdd8 (ucast rn_val) (ucast rm_val))
                 OR push_bit 8 (ucast (ARMul_UnsignedSaturatedAdd8 (ucast (drop_bit 8 rn_val))
                                         (ucast (drop_bit 8 rm_val)))),
               ucast (ARMul_UnsignedSaturatedAdd8 (ucast (drop_bit 16 rn_val))
                        (ucast (drop_bit 16 rm_val)))
                 OR push_bit 8 (ucast (ARMul_UnsignedSaturatedAdd8 (ucast (drop_bit 24 rn_val))
                                         (ucast (drop_bit 24 rm_val)))))
            else
              (ucast (ARMul_UnsignedSaturatedSub8 (ucast rn_val) (ucast rm_val))
                 OR push_bit 8 (ucast (ARMul_UnsignedSaturatedSub8 (ucast (drop_bit 8 rn_val))
                                         (ucast (drop_bit 8 rm_val)))),
               ucast (ARMul_UnsignedSaturatedSub8 (ucast (drop_bit 16 rn_val))
                        (ucast (drop_bit 16 rm_val)))
                 OR push_bit 8 (ucast (ARMul_UnsignedSaturatedSub8 (ucast (drop_bit 24 rn_val))
                                         (ucast (drop_bit 24 rm_val)))))) in
     set_reg (Rd ic) (pack16 lo_val hi_val) cpu)"

text \<open>\<open>USAD8_INST\<close> and \<open>USADA8_INST\<close>: the accumulating form is the one with \<open>Ra \<noteq> 15\<close>.\<close>

definition usad8_body :: "generic_arm_inst \<Rightarrow> ARMul_State \<Rightarrow> ARMul_State" where
  "usad8_body ic cpu =
    (let ra_idx = (ucast (Ra ic) :: u8);
         rm_val = Reg cpu (unat (Rm ic)); rn_val = Reg cpu (unat (Rn ic));
         diff = (\<lambda>n. ARMul_UnsignedAbsoluteDifference (lane8 rn_val n) (lane8 rm_val n));
         finalDif = (ucast (diff 0) + ucast (diff 1) + ucast (diff 2) + ucast (diff 3) :: u32) in
     set_reg (Rd ic)
       (if ra_idx \<noteq> 15 then finalDif + Reg cpu (unat ra_idx) else finalDif) cpu)"

fun media_body :: "media_op \<Rightarrow> generic_arm_inst \<Rightarrow> ARMul_State \<Rightarrow> ARMul_State" where
  "media_body QADD8 = qadd8_body"
| "media_body QADD16 = qadd8_body"
| "media_body QADDSUBX = qadd8_body"
| "media_body QSUB8 = qadd8_body"
| "media_body QSUB16 = qadd8_body"
| "media_body QSUBADDX = qadd8_body"
| "media_body SADD8 = sadd8_body"
| "media_body SSUB8 = sadd8_body"
| "media_body SADD16 = sadd8_body"
| "media_body SADDSUBX = sadd8_body"
| "media_body SSUBADDX = sadd8_body"
| "media_body SSUB16 = sadd8_body"
| "media_body SEL = sel_body"
| "media_body SHADD8 = shadd8_body"
| "media_body SHADD16 = shadd8_body"
| "media_body SHADDSUBX = shadd8_body"
| "media_body SHSUB8 = shadd8_body"
| "media_body SHSUB16 = shadd8_body"
| "media_body SHSUBADDX = shadd8_body"
| "media_body UADD8 = uadd8_body"
| "media_body UADD16 = uadd8_body"
| "media_body UADDSUBX = uadd8_body"
| "media_body USUB8 = uadd8_body"
| "media_body USUB16 = uadd8_body"
| "media_body USUBADDX = uadd8_body"
| "media_body UHADD8 = uhadd8_body"
| "media_body UHADD16 = uhadd8_body"
| "media_body UHADDSUBX = uhadd8_body"
| "media_body UHSUBADDX = uhadd8_body"
| "media_body UHSUB8 = uhadd8_body"
| "media_body UHSUB16 = uhadd8_body"
| "media_body UQADD8 = uqadd8_body"
| "media_body UQADD16 = uqadd8_body"
| "media_body UQADDSUBX = uqadd8_body"
| "media_body UQSUB8 = uqadd8_body"
| "media_body UQSUB16 = uqadd8_body"
| "media_body UQSUBADDX = uqadd8_body"
| "media_body USAD8 = usad8_body"
| "media_body USADA8 = usad8_body"

definition Media_INST ::
    "media_op \<Rightarrow> u32 \<Rightarrow> generic_arm_inst \<Rightarrow> ARMul_State \<Rightarrow> ARMul_State \<times> flow" where
  "Media_INST op c ic cpu =
    (if cond_ok cpu c then (advance_pc (media_body op ic cpu), Next)
     else (advance_pc cpu, Next))"

text \<open>
  \<open>SSAT_INST\<close>, \<open>SSAT16_INST\<close>, \<open>USAT_INST\<close> and \<open>USAT16_INST\<close>. The scalar forms shift
  first: left, or right arithmetically with the amount 0 standing for 31.
\<close>

definition sat_shift :: "ssat_inst \<Rightarrow> u32 \<Rightarrow> u32" where
  "sat_shift ic rn_val =
    (let shift_type = (ucast (ssat_shift_type ic) :: u8);
         imm5 = (ucast (ssat_imm5 ic) :: u8);
         shift_amount = (if shift_type = 1 \<and> imm5 = 0 then 31 else imm5) in
     if shift_type = 0 then push_bit (unat shift_amount) rn_val
     else if shift_type = 1 then signed_drop_bit (unat shift_amount) rn_val
     else rn_val)"

definition ssat_body :: "ssat_inst \<Rightarrow> ARMul_State \<Rightarrow> ARMul_State" where
  "ssat_body ic cpu =
    (let (rn_val, saturated) =
           ARMul_SignedSatQ (sat_shift ic (Reg cpu (unat (ssat_Rn ic)))) (ucast (ssat_sat_imm ic));
         cpu1 = (if saturated then set_Q cpu else cpu) in
     set_reg (ssat_Rd ic) rn_val cpu1)"

definition ssat16_body :: "ssat_inst \<Rightarrow> ARMul_State \<Rightarrow> ARMul_State" where
  "ssat16_body ic cpu =
    (let RN = Reg cpu (unat (ssat_Rn ic));
         saturate_to = (ucast (ssat_sat_imm ic) :: u8);
         (lo, sat1) = ARMul_SignedSatQ (scast (ucast RN :: u16)) saturate_to;
         (hi, sat2) = ARMul_SignedSatQ (signed_drop_bit 16 RN) saturate_to;
         cpu1 = set_reg (ssat_Rd ic) ((lo AND 0xFFFF) OR push_bit 16 hi) cpu in
     if sat1 \<or> sat2 then set_Q cpu1 else cpu1)"

definition usat_body :: "ssat_inst \<Rightarrow> ARMul_State \<Rightarrow> ARMul_State" where
  "usat_body ic cpu =
    (let (rn_val, saturated) =
           ARMul_UnsignedSatQ (sat_shift ic (Reg cpu (unat (ssat_Rn ic)))) (ucast (ssat_sat_imm ic));
         cpu1 = (if saturated then set_Q cpu else cpu) in
     set_reg (ssat_Rd ic) rn_val cpu1)"

definition usat16_body :: "ssat_inst \<Rightarrow> ARMul_State \<Rightarrow> ARMul_State" where
  "usat16_body ic cpu =
    (let RN = Reg cpu (unat (ssat_Rn ic));
         saturate_to = (ucast (ssat_sat_imm ic) :: u8);
         (lo, sat1) = ARMul_UnsignedSatQ (scast (ucast RN :: u16)) saturate_to;
         (hi, sat2) = ARMul_UnsignedSatQ (signed_drop_bit 16 RN) saturate_to;
         cpu1 = set_reg (ssat_Rd ic) ((lo AND 0xFFFF) OR push_bit 16 hi) cpu in
     if sat1 \<or> sat2 then set_Q cpu1 else cpu1)"

fun sat_body :: "sat_op \<Rightarrow> ssat_inst \<Rightarrow> ARMul_State \<Rightarrow> ARMul_State" where
  "sat_body SSAT = ssat_body"
| "sat_body SSAT16 = ssat16_body"
| "sat_body USAT = usat_body"
| "sat_body USAT16 = usat16_body"

definition Sat_INST :: "sat_op \<Rightarrow> u32 \<Rightarrow> ssat_inst \<Rightarrow> ARMul_State \<Rightarrow> ARMul_State \<times> flow" where
  "Sat_INST op c ic cpu =
    (if cond_ok cpu c then (advance_pc (sat_body op ic cpu), Next)
     else (advance_pc cpu, Next))"

subsection \<open>Halfword and long multiplies\<close>

text \<open>
  The operand of the halfword multiplies: the bottom or the top half of a register,
  sign-extended. \<open>RD\<close>, \<open>RN\<close>, \<open>RDHI\<close> and \<open>RDLO\<close> are reads of the register file at the
  moment they stand in the source, so a test that follows a write of \<open>RD\<close> reads the
  new value.
\<close>

definition half_operand :: "u32 \<Rightarrow> u32 \<Rightarrow> u32" where
  "half_operand sel r =
    (if sel = 0 then (if BIT r 15 \<noteq> 0 then BITS r 0 15 OR 0xffff0000 else BITS r 0 15)
     else (if BIT r 31 \<noteq> 0 then BITS r 16 31 OR 0xffff0000 else BITS r 16 31))"

definition smla_body :: "smla_inst \<Rightarrow> ARMul_State \<Rightarrow> ARMul_State" where
  "smla_body ic cpu =
    (let operand1 = half_operand (smla_x ic) (Reg cpu (unat (smla_Rm ic)));
         operand2 = half_operand (smla_y ic) (Reg cpu (unat (smla_Rs ic)));
         cpu1 = set_reg (smla_Rd ic) (operand1 * operand2 + Reg cpu (unat (smla_Rn ic))) cpu in
     if AddOverflow (operand1 * operand2) (Reg cpu1 (unat (smla_Rn ic)))
          (Reg cpu1 (unat (smla_Rd ic)))
     then set_Q cpu1 else cpu1)"

text \<open>
  \<open>SMLAD_INST\<close>, \<open>SMLSD_INST\<close>, \<open>SMUAD_INST\<close> and \<open>SMUSD_INST\<close>: bit 1 of \<open>op2\<close>
  selects the difference, \<open>Ra = 15\<close> the forms without accumulate.
\<close>

definition smlad_body :: "smlad_inst \<Rightarrow> ARMul_State \<Rightarrow> ARMul_State" where
  "smlad_body ic cpu =
    (let op2 = (ucast (smlad_op2 ic) :: u8);
         rm0 = Reg cpu (unat (smlad_Rm ic));
         rn_val = Reg cpu (unat (smlad_Rn ic));
         rm_val = (if smlad_m ic \<noteq> 0 then push_bit 16 (rm0 AND 0xFFFF) OR drop_bit 16 rm0
                   else rm0);
         product1 = (word_of_int (sint (lane16 rn_val 0) * sint (lane16 rm_val 0)) :: u32);
         product2 = (word_of_int (sint (lane16 rn_val 1) * sint (lane16 rm_val 1)) :: u32);
         rd = unat (smlad_Rd ic);
         ra = unat (smlad_Ra ic);
         accumulate = (\<lambda>p st.
           if smlad_Ra ic \<noteq> 15 then
             (let st1 = st\<lparr>Reg := (Reg st)(rd := Reg st rd + Reg st ra)\<rparr> in
              if ARMul_AddOverflowQ p (Reg st1 ra) then set_Q st1 else st1)
           else st) in
     if BIT (ucast op2) 1 = 0 then
       (let cpu1 = accumulate (product1 + product2)
                     (set_reg (smlad_Rd ic) (product1 + product2) cpu) in
        if ARMul_AddOverflowQ product1 product2 then set_Q cpu1 else cpu1)
     else accumulate (product1 - product2) (set_reg (smlad_Rd ic) (product1 - product2) cpu))"

text \<open>The flags of the long multiplies with \<open>S\<close> set, read from the registers written.\<close>

definition long_flags :: "umull_inst \<Rightarrow> ARMul_State \<Rightarrow> ARMul_State" where
  "long_flags ic cpu =
    (if umull_S ic \<noteq> 0 then
       cpu\<lparr>NFlag := BIT (Reg cpu (unat (umull_RdHi ic))) 31,
           ZFlag := bool_u32 (Reg cpu (unat (umull_RdHi ic)) = 0
                              \<and> Reg cpu (unat (umull_RdLo ic)) = 0)\<rparr>
     else cpu)"

definition sign_extend_64 :: "u32 \<Rightarrow> 64 word" where
  "sign_extend_64 r =
    (let x = (ucast r :: 64 word) in
     if drop_bit 31 x AND 1 \<noteq> 0 then x OR 0xffffffff00000000 else x)"

definition smlal_body :: "umull_inst \<Rightarrow> ARMul_State \<Rightarrow> ARMul_State" where
  "smlal_body ic cpu =
    (let rm = sign_extend_64 (Reg cpu (unat (umull_Rm ic)));
         rs = sign_extend_64 (Reg cpu (unat (umull_Rs ic)));
         hilo = push_bit 32 (ucast (Reg cpu (unat (umull_RdHi ic))) :: 64 word)
                  + ucast (Reg cpu (unat (umull_RdLo ic)));
         rst = rm * rs + hilo;
         cpu1 = set_reg (umull_RdLo ic) (ucast rst) cpu;
         cpu2 = set_reg (umull_RdHi ic) (ucast (drop_bit 32 rst)) cpu1 in
     long_flags ic cpu2)"

definition smlalxy_body :: "smlalxy_inst \<Rightarrow> ARMul_State \<Rightarrow> ARMul_State" where
  "smlalxy_body ic cpu =
    (let half = (\<lambda>sel r.
           let o1 = (if sel \<noteq> 0 then drop_bit 16 (ucast r :: 64 word) else ucast r) AND 0xFFFF in
           if o1 AND 0x8000 \<noteq> 0 then o1 - 65536 else o1);
         operand1 = half (smlalxy_x ic) (Reg cpu (unat (smlalxy_Rn ic)));
         operand2 = half (smlalxy_y ic) (Reg cpu (unat (smlalxy_Rm ic)));
         dest = (push_bit 32 (ucast (Reg cpu (unat (smlalxy_RdHi ic))) :: 64 word)
                   OR ucast (Reg cpu (unat (smlalxy_RdLo ic))))
                  + operand1 * operand2;
         cpu1 = set_reg (smlalxy_RdLo ic) (ucast (dest AND 0xFFFFFFFF)) cpu in
     set_reg (smlalxy_RdHi ic) (ucast (drop_bit 32 dest AND 0xFFFFFFFF)) cpu1)"

text \<open>
  \<open>SMLAW_INST\<close> and \<open>SMULW_INST\<close>: a 32 by 16 signed product, of which bits 16 to 47
  are kept. The exact value fits 64 bits, so it is computed in \<open>int\<close>.
\<close>

definition smlaw_body :: "smlad_inst \<Rightarrow> ARMul_State \<Rightarrow> ARMul_State" where
  "smlaw_body ic cpu =
    (let rm_val = Reg cpu (unat (smlad_Rm ic));
         rn_val = Reg cpu (unat (smlad_Rn ic));
         ra_val = Reg cpu (unat (smlad_Ra ic));
         operand2 = (if smlad_m ic = 1 then lane16 rm_val 1 else lane16 rm_val 0);
         result = sint rn_val * sint operand2 + sint ra_val * 65536;
         cpu1 = set_reg (smlad_Rd ic) (word_of_int (result div 65536)) cpu in
     if result div 65536 \<noteq> sint (Reg cpu1 (unat (smlad_Rd ic))) then set_Q cpu1 else cpu1)"

definition smulw_body :: "smlad_inst \<Rightarrow> ARMul_State \<Rightarrow> ARMul_State" where
  "smulw_body ic cpu =
    (let rm = (if smlad_m ic = 1 then lane16 (Reg cpu (unat (smlad_Rm ic))) 1
               else lane16 (Reg cpu (unat (smlad_Rm ic))) 0);
         result = sint rm * sint (Reg cpu (unat (smlad_Rn ic))) in
     set_reg (smlad_Rd ic) (word_of_int (result div 65536)) cpu)"

text \<open>
  \<open>SMLALD_INST\<close> and \<open>SMLSLD_INST\<close>: the sum or difference of the two products is
  formed in \<open>s32\<close> (it wraps at \<open>2 ^ 31\<close>) and then added as \<open>s64\<close>.
\<close>

definition smlald_body :: "smlald_inst \<Rightarrow> ARMul_State \<Rightarrow> ARMul_State" where
  "smlald_body ic cpu =
    (let rdlo_val = Reg cpu (unat (smlald_RdLo ic));
         rdhi_val = Reg cpu (unat (smlald_RdHi ic));
         rn_val = Reg cpu (unat (smlald_Rn ic));
         rm0 = Reg cpu (unat (smlald_Rm ic));
         rm_val = (if smlald_swap ic = 1 then push_bit 16 (rm0 AND 0xFFFF) OR drop_bit 16 rm0
                   else rm0);
         product1 = (word_of_int (sint (lane16 rn_val 0) * sint (lane16 rm_val 0)) :: u32);
         product2 = (word_of_int (sint (lane16 rn_val 1) * sint (lane16 rm_val 1)) :: u32);
         acc = (ucast rdlo_val OR push_bit 32 (ucast rdhi_val) :: 64 word);
         result = (if BIT (ucast (ucast (smlald_op2 ic) :: u8)) 1 = 0
                   then scast (product1 + product2) + acc
                   else scast (product1 - product2) + acc);
         cpu1 = set_reg (smlald_RdLo ic) (ucast (result AND 0xFFFFFFFF)) cpu in
     set_reg (smlald_RdHi ic) (ucast (drop_bit 32 result AND 0xFFFFFFFF)) cpu1)"

text \<open>
  \<open>SMMLA_INST\<close>, \<open>SMMLS_INST\<close> and \<open>SMMUL_INST\<close>: the top word of a 64-bit product,
  with \<open>Ra\<close> added or subtracted from unless \<open>Ra = 15\<close>, rounded when \<open>m = 1\<close>.
\<close>

definition smmla_body :: "smlad_inst \<Rightarrow> ARMul_State \<Rightarrow> ARMul_State" where
  "smmla_body ic cpu =
    (let rm_val = Reg cpu (unat (smlad_Rm ic));
         rn_val = Reg cpu (unat (smlad_Rn ic));
         product = (scast rn_val * scast rm_val :: 64 word);
         ra64 = push_bit 32 (ucast (Reg cpu (unat (smlad_Ra ic))) :: 64 word);
         result1 = (if smlad_Ra ic \<noteq> 15 then
                      (if BIT (smlad_op2 ic) 1 = 0 then product + ra64 else ra64 - product)
                    else product);
         result = (if smlad_m ic = 1 then result1 + 0x80000000 else result1) in
     set_reg (smlad_Rd ic) (ucast (drop_bit 32 result AND 0xFFFFFFFF)) cpu)"

definition smul_body :: "smul_inst \<Rightarrow> ARMul_State \<Rightarrow> ARMul_State" where
  "smul_body ic cpu =
    (let operand1 = half_operand (smul_x ic) (Reg cpu (unat (smul_Rm ic)));
         operand2 = half_operand (smul_y ic) (Reg cpu (unat (smul_Rs ic))) in
     set_reg (smul_Rd ic) (operand1 * operand2) cpu)"

definition smull_body :: "umull_inst \<Rightarrow> ARMul_State \<Rightarrow> ARMul_State" where
  "smull_body ic cpu =
    (let rm = sign_extend_64 (Reg cpu (unat (umull_Rm ic)));
         rs = sign_extend_64 (Reg cpu (unat (umull_Rs ic)));
         rst = rm * rs;
         cpu1 = set_reg (umull_RdHi ic) (ucast (drop_bit 32 rst)) cpu;
         cpu2 = set_reg (umull_RdLo ic) (ucast rst) cpu1 in
     long_flags ic cpu2)"

definition umaal_body :: "umaal_inst \<Rightarrow> ARMul_State \<Rightarrow> ARMul_State" where
  "umaal_body ic cpu =
    (let rm = (ucast (Reg cpu (unat (umaal_Rm ic))) :: 64 word);
         rn = (ucast (Reg cpu (unat (umaal_Rn ic))) :: 64 word);
         rd_lo = (ucast (Reg cpu (unat (umaal_RdLo ic))) :: 64 word);
         rd_hi = (ucast (Reg cpu (unat (umaal_RdHi ic))) :: 64 word);
         result = rm * rn + rd_lo + rd_hi;
         cpu1 = set_reg (umaal_RdLo ic) (ucast (result AND 0xFFFFFFFF)) cpu in
     set_reg (umaal_RdHi ic) (ucast (drop_bit 32 result AND 0xFFFFFFFF)) cpu1)"

definition umlal_body :: "umull_inst \<Rightarrow> ARMul_State \<Rightarrow> ARMul_State" where
  "umlal_body ic cpu =
    (let rm = (ucast (Reg cpu (unat (umull_Rm ic))) :: 64 word);
         rs = (ucast (Reg cpu (unat (umull_Rs ic))) :: 64 word);
         add = push_bit 32 (ucast (Reg cpu (unat (umull_RdHi ic))) :: 64 word)
                 + ucast (Reg cpu (unat (umull_RdLo ic)));
         rst = rm * rs + add;
         cpu1 = set_reg (umull_RdLo ic) (ucast rst) cpu;
         cpu2 = set_reg (umull_RdHi ic) (ucast (drop_bit 32 rst)) cpu1 in
     long_flags ic cpu2)"

definition umull_body :: "umull_inst \<Rightarrow> ARMul_State \<Rightarrow> ARMul_State" where
  "umull_body ic cpu =
    (let rm = (ucast (Reg cpu (unat (umull_Rm ic))) :: 64 word);
         rs = (ucast (Reg cpu (unat (umull_Rs ic))) :: 64 word);
         rst = rm * rs;
         cpu1 = set_reg (umull_RdHi ic) (ucast (drop_bit 32 rst)) cpu;
         cpu2 = set_reg (umull_RdLo ic) (ucast rst) cpu1 in
     long_flags ic cpu2)"

fun dsp_body :: "dsp_op \<Rightarrow> ARMul_State \<Rightarrow> ARMul_State" where
  "dsp_body (SMLA ic) = smla_body ic"
| "dsp_body (SMLAD ic) = smlad_body ic"
| "dsp_body (SMLSD ic) = smlad_body ic"
| "dsp_body (SMUAD ic) = smlad_body ic"
| "dsp_body (SMUSD ic) = smlad_body ic"
| "dsp_body (SMLAL ic) = smlal_body ic"
| "dsp_body (SMLALXY ic) = smlalxy_body ic"
| "dsp_body (SMLAW ic) = smlaw_body ic"
| "dsp_body (SMLALD ic) = smlald_body ic"
| "dsp_body (SMLSLD ic) = smlald_body ic"
| "dsp_body (SMMLA ic) = smmla_body ic"
| "dsp_body (SMMLS ic) = smmla_body ic"
| "dsp_body (SMMUL ic) = smmla_body ic"
| "dsp_body (SMUL ic) = smul_body ic"
| "dsp_body (SMULL ic) = smull_body ic"
| "dsp_body (SMULW ic) = smulw_body ic"
| "dsp_body (UMAAL ic) = umaal_body ic"
| "dsp_body (UMLAL ic) = umlal_body ic"
| "dsp_body (UMULL ic) = umull_body ic"

definition Dsp_INST :: "dsp_op \<Rightarrow> u32 \<Rightarrow> ARMul_State \<Rightarrow> ARMul_State \<times> flow" where
  "Dsp_INST d c cpu =
    (if cond_ok cpu c then (advance_pc (dsp_body d cpu), Next) else (advance_pc cpu, Next))"

section \<open>The dispatch loop\<close>

text \<open>
  \<open>goto *InstLabel[inst_base->idx]\<close>: the handler of the record's tag, run on the
  record's condition field and payload. Every label of \<open>InterpreterMainLoop\<close> has a tag;
  the VFP labels come from an included file that is not part of the sources and have
  none.
\<close>

definition exec :: "arm_inst \<Rightarrow> ARMul_State \<Rightarrow> ARMul_State \<times> flow" where
  "exec i cpu =
    (case component i of
       DataProc op ic \<Rightarrow> DataProc_INST op (cond i) ic cpu
     | Move op ic \<Rightarrow> Move_INST op (cond i) ic cpu
     | Compare op ic \<Rightarrow> Compare_INST op (cond i) ic cpu
     | Branch b \<Rightarrow> Branch_INST b (cond i) cpu
     | System y \<Rightarrow> System_INST y (cond i) cpu
     | Misc m \<Rightarrow> Misc_INST m (cond i) cpu
     | Stub op \<Rightarrow> Stub_INST op (cond i) cpu
     | Load op ic \<Rightarrow> Load_INST op (cond i) ic cpu
     | Store op ic \<Rightarrow> Store_INST op (cond i) ic cpu
     | Generic op ic \<Rightarrow> Generic_INST op (cond i) ic cpu
     | Extend op ic \<Rightarrow> Extend_INST op (cond i) ic cpu
     | Media op ic \<Rightarrow> Media_INST op (cond i) ic cpu
     | Pkh op ic \<Rightarrow> Pkh_INST op (cond i) ic cpu
     | Dsp d \<Rightarrow> Dsp_INST d (cond i) cpu
     | Sat op ic \<Rightarrow> Sat_INST op (cond i) ic cpu)"

text \<open>
  The state of \<open>InterpreterMainLoop\<close>: the CPU block, the arena (\<open>inst_buf\<close> and
  \<open>top\<close>) and the locals \<open>num_instrs\<close>, \<open>ptr\<close> and \<open>inst_base\<close>. The arena is kept
  as the sequence of its records: a position is the index of a record, and \<open>INC_PC\<close>
  moves to the next one. \<open>executed\<close> is not in the source: it lists the records whose
  handlers were entered, in order.
\<close>

record loop_state =
  ls_cpu :: ARMul_State
  inst_buf :: "nat \<Rightarrow> arm_inst"
  arena_top :: nat
  num_instrs :: u32
  ptr :: nat
  inst_base :: arm_inst
  executed :: "arm_inst list"

text \<open>
  \<open>InterpreterTranslate\<close> appends the records of the basic block at \<open>addr\<close> to the
  arena and enters the block start in the cache under the current program counter.
  The records themselves come from the classifier and the Thumb expander, which are
  not part of the sources: \<open>bb\<close> stands for the decode loop and gives the block's
  records for a CPU state and an address.
\<close>

definition InterpreterTranslate ::
    "(ARMul_State \<Rightarrow> u32 \<Rightarrow> arm_inst list) \<Rightarrow> loop_state \<Rightarrow> u32 \<Rightarrow> loop_state" where
  "InterpreterTranslate bb ls addr =
    (let cpu = ls_cpu ls;
         bb_start = arena_top ls;
         pc_start = Reg cpu 15;
         block = bb cpu addr in
     ls\<lparr>ls_cpu := cpu\<lparr>instruction_cache := (instruction_cache cpu)(pc_start \<mapsto> bb_start)\<rparr>,
        inst_buf := (\<lambda>k. if bb_start \<le> k \<and> k < bb_start + length block
                           then block ! (k - bb_start) else inst_buf ls k),
        arena_top := bb_start + length block,
        ptr := bb_start\<rparr>)"

text \<open>The \<open>DISPATCH\<close> label after the interrupt check, up to \<open>GOTO_NEXT_INST\<close>.\<close>

definition dispatch_prologue ::
    "(ARMul_State \<Rightarrow> u32 \<Rightarrow> arm_inst list) \<Rightarrow> loop_state \<Rightarrow> loop_state" where
  "dispatch_prologue bb ls =
    (let cpu = ls_cpu ls;
         cpu1 = (if TFlag cpu \<noteq> 0 then set_reg 15 (Reg cpu 15 AND 0xfffffffe) cpu
                 else set_reg 15 (Reg cpu 15 AND 0xfffffffc) cpu);
         ls1 = (case instruction_cache cpu1 (Reg cpu1 15) of
                  Some p \<Rightarrow> ls\<lparr>ls_cpu := cpu1, ptr := p\<rparr>
                | None \<Rightarrow> InterpreterTranslate bb (ls\<lparr>ls_cpu := cpu1\<rparr>) (Reg cpu1 15)) in
     ls1\<lparr>inst_base := inst_buf ls1 (ptr ls1)\<rparr>)"

text \<open>The \<open>END\<close> label.\<close>

definition END_label :: "loop_state \<Rightarrow> loop_state" where
  "END_label ls = ls\<lparr>ls_cpu := (SAVE_NZCVT (ls_cpu ls))\<lparr>NumInstrsToExecute := 0\<rparr>\<rparr>"

text \<open>
  One entry of a handler from \<open>GOTO_NEXT_INST\<close>: count the instruction and run the
  handler. \<open>INC_PC\<close> advances \<open>ptr\<close> on the paths that go on to \<open>DISPATCH\<close> or to
  the next record, not on the two that leave the loop.
\<close>

definition enter_handler :: "loop_state \<Rightarrow> loop_state \<times> flow" where
  "enter_handler ls =
    (let ls1 = ls\<lparr>num_instrs := num_instrs ls + 1, executed := executed ls @ [inst_base ls]\<rparr>;
         r = exec (inst_base ls1) (ls_cpu ls1) in
     (ls1\<lparr>ls_cpu := fst r,
          ptr := (if snd r = Return \<or> snd r = End then ptr ls1 else ptr ls1 + 1)\<rparr>, snd r))"

text \<open>
  The loop between the labels. \<open>at_dispatch\<close> tells whether control is at \<open>DISPATCH\<close>
  or at \<open>GOTO_NEXT_INST\<close> with \<open>inst_base\<close> loaded. The result is the state in which
  the function returns; the value returned is its \<open>num_instrs\<close>.
\<close>

function run :: "(ARMul_State \<Rightarrow> u32 \<Rightarrow> arm_inst list) \<Rightarrow> bool \<Rightarrow> loop_state \<Rightarrow> loop_state" where
  "run bb at_dispatch ls =
    (if at_dispatch then
       (if NirqSig (ls_cpu ls) = 0 \<and> Cpsr (ls_cpu ls) AND 0x80 = 0 then END_label ls
        else run bb False (dispatch_prologue bb ls))
     else if NumInstrsToExecute (ls_cpu ls) \<le> num_instrs ls then END_label ls
     else if snd (enter_handler ls) = Return then fst (enter_handler ls)
     else if snd (enter_handler ls) = End then END_label (fst (enter_handler ls))
     else if snd (enter_handler ls) = Dispatch then run bb True (fst (enter_handler ls))
     else if br (inst_base (fst (enter_handler ls))) \<noteq> NON_BRANCH then
       run bb True (fst (enter_handler ls))
     else
       run bb False
         ((fst (enter_handler ls))
            \<lparr>inst_base := inst_buf (fst (enter_handler ls)) (ptr (fst (enter_handler ls)))\<rparr>))"
  by pat_completeness auto

subsection \<open>The loop terminates\<close>

text \<open>
  No handler raises \<open>NumInstrsToExecute\<close>, and every entry of a handler counts one
  instruction, so the distance between \<open>num_instrs\<close> and the budget shrinks.
\<close>

named_theorems budget

lemma budget_prims [budget]:
  "NumInstrsToExecute (set_sco c cpu) = NumInstrsToExecute cpu"
  "NumInstrsToExecute (set_reg r v cpu) = NumInstrsToExecute cpu"
  "NumInstrsToExecute (advance_pc cpu) = NumInstrsToExecute cpu"
  "NumInstrsToExecute (UPDATE_NFLAG v cpu) = NumInstrsToExecute cpu"
  "NumInstrsToExecute (UPDATE_ZFLAG v cpu) = NumInstrsToExecute cpu"
  "NumInstrsToExecute (UPDATE_CFLAG_WITH_SC cpu) = NumInstrsToExecute cpu"
  "NumInstrsToExecute (SAVE_NZCVT cpu) = NumInstrsToExecute cpu"
  "NumInstrsToExecute (LOAD_NZCVT cpu) = NumInstrsToExecute cpu"
  "NumInstrsToExecute (Write8 a v cpu) = NumInstrsToExecute cpu"
  "NumInstrsToExecute (WriteMemory16 a v cpu) = NumInstrsToExecute cpu"
  "NumInstrsToExecute (WriteMemory32 a v cpu) = NumInstrsToExecute cpu"
  "NumInstrsToExecute (WriteMemory64 a w cpu) = NumInstrsToExecute cpu"
  "NumInstrsToExecute (SetExclusiveMemoryAddress a cpu) = NumInstrsToExecute cpu"
  "NumInstrsToExecute (UnsetExclusiveMemoryAddress cpu) = NumInstrsToExecute cpu"
  "NumInstrsToExecute (WriteCP15Register v c1 c2 c3 c4 cpu) = NumInstrsToExecute cpu"
  "NumInstrsToExecute (CallSVC v cpu) = NumInstrsToExecute cpu"
  "NumInstrsToExecute (set_Q cpu) = NumInstrsToExecute cpu"
  by (simp_all add: set_sco_def set_reg_def advance_pc_def UPDATE_NFLAG_def UPDATE_ZFLAG_def
      UPDATE_CFLAG_WITH_SC_def SAVE_NZCVT_def LOAD_NZCVT_def Write8_def WriteMemory16_def
      WriteMemory32_def WriteMemory64_def SetExclusiveMemoryAddress_def
      UnsetExclusiveMemoryAddress_def WriteCP15Register_def CallSVC_def set_Q_def)

lemma budget_cpm [budget]:
  "NumInstrsToExecute (ChangePrivilegeMode m cpu) = NumInstrsToExecute cpu"
  by (simp add: ChangePrivilegeMode_def load_bank_def save_bank_def Let_def)

lemma budget_restore [budget]:
  "NumInstrsToExecute (restore_cpsr cpu) = NumInstrsToExecute cpu"
  by (simp add: restore_cpsr_def Let_def budget)

lemma budget_shtop [budget]:
  "NumInstrsToExecute (snd (call_shtop f cpu x)) = NumInstrsToExecute cpu"
  by (cases f) (simp_all add: DPO_Immediate_def DPO_Register_def
      DPO_LogicalShiftLeftByImmediate_def DPO_LogicalShiftLeftByRegister_def
      DPO_LogicalShiftRightByImmediate_def DPO_LogicalShiftRightByRegister_def
      DPO_ArithmeticShiftRightByImmediate_def DPO_ArithmeticShiftRightByRegister_def
      DPO_RotateRightByImmediate_def DPO_RotateRightByRegister_def Let_def budget)

lemma budget_get_addr [budget]:
  "NumInstrsToExecute (snd (call_get_addr f cpu x)) = NumInstrsToExecute cpu"
  by (cases f) (simp_all add: LnSWoUB_ImmediateOffset_def LnSWoUB_RegisterOffset_def
      LnSWoUB_ScaledRegisterOffset_def LnSWoUB_ImmediatePreIndexed_def
      LnSWoUB_RegisterPreIndexed_def LnSWoUB_ScaledRegisterPreIndexed_def
      LnSWoUB_ImmediatePostIndexed_def LnSWoUB_RegisterPostIndexed_def
      LnSWoUB_ScaledRegisterPostIndexed_def MLnS_ImmediateOffset_def MLnS_RegisterOffset_def
      MLnS_ImmediatePreIndexed_def MLnS_RegisterPreIndexed_def MLnS_ImmediatePostIndexed_def
      MLnS_RegisterPostIndexed_def LdnStM_IncrementAfter_def LdnStM_IncrementBefore_def
      LdnStM_DecrementAfter_def LdnStM_DecrementBefore_def Let_def budget)

lemma budget_calc_addr [budget]:
  "NumInstrsToExecute (snd (calc_addr ic cpu)) = NumInstrsToExecute cpu"
  by (simp add: calc_addr_def budget)

lemma budget_flags [budget]:
  "NumInstrsToExecute (arith_flags S rd c v cpu) = NumInstrsToExecute cpu"
  "NumInstrsToExecute (logic_flags S rd cpu) = NumInstrsToExecute cpu"
  "NumInstrsToExecute (cmp_arith_flags r cpu) = NumInstrsToExecute cpu"
  "NumInstrsToExecute (mul_flags mi cpu) = NumInstrsToExecute cpu"
  "NumInstrsToExecute (fst (finish_rd rd cpu)) = NumInstrsToExecute cpu"
  "NumInstrsToExecute (rev_result a b c1 d cpu) = NumInstrsToExecute cpu"
  "NumInstrsToExecute (snd (saturate ov x cpu)) = NumInstrsToExecute cpu"
  by (simp_all add: arith_flags_def logic_flags_def cmp_arith_flags_def mul_flags_def
      finish_rd_def rev_result_def saturate_def Let_def budget split: prod.splits)

lemma budget_DataProc [budget]:
  "NumInstrsToExecute (fst (DataProc_INST op c ic cpu)) = NumInstrsToExecute cpu"
  by (cases op) (simp_all add: DataProc_INST_def dp_arith_def dp_logic_def Let_def budget
      case_prod_beta)

lemma budget_Move [budget]:
  "NumInstrsToExecute (fst (Move_INST op c ic cpu)) = NumInstrsToExecute cpu"
  by (cases op) (simp_all add: Move_INST_def Let_def budget case_prod_beta)

lemma budget_Compare [budget]:
  "NumInstrsToExecute (fst (Compare_INST op c ic cpu)) = NumInstrsToExecute cpu"
  by (cases op) (simp_all add: Compare_INST_def Let_def budget case_prod_beta)

lemma budget_Branch [budget]:
  "NumInstrsToExecute (fst (Branch_INST b c cpu)) = NumInstrsToExecute cpu"
  by (cases b) (simp_all add: BBL_INST_def BLX_INST_def BX_INST_def B_2_THUMB_INST_def
      B_COND_THUMB_INST_def BL_1_THUMB_INST_def BL_2_THUMB_INST_def BLX_1_THUMB_INST_def
      Let_def budget)

lemma budget_System [budget]:
  "NumInstrsToExecute (fst (System_INST y c cpu)) = NumInstrsToExecute cpu"
  by (cases y) (simp_all add: MCR_INST_def MRC_INST_def CPS_INST_def SETEND_INST_def
      MRS_INST_def MSR_INST_def SWI_INST_def BKPT_INST_def Let_def budget case_prod_beta)

lemma budget_Misc [budget]:
  "NumInstrsToExecute (fst (Misc_INST m c cpu)) = NumInstrsToExecute cpu"
  by (cases m) (simp_all add: CLZ_INST_def MUL_INST_def MLA_INST_def REV_INST_def
      SWP_INST_def SWPB_INST_def Let_def budget)

lemma budget_Stub [budget]:
  "NumInstrsToExecute (fst (Stub_INST op c cpu)) \<le> NumInstrsToExecute cpu"
  by (cases op) (simp_all add: budget)

lemma budget_Extend [budget]:
  "NumInstrsToExecute (fst (Extend_INST op c ic cpu)) = NumInstrsToExecute cpu"
  by (simp add: Extend_INST_def budget)

lemma budget_ldm_loop [budget]:
  "NumInstrsToExecute (fst (ldm_loop inst xs cpu addr)) = NumInstrsToExecute cpu"
  by (induction xs arbitrary: cpu addr) simp_all

lemma budget_ldm_plain_loop [budget]:
  "NumInstrsToExecute (fst (ldm_plain_loop inst xs cpu addr)) = NumInstrsToExecute cpu"
  by (induction xs arbitrary: cpu addr) (simp_all add: Let_def)

lemma budget_stm_user_loop [budget]:
  "NumInstrsToExecute (fst (stm_user_loop inst xs cpu addr)) = NumInstrsToExecute cpu"
  by (induction xs arbitrary: cpu addr) (simp_all add: budget)

lemma budget_stm_plain_loop [budget]:
  "NumInstrsToExecute (fst (stm_plain_loop inst rn old xs cpu addr)) = NumInstrsToExecute cpu"
  by (induction xs arbitrary: cpu addr) (simp_all add: budget)

lemma budget_user_reg [budget]:
  "NumInstrsToExecute (fst (ldm_user_reg inst i k st)) = NumInstrsToExecute (fst st)"
  "NumInstrsToExecute (fst (stm_user_reg inst i k st)) = NumInstrsToExecute (fst st)"
  "NumInstrsToExecute (stm_pc inst st) = NumInstrsToExecute (fst st)"
  by (simp_all add: ldm_user_reg_def stm_user_reg_def stm_pc_def budget split: prod.splits)

lemma budget_ldm_body [budget]:
  "NumInstrsToExecute (ldm_body ic cpu) = NumInstrsToExecute cpu"
  by (simp add: ldm_body_def Let_def budget case_prod_beta)

lemma budget_stm_body [budget]:
  "NumInstrsToExecute (stm_body ic cpu) = NumInstrsToExecute cpu"
  by (simp add: stm_body_def Let_def budget case_prod_beta)

lemma budget_ldr_body [budget]:
  "NumInstrsToExecute (fst (ldr_body ic cpu)) = NumInstrsToExecute cpu"
  "NumInstrsToExecute (fst (load_body op ic cpu)) = NumInstrsToExecute cpu"
  by (simp_all add: ldr_body_def load_body_def Let_def budget case_prod_beta)

lemma budget_Load [budget]:
  "NumInstrsToExecute (fst (Load_INST op c ic cpu)) = NumInstrsToExecute cpu"
  by (cases op) (simp_all add: LDM_INST_def LDR_INST_def LDRCOND_INST_def LDRD_INST_def
      RFE_INST_def Let_def budget case_prod_beta)

lemma budget_store_body [budget]:
  "NumInstrsToExecute (store_body op ic cpu) = NumInstrsToExecute cpu"
  by (cases op) (simp_all add: Let_def budget case_prod_beta)

lemma budget_Store [budget]:
  "NumInstrsToExecute (fst (Store_INST op c ic cpu)) = NumInstrsToExecute cpu"
  by (cases op) (simp_all add: STM_INST_def budget Let_def case_prod_beta)

lemma budget_Generic [budget]:
  "NumInstrsToExecute (fst (Generic_INST op c ic cpu)) = NumInstrsToExecute cpu"
  by (simp add: Generic_INST_def ldrex_body_def strex_body_def strex_write_def qadd_body_def
      Let_def budget case_prod_beta)

lemma budget_media_prims [budget]:
  "NumInstrsToExecute (set_GE n b cpu) = NumInstrsToExecute cpu"
  "NumInstrsToExecute (set_GE_pair n b cpu) = NumInstrsToExecute cpu"
  by (simp_all add: set_GE_def set_GE_pair_def)

lemma budget_Pkh [budget]:
  "NumInstrsToExecute (fst (Pkh_INST op c ic cpu)) = NumInstrsToExecute cpu"
  by (cases op) (simp_all add: pkhbt_body_def pkhtb_body_def Let_def budget)

lemma budget_media_body [budget]:
  "NumInstrsToExecute (qadd8_body ic cpu) = NumInstrsToExecute cpu"
  "NumInstrsToExecute (sadd8_body ic cpu) = NumInstrsToExecute cpu"
  "NumInstrsToExecute (sel_body ic cpu) = NumInstrsToExecute cpu"
  "NumInstrsToExecute (shadd8_body ic cpu) = NumInstrsToExecute cpu"
  "NumInstrsToExecute (uadd8_body ic cpu) = NumInstrsToExecute cpu"
  "NumInstrsToExecute (uhadd8_body ic cpu) = NumInstrsToExecute cpu"
  "NumInstrsToExecute (uqadd8_body ic cpu) = NumInstrsToExecute cpu"
  "NumInstrsToExecute (usad8_body ic cpu) = NumInstrsToExecute cpu"
  by (simp_all add: qadd8_body_def sadd8_body_def sel_body_def shadd8_body_def uadd8_body_def
      uhadd8_body_def uqadd8_body_def usad8_body_def Let_def case_prod_beta budget)

lemma budget_Media [budget]:
  "NumInstrsToExecute (fst (Media_INST op c ic cpu)) = NumInstrsToExecute cpu"
  by (cases op) (simp_all add: Media_INST_def budget)

lemma budget_Sat [budget]:
  "NumInstrsToExecute (fst (Sat_INST op c ic cpu)) = NumInstrsToExecute cpu"
  by (cases op)
    (simp_all add: Sat_INST_def ssat_body_def ssat16_body_def usat_body_def usat16_body_def
      Let_def case_prod_beta budget)

lemma budget_long_flags [budget]:
  "NumInstrsToExecute (long_flags ic cpu) = NumInstrsToExecute cpu"
  by (simp add: long_flags_def)

lemma budget_dsp_body [budget]:
  "NumInstrsToExecute (smla_body a cpu) = NumInstrsToExecute cpu"
  "NumInstrsToExecute (smlad_body b cpu) = NumInstrsToExecute cpu"
  "NumInstrsToExecute (smlal_body l cpu) = NumInstrsToExecute cpu"
  "NumInstrsToExecute (smlalxy_body x cpu) = NumInstrsToExecute cpu"
  "NumInstrsToExecute (smlaw_body b cpu) = NumInstrsToExecute cpu"
  "NumInstrsToExecute (smulw_body b cpu) = NumInstrsToExecute cpu"
  "NumInstrsToExecute (smlald_body d cpu) = NumInstrsToExecute cpu"
  "NumInstrsToExecute (smmla_body b cpu) = NumInstrsToExecute cpu"
  "NumInstrsToExecute (smul_body m cpu) = NumInstrsToExecute cpu"
  "NumInstrsToExecute (smull_body l cpu) = NumInstrsToExecute cpu"
  "NumInstrsToExecute (umaal_body u cpu) = NumInstrsToExecute cpu"
  "NumInstrsToExecute (umlal_body l cpu) = NumInstrsToExecute cpu"
  "NumInstrsToExecute (umull_body l cpu) = NumInstrsToExecute cpu"
  by (simp_all add: smla_body_def smlad_body_def smlal_body_def smlalxy_body_def smlaw_body_def
      smulw_body_def smlald_body_def smmla_body_def smul_body_def smull_body_def umaal_body_def
      umlal_body_def umull_body_def Let_def budget)

lemma budget_Dsp [budget]:
  "NumInstrsToExecute (fst (Dsp_INST d c cpu)) = NumInstrsToExecute cpu"
  by (cases d) (simp_all add: Dsp_INST_def budget)

lemma exec_budget:
  "NumInstrsToExecute (fst (exec i cpu)) \<le> NumInstrsToExecute cpu"
  by (cases "component i") (simp_all add: exec_def budget)


lemma prologue_budget:
  "NumInstrsToExecute (ls_cpu (dispatch_prologue bb ls)) = NumInstrsToExecute (ls_cpu ls)"
  "num_instrs (dispatch_prologue bb ls) = num_instrs ls"
  by (simp_all add: dispatch_prologue_def InterpreterTranslate_def Let_def budget
      split: option.splits)

lemma enter_handler_budget:
  "NumInstrsToExecute (ls_cpu (fst (enter_handler ls))) \<le> NumInstrsToExecute (ls_cpu ls)"
  "num_instrs (fst (enter_handler ls)) = num_instrs ls + 1"
  by (simp_all add: enter_handler_def Let_def exec_budget)

lemma enter_handler_measure:
  assumes "\<not> NumInstrsToExecute (ls_cpu ls) \<le> num_instrs ls"
  shows "unat (NumInstrsToExecute (ls_cpu (fst (enter_handler ls))))
           - unat (num_instrs (fst (enter_handler ls)))
         < unat (NumInstrsToExecute (ls_cpu ls)) - unat (num_instrs ls)"
proof -
  have lt: "unat (num_instrs ls) < unat (NumInstrsToExecute (ls_cpu ls))"
    using assms by (simp add: word_le_nat_alt)
  then have "unat (num_instrs ls) + 1 < 2 ^ 32"
    using unsigned_less [of "NumInstrsToExecute (ls_cpu ls)", where 'a = nat] by simp
  then have suc: "unat (num_instrs ls + 1) = unat (num_instrs ls) + 1"
    by (simp add: unat_word_ariths)
  have le: "unat (NumInstrsToExecute (ls_cpu (fst (enter_handler ls))))
              \<le> unat (NumInstrsToExecute (ls_cpu ls))"
    using enter_handler_budget(1) [of ls] by (simp add: word_le_nat_alt)
  show ?thesis
    using lt suc le by (simp add: enter_handler_budget(2))
qed

termination run
proof (relation "measure (\<lambda>(bb, d, ls).
          2 * (unat (NumInstrsToExecute (ls_cpu ls)) - unat (num_instrs ls)) + (if d then 1 else 0))")
  show "wf (measure (\<lambda>(bb :: ARMul_State \<Rightarrow> u32 \<Rightarrow> arm_inst list, d, ls).
          2 * (unat (NumInstrsToExecute (ls_cpu ls)) - unat (num_instrs ls)) + (if d then 1 else 0)))"
    by simp
next
  fix bb :: "ARMul_State \<Rightarrow> u32 \<Rightarrow> arm_inst list" and at_dispatch :: bool and ls :: loop_state
  assume "at_dispatch"
  then show "((bb, False, dispatch_prologue bb ls), (bb, at_dispatch, ls))
      \<in> measure (\<lambda>(bb, d, ls).
          2 * (unat (NumInstrsToExecute (ls_cpu ls)) - unat (num_instrs ls)) + (if d then 1 else 0))"
    by (simp add: prologue_budget)
next
  fix bb :: "ARMul_State \<Rightarrow> u32 \<Rightarrow> arm_inst list" and at_dispatch :: bool and ls :: loop_state
  assume "\<not> at_dispatch" and "\<not> NumInstrsToExecute (ls_cpu ls) \<le> num_instrs ls"
  then show "((bb, True, fst (enter_handler ls)), (bb, at_dispatch, ls))
      \<in> measure (\<lambda>(bb, d, ls).
          2 * (unat (NumInstrsToExecute (ls_cpu ls)) - unat (num_instrs ls)) + (if d then 1 else 0))"
    using enter_handler_measure [of ls] by simp
next
  fix bb :: "ARMul_State \<Rightarrow> u32 \<Rightarrow> arm_inst list" and at_dispatch :: bool and ls :: loop_state
  assume "\<not> at_dispatch" and "\<not> NumInstrsToExecute (ls_cpu ls) \<le> num_instrs ls"
  then show "((bb, True, fst (enter_handler ls)), (bb, at_dispatch, ls))
      \<in> measure (\<lambda>(bb, d, ls).
          2 * (unat (NumInstrsToExecute (ls_cpu ls)) - unat (num_instrs ls)) + (if d then 1 else 0))"
    using enter_handler_measure [of ls] by simp
next
  fix bb :: "ARMul_State \<Rightarrow> u32 \<Rightarrow> arm_inst list" and at_dispatch :: bool and ls :: loop_state
  assume "\<not> at_dispatch" and "\<not> NumInstrsToExecute (ls_cpu ls) \<le> num_instrs ls"
  then show "((bb, False, (fst (enter_handler ls))
            \<lparr>inst_base := inst_buf (fst (enter_handler ls)) (ptr (fst (enter_handler ls)))\<rparr>),
          (bb, at_dispatch, ls))
      \<in> measure (\<lambda>(bb, d, ls).
          2 * (unat (NumInstrsToExecute (ls_cpu ls)) - unat (num_instrs ls)) + (if d then 1 else 0))"
    using enter_handler_measure [of ls] by simp
qed

text \<open>The equation of \<open>run\<close> unfolds for ever; it is applied by hand.\<close>

declare run.simps [simp del]

text \<open>
  \<open>InterpreterMainLoop\<close>: reload the flags, start at \<open>DISPATCH\<close> with
  \<open>num_instrs = 0\<close>. \<open>ptr\<close> and \<open>inst_base\<close> are uninitialised locals that \<open>DISPATCH\<close>
  sets before their first use; the model starts them at the first record. The result
  is the value returned and the final CPU state and arena.
\<close>

definition InterpreterMainLoop ::
    "(ARMul_State \<Rightarrow> u32 \<Rightarrow> arm_inst list) \<Rightarrow> (nat \<Rightarrow> arm_inst) \<Rightarrow> nat \<Rightarrow> ARMul_State
       \<Rightarrow> u32 \<times> loop_state" where
  "InterpreterMainLoop bb buf top0 cpu =
    (let ls = run bb True
          \<lparr>ls_cpu = LOAD_NZCVT cpu, inst_buf = buf, arena_top = top0, num_instrs = 0,
           ptr = 0, inst_base = buf 0, executed = []\<rparr> in
     (num_instrs ls, ls))"

section \<open>Translators used in the properties\<close>

text \<open>
  \<open>InterpreterTranslate_swi\<close>: the record built for a supervisor call; the payload is
  the 24-bit immediate.
\<close>

definition InterpreterTranslate_swi :: "u32 \<Rightarrow> arm_inst" where
  "InterpreterTranslate_swi inst =
     \<lparr>cond = BITS inst 28 31, br = NON_BRANCH, component = System (SWI (BITS inst 0 23))\<rparr>"

text \<open>
  \<open>InterpreterTranslate_rfe\<close> and \<open>InterpreterTranslate_srs\<close>: both store the condition
  \<open>AL\<close> (the enumerator is declared outside the sources; it is the code \<open>0xE\<close> that the
  handlers compare with). There is no record when \<open>get_calc_addr_op\<close> finds no mode.
\<close>

definition InterpreterTranslate_rfe :: "u32 \<Rightarrow> arm_inst option" where
  "InterpreterTranslate_rfe inst =
    map_option (\<lambda>f. \<lparr>cond = 0xE, br = INDIRECT_BRANCH,
                      component = Load RFE \<lparr>ldst_inst_word = inst, get_addr = f\<rparr>\<rparr>)
      (get_calc_addr_op inst)"

definition InterpreterTranslate_srs :: "u32 \<Rightarrow> arm_inst option" where
  "InterpreterTranslate_srs inst =
    map_option (\<lambda>f. \<lparr>cond = 0xE, br = NON_BRANCH,
                      component = Store SRS \<lparr>ldst_inst_word = inst, get_addr = f\<rparr>\<rparr>)
      (get_calc_addr_op inst)"

section \<open>States for the examples\<close>

text \<open>A CPU in system mode with all registers and flags clear and a budget of 5.\<close>

definition cpu0 :: ARMul_State where
  "cpu0 = \<lparr>Reg = (\<lambda>_. 0), Reg_usr = (\<lambda>_. 0), Reg_bank = (\<lambda>_ _. 0), Spsr = (\<lambda>_. 0),
     Cpsr = 0x1F, Spsr_copy = 0, Mode = 0x1F, NFlag = 0, ZFlag = 0, CFlag = 0, VFlag = 0,
     TFlag = 0, shifter_carry_out = 0, NumInstrsToExecute = 5, NirqSig = 1,
     exclusive = None, CP15 = (\<lambda>_. 0), instruction_cache = Map.empty, mem = (\<lambda>_. 0),
     svc_calls = []\<rparr>"

text \<open>The same with R1 and R2 set, for a shift of R1 by R2.\<close>

definition cpu_shift :: "u32 \<Rightarrow> u32 \<Rightarrow> ARMul_State" where
  "cpu_shift rm rs = cpu0\<lparr>Reg := (Reg cpu0)(1 := rm, 2 := rs)\<rparr>"

section \<open>Records and predicates used in the properties\<close>

text \<open>Records with a payload-free tag, and exclusive-access records with condition AL.\<close>

definition stub_rec :: "stub_op \<Rightarrow> u32 \<Rightarrow> arm_inst" where
  "stub_rec op c = \<lparr>cond = c, br = NON_BRANCH, component = Stub op\<rparr>"

definition generic_rec :: "generic_op \<Rightarrow> u32 \<Rightarrow> u32 \<Rightarrow> u32 \<Rightarrow> arm_inst" where
  "generic_rec op rd rm rn = \<lparr>cond = 0xE, br = NON_BRANCH,
     component = Generic op \<lparr>Ra = 0, Rm = rm, Rn = rn, Rd = rd, op1 = 0, op2 = 0\<rparr>\<rparr>"

definition clrex_rec :: arm_inst where
  "clrex_rec = \<lparr>cond = 0xF, br = NON_BRANCH, component = Stub CLREX\<rparr>"


text \<open>\<open>cpu0\<close> with an address in R4 and data in R2 and R3.\<close>

definition cpu_ex :: ARMul_State where
  "cpu_ex = cpu0\<lparr>Reg := (Reg cpu0)(4 := 0x100, 2 := 0xABCD, 3 := 0x1234)\<rparr>"

text \<open>\<open>CMPEQ R0, #1\<close>.\<close>

definition cmpeq_rec :: arm_inst where
  "cmpeq_rec = \<lparr>cond = 0, br = NON_BRANCH,
     component = Compare CMP \<lparr>cmp_I = 1, cmp_Rn = 0, cmp_shifter_operand = 1,
       cmp_shtop_func = DPO_Immediate_fp\<rparr>\<rparr>"

text \<open>
  The condition a handler looks at: the header's, or the payload's for the Thumb
  conditional branch.
\<close>

definition op_cond :: "arm_inst \<Rightarrow> u32" where
  "op_cond i =
    (case component i of
       Branch b \<Rightarrow> (case b of B_COND_THUMB imm c \<Rightarrow> c | _ \<Rightarrow> cond i)
     | _ \<Rightarrow> cond i)"

text \<open>
  The handlers that test a condition, or do nothing but advance. Without a test are
  \<open>LDR_INST\<close>, the twin of \<open>LDRCOND_INST\<close> for the word loads under AL (the
  classifier that chooses between the two tags is outside the sources), the handlers
  of \<open>RFE\<close>, \<open>SRS\<close> and \<open>SETEND\<close>, whose translators store AL as the condition, those
  of \<open>CLREX\<close> and \<open>CPS\<close>, whose encodings hold \<open>0xF\<close> in the condition field, and the
  Thumb branches other than the conditional one, whose translators store no condition.
\<close>

definition has_condition :: "arm_inst \<Rightarrow> bool" where
  "has_condition i =
    (case component i of
       Load op ic \<Rightarrow> op \<noteq> LDR \<and> op \<noteq> RFE
     | Store op ic \<Rightarrow> op \<noteq> SRS
     | Stub op \<Rightarrow> op \<noteq> CLREX
     | System y \<Rightarrow> (case y of CPS ic \<Rightarrow> False | SETEND b \<Rightarrow> False | _ \<Rightarrow> True)
     | Branch b \<Rightarrow>
         (case b of B_2_THUMB imm \<Rightarrow> False | BL_1_THUMB imm \<Rightarrow> False
          | BL_2_THUMB imm \<Rightarrow> False | BLX_1_THUMB imm instr \<Rightarrow> False | _ \<Rightarrow> True)
     | _ \<Rightarrow> True)"

text \<open>
  What a handler adds to the program counter when it skips the operation:
  \<open>cpu->GetInstructionSize()\<close>, except in \<open>LDRD_INST\<close>, which adds the constant 4, and
  in \<open>B_COND_THUMB\<close>, which adds the constant 2.
\<close>

definition skipped_size :: "arm_inst \<Rightarrow> ARMul_State \<Rightarrow> u32" where
  "skipped_size i cpu =
    (case component i of
       Load op ic \<Rightarrow> (if op = LDRD then 4 else GetInstructionSize cpu)
     | Branch b \<Rightarrow> (case b of B_COND_THUMB imm c \<Rightarrow> 2 | _ \<Rightarrow> GetInstructionSize cpu)
     | _ \<Rightarrow> GetInstructionSize cpu)"

text \<open>The Q flag is bit 27 of the status register.\<close>

definition Q_set :: "ARMul_State \<Rightarrow> bool" where
  "Q_set cpu = bit (Cpsr cpu) 27"

text \<open>
  The operations that write the whole status register: the exception returns (a
  flag-setting data-processing or move operation with destination R15, a block load
  with the S bit and the program counter in the list, \<open>RFE\<close>) and \<open>MSR\<close> to the CPSR.
\<close>

definition replaces_cpsr :: "arm_inst \<Rightarrow> bool" where
  "replaces_cpsr i =
    (case component i of
       DataProc op ic \<Rightarrow> dp_S ic \<noteq> 0 \<and> dp_Rd ic = 15
     | Move op ic \<Rightarrow> op \<noteq> CPY \<and> mov_S ic \<noteq> 0 \<and> mov_Rd ic = 15
     | Load op ic \<Rightarrow>
         (op = LDM \<and> BIT (ldst_inst_word ic) 22 \<noteq> 0 \<and> BIT (ldst_inst_word ic) 15 \<noteq> 0)
           \<or> op = RFE
     | System y \<Rightarrow> (case y of MSR R inst \<Rightarrow> R = 0 | _ \<Rightarrow> False)
     | _ \<Rightarrow> False)"

text \<open>What a block load leaves alone besides the registers.\<close>

definition same_status :: "ARMul_State \<Rightarrow> ARMul_State \<Rightarrow> bool" where
  "same_status a b =
    (mem a = mem b \<and> Mode a = Mode b \<and> Spsr_copy a = Spsr_copy b \<and> TFlag a = TFlag b \<and>
     Cpsr a = Cpsr b)"

text \<open>The number of registers of the list \<open>xs\<close> that the instruction word names.\<close>

definition regs_listed :: "u32 \<Rightarrow> nat list \<Rightarrow> nat" where
  "regs_listed inst xs = length (filter (\<lambda>i. BIT inst i \<noteq> 0) xs)"

text \<open>
  Supervisor mode with the Q flag set and a saved status register of user mode;
  \<open>LDMIA SP!, {PC}^\<close>, \<open>LDMIA SP!, {PC}\<close> and \<open>QADD R0, R1, R2\<close>; supervisor mode with the
  stack pointer at a word whose bit 0 is set.
\<close>

definition cpu_svc_q :: ARMul_State where
  "cpu_svc_q = cpu0\<lparr>Mode := 0x13, Cpsr := 0x08000013, Spsr_copy := 0x10\<rparr>"

definition ldm_pc_s_rec :: arm_inst where
  "ldm_pc_s_rec = \<lparr>cond = 0xE, br = INDIRECT_BRANCH,
     component = Load LDM \<lparr>ldst_inst_word = 0xE8FD8000, get_addr = LdnStM_IncrementAfter_fp\<rparr>\<rparr>"

definition qadd_rec :: arm_inst where
  "qadd_rec = \<lparr>cond = 0xE, br = NON_BRANCH,
     component = Generic QADD \<lparr>Ra = 0, Rm = 1, Rn = 2, Rd = 0, op1 = 0, op2 = 0\<rparr>\<rparr>"

definition ldm_pc_rec :: arm_inst where
  "ldm_pc_rec = \<lparr>cond = 0xE, br = INDIRECT_BRANCH,
     component = Load LDM \<lparr>ldst_inst_word = 0xE8BD8000, get_addr = LdnStM_IncrementAfter_fp\<rparr>\<rparr>"

definition cpu_ldm :: ARMul_State where
  "cpu_ldm = cpu0\<lparr>Mode := 0x13, Cpsr := 0x13, Spsr_copy := 0x10,
     Reg := (Reg cpu0)(13 := 0x100), mem := (mem cpu0)(0x100 := 0x01, 0x101 := 0x80)\<rparr>"

text \<open>
  The invariant of the loop: the count stays below a bound \<open>B\<close> that the budget never
  exceeds, and it is the number of handlers entered.
\<close>

definition counted :: "nat \<Rightarrow> loop_state \<Rightarrow> bool" where
  "counted B ls =
    (unat (num_instrs ls) \<le> B \<and> unat (num_instrs ls) = length (executed ls))"

text \<open>A decode loop that gives three \<open>NOP\<close> records for every block.\<close>

definition nop_block :: "ARMul_State \<Rightarrow> u32 \<Rightarrow> arm_inst list" where
  "nop_block cpu addr = [stub_rec NOP 0xE, stub_rec NOP 0xE, stub_rec NOP 0xE]"

text \<open>
  The reference for counting guest instructions. A position is a label of the loop or
  the return from it. \<open>guest_handler\<close> is one handler run on the current record, with
  \<open>INC_PC\<close> and \<open>FETCH_INST\<close>, and tells where control goes; \<open>guest_instruction\<close> is one
  guest instruction from \<open>DISPATCH\<close> (the block is looked up first, unless an interrupt
  is pending) or from \<open>GOTO_NEXT_INST\<close>; there is none after \<open>END\<close> or a return.
  None of them reads or writes \<open>num_instrs\<close> or the budget. \<open>leave_loop\<close> is the way
  out: the state as it is after a handler that returned, \<open>END\<close> otherwise, reached from
  \<open>DISPATCH\<close> directly on a pending interrupt and through the block lookup when the
  budget ends the loop at \<open>GOTO_NEXT_INST\<close>.
\<close>

datatype position = AtDispatch | AtNextInst | AtEnd | Returned

definition interrupt_pending :: "loop_state \<Rightarrow> bool" where
  "interrupt_pending ls = (NirqSig (ls_cpu ls) = 0 \<and> Cpsr (ls_cpu ls) AND 0x80 = 0)"

definition guest_handler :: "loop_state \<Rightarrow> position \<times> loop_state" where
  "guest_handler ls =
    (let r = exec (inst_base ls) (ls_cpu ls);
         ls1 = ls\<lparr>ls_cpu := fst r,
                  ptr := (if snd r = Return \<or> snd r = End then ptr ls else ptr ls + 1)\<rparr> in
     if snd r = Return then (Returned, ls1)
     else if snd r = End then (AtEnd, ls1)
     else if snd r = Dispatch \<or> br (inst_base ls) \<noteq> NON_BRANCH then (AtDispatch, ls1)
     else (AtNextInst, ls1\<lparr>inst_base := inst_buf ls1 (ptr ls1)\<rparr>))"

definition guest_instruction ::
    "(ARMul_State \<Rightarrow> u32 \<Rightarrow> arm_inst list) \<Rightarrow> position \<times> loop_state
       \<Rightarrow> (position \<times> loop_state) option" where
  "guest_instruction bb c =
    (case fst c of
       AtDispatch \<Rightarrow>
         if interrupt_pending (snd c) then None
         else Some (guest_handler (dispatch_prologue bb (snd c)))
     | AtNextInst \<Rightarrow> Some (guest_handler (snd c))
     | AtEnd \<Rightarrow> None
     | Returned \<Rightarrow> None)"

fun guest_instructions ::
    "(ARMul_State \<Rightarrow> u32 \<Rightarrow> arm_inst list) \<Rightarrow> nat \<Rightarrow> position \<times> loop_state
       \<Rightarrow> (position \<times> loop_state) option" where
  "guest_instructions bb 0 c = Some c"
| "guest_instructions bb (Suc n) c =
    (case guest_instruction bb c of
       None \<Rightarrow> None
     | Some c' \<Rightarrow> guest_instructions bb n c')"

definition leave_loop ::
    "(ARMul_State \<Rightarrow> u32 \<Rightarrow> arm_inst list) \<Rightarrow> position \<times> loop_state \<Rightarrow> loop_state" where
  "leave_loop bb c =
    (case fst c of
       Returned \<Rightarrow> snd c
     | AtDispatch \<Rightarrow>
         if interrupt_pending (snd c) then END_label (snd c)
         else END_label (dispatch_prologue bb (snd c))
     | AtNextInst \<Rightarrow> END_label (snd c)
     | AtEnd \<Rightarrow> END_label (snd c))"

text \<open>
  The loop state with which \<open>InterpreterMainLoop\<close> enters \<open>DISPATCH\<close>, a loop state
  without its counters, and the relation proved of the loop: from position \<open>p\<close> in \<open>ls\<close>
  the result \<open>r\<close> is reached by as many guest instructions as \<open>num_instrs\<close> grew.
\<close>

definition entry_state :: "(nat \<Rightarrow> arm_inst) \<Rightarrow> nat \<Rightarrow> ARMul_State \<Rightarrow> loop_state" where
  "entry_state buf top0 cpu =
    \<lparr>ls_cpu = LOAD_NZCVT cpu, inst_buf = buf, arena_top = top0, num_instrs = 0, ptr = 0,
     inst_base = buf 0, executed = []\<rparr>"

definition uncounted :: "loop_state \<Rightarrow> loop_state" where
  "uncounted ls = ls\<lparr>num_instrs := 0, executed := []\<rparr>"

definition refines ::
    "(ARMul_State \<Rightarrow> u32 \<Rightarrow> arm_inst list) \<Rightarrow> position \<Rightarrow> loop_state \<Rightarrow> loop_state \<Rightarrow> bool" where
  "refines bb p ls r =
    (unat (num_instrs ls) \<le> unat (num_instrs r) \<and>
     map_option (leave_loop bb)
       (guest_instructions bb (unat (num_instrs r) - unat (num_instrs ls)) (p, uncounted ls))
       = Some (uncounted r))"

text \<open>
  \<open>LDRDEQ R0, [R1]\<close>, the Thumb \<open>BEQ\<close>, \<open>cpu0\<close> in Thumb state, \<open>LDREQ R0, [R1], #4\<close>
  as the translator builds it, and \<open>cpu0\<close> with R1 = 0x100.
\<close>

definition ldrdeq_rec :: arm_inst where
  "ldrdeq_rec = \<lparr>cond = 0, br = NON_BRANCH,
     component = Load LDRD \<lparr>ldst_inst_word = 0x01C100D0, get_addr = MLnS_ImmediateOffset_fp\<rparr>\<rparr>"

definition beq_thumb_rec :: arm_inst where
  "beq_thumb_rec = \<lparr>cond = 0, br = DIRECT_BRANCH, component = Branch (B_COND_THUMB 0x10 0)\<rparr>"

definition cpu_thumb :: ARMul_State where
  "cpu_thumb = cpu0\<lparr>TFlag := 1\<rparr>"



section \<open>Shifts by register (C9)\<close>

lemmas shift_defs = DPO_LogicalShiftLeftByRegister_def DPO_LogicalShiftRightByRegister_def
  DPO_ArithmeticShiftRightByRegister_def DPO_RotateRightByRegister_def

lemma BITS_0_4_low_byte: "BITS x 0 4 = BITS (BITS x 0 7) 0 4"
  by (simp add: BITS_def)

text \<open>
  C9, as amended. For the four shifts by register the operand and the carry-out depend
  on the shift register only through its low byte: two calls that agree on the C flag,
  on the value read for Rm and on the low byte of the value read for Rs give the same
  operand and the same carry. When that low byte is 32 or more, LSL and LSR give 0
  (carry Rm[0], respectively Rm[31], at exactly 32 and 0 above), ASR gives the sign
  fill, 0 or 0xFFFFFFFF, with carry Rm[31], and ROR rotates by Rs[4:0], giving Rm itself
  with carry Rm[31] when Rs[4:0] is 0.
\<close>

theorem shift_by_register:
  assumes "CFlag cpu = CFlag cpu'"
    and "CHECK_READ_REG15 cpu (RM_of sht) = CHECK_READ_REG15 cpu' (RM_of sht')"
    and "BITS (CHECK_READ_REG15 cpu (RS_of sht)) 0 7 = BITS (CHECK_READ_REG15 cpu' (RS_of sht')) 0 7"
  shows "(let rm = CHECK_READ_REG15 cpu (RM_of sht);
              rs = CHECK_READ_REG15 cpu (RS_of sht);
              lsl = DPO_LogicalShiftLeftByRegister cpu sht;
              lsr = DPO_LogicalShiftRightByRegister cpu sht;
              asr = DPO_ArithmeticShiftRightByRegister cpu sht;
              ror = DPO_RotateRightByRegister cpu sht;
              lsl' = DPO_LogicalShiftLeftByRegister cpu' sht';
              lsr' = DPO_LogicalShiftRightByRegister cpu' sht';
              asr' = DPO_ArithmeticShiftRightByRegister cpu' sht';
              ror' = DPO_RotateRightByRegister cpu' sht' in
          fst lsl = fst lsl' \<and> shifter_carry_out (snd lsl) = shifter_carry_out (snd lsl') \<and>
          fst lsr = fst lsr' \<and> shifter_carry_out (snd lsr) = shifter_carry_out (snd lsr') \<and>
          fst asr = fst asr' \<and> shifter_carry_out (snd asr) = shifter_carry_out (snd asr') \<and>
          fst ror = fst ror' \<and> shifter_carry_out (snd ror) = shifter_carry_out (snd ror') \<and>
          (32 \<le> BITS rs 0 7 \<longrightarrow>
             lsl = (0, set_sco (if BITS rs 0 7 = 32 then BIT rm 0 else 0) cpu) \<and>
             lsr = (0, set_sco (if BITS rs 0 7 = 32 then BIT rm 31 else 0) cpu) \<and>
             asr = ((if BIT rm 31 = 0 then 0 else 0xffffffff), set_sco (BIT rm 31) cpu) \<and>
             ror = (if BITS rs 0 4 = 0 then (rm, set_sco (BIT rm 31) cpu)
                    else (ROTATE_RIGHT_32 rm (unat (BITS rs 0 4)),
                          set_sco (BIT rm (unat (BITS rs 0 4) - 1)) cpu))))"
proof -
  have low5: "BITS (CHECK_READ_REG15 cpu (RS_of sht)) 0 4
                = BITS (CHECK_READ_REG15 cpu' (RS_of sht')) 0 4"
    using assms(3) BITS_0_4_low_byte by metis
  have ne0: "32 \<le> BITS (CHECK_READ_REG15 cpu (RS_of sht)) 0 7
       \<Longrightarrow> BITS (CHECK_READ_REG15 cpu (RS_of sht)) 0 7 \<noteq> 0"
    by auto
  have nlt: "32 \<le> BITS (CHECK_READ_REG15 cpu (RS_of sht)) 0 7
       \<Longrightarrow> \<not> BITS (CHECK_READ_REG15 cpu (RS_of sht)) 0 7 < 32"
    by auto
  show ?thesis
    unfolding Let_def shift_defs
    using assms low5 ne0 nlt by (simp add: set_sco_def)
qed

text \<open>
  C9, witness: R2 = 0x120 and R2 = 0x20 have the same low byte, 32. ROR of R1 = 1 gives
  1, LSL gives 0, and ASR of R1 = 0x80000000 gives 0xFFFFFFFF.
\<close>

theorem shift_by_register_witness:
  "BITS (CHECK_READ_REG15 (cpu_shift 1 0x120) (RS_of 0x271)) 0 7
     = BITS (CHECK_READ_REG15 (cpu_shift 1 0x20) (RS_of 0x271)) 0 7 \<and>
   fst (DPO_RotateRightByRegister (cpu_shift 1 0x120) 0x271) = 1 \<and>
   fst (DPO_LogicalShiftLeftByRegister (cpu_shift 1 0x120) 0x211) = 0 \<and>
   fst (DPO_ArithmeticShiftRightByRegister (cpu_shift 0x80000000 0x120) 0x251) = 0xffffffff"
  using shift_by_register [of "cpu_shift 1 0x120" "cpu_shift 1 0x20" "0x271" "0x271"]
    shift_by_register [of "cpu_shift 1 0x120" "cpu_shift 1 0x20" "0x211" "0x211"]
    shift_by_register [of "cpu_shift 0x80000000 0x120" "cpu_shift 0x80000000 0x20" "0x251" "0x251"]
  by (simp add: cpu_shift_def cpu0_def CHECK_READ_REG15_def RM_of_def RS_of_def BITS_def BIT_def
      Let_def)

text \<open>
  C9, counterexample to the claim as stated (every amount of 32 or more gives 0): ASR of
  R1 = 0x80000000 by R2 = 32 gives a non-zero operand.
\<close>

theorem asr_by_32_counterexample:
  "32 \<le> BITS (CHECK_READ_REG15 (cpu_shift 0x80000000 32) (RS_of 0x251)) 0 7 \<and>
   fst (DPO_ArithmeticShiftRightByRegister (cpu_shift 0x80000000 32) 0x251) \<noteq> 0"
  by (simp add: DPO_ArithmeticShiftRightByRegister_def cpu_shift_def cpu0_def
      CHECK_READ_REG15_def RM_of_def RS_of_def BITS_def BIT_def Let_def)

section \<open>Writeback of the addressing modes (C3)\<close>

text \<open>
  Every addressing mode but one leaves the state as it is when the condition in bits
  28 to 31 of the instruction fails. The one is the immediate post-indexed mode of the
  single data transfers, which holds no test of its own and relies on the handler that
  calls it.
\<close>

lemma modes_consult_condition:
  assumes "f \<noteq> LnSWoUB_ImmediatePostIndexed_fp"
    and "\<not> CondPassed cpu (BITS inst 28 31)"
  shows "snd (call_get_addr f cpu inst) = cpu"
  using assms
  by (cases f)
    (simp_all add: LnSWoUB_ImmediateOffset_def LnSWoUB_RegisterOffset_def
      LnSWoUB_ScaledRegisterOffset_def LnSWoUB_ImmediatePreIndexed_def
      LnSWoUB_RegisterPreIndexed_def LnSWoUB_ScaledRegisterPreIndexed_def
      LnSWoUB_RegisterPostIndexed_def LnSWoUB_ScaledRegisterPostIndexed_def
      MLnS_ImmediateOffset_def MLnS_RegisterOffset_def MLnS_ImmediatePreIndexed_def
      MLnS_RegisterPreIndexed_def MLnS_ImmediatePostIndexed_def MLnS_RegisterPostIndexed_def
      LdnStM_IncrementAfter_def LdnStM_IncrementBefore_def LdnStM_DecrementAfter_def
      LdnStM_DecrementBefore_def Let_def case_prod_beta)

text \<open>The records of \<open>RFE\<close> and \<open>SRS\<close> hold the condition AL.\<close>

lemma translated_rfe_srs_AL:
  "InterpreterTranslate_rfe inst = Some i \<Longrightarrow> cond i = 0xE \<and> (\<exists>ic. component i = Load RFE ic)"
  "InterpreterTranslate_srs inst = Some i \<Longrightarrow> cond i = 0xE \<and> (\<exists>ic. component i = Store SRS ic)"
  by (auto simp add: InterpreterTranslate_rfe_def InterpreterTranslate_srs_def)



section \<open>Arena exhaustion (C8)\<close>

text \<open>
  C8: with four bytes left in the arena, an allocation of 44 bytes logs that the buffer
  is full and still returns the old \<open>top\<close>; the allocation runs past the end of the
  arena.
\<close>

theorem AllocBuffer_past_the_end:
  "in_arena (sint (131071996 :: u32)) 4 \<and>
   alloc_logged_full (AllocBuffer 131071996 44) \<and>
   alloc_start (AllocBuffer 131071996 44) = 131071996 \<and>
   \<not> in_arena (alloc_start (AllocBuffer 131071996 44)) 44"
  by (simp add: AllocBuffer_def in_arena_def CACHE_BUFFER_SIZE_def Let_def)

section \<open>Supervisor calls (C6)\<close>

lemma BITS_0_23_low16: "BITS inst 0 23 AND 0xFFFF = BITS inst 0 15"
proof -
  have m: "(0xFFFF :: u32) = mask 16" by (simp add: mask_eq_exp_minus_1)
  have "take_bit 24 inst AND (mask 16 :: u32) = take_bit 16 inst"
    by (simp flip: take_bit_eq_mask)
  then show ?thesis
    by (simp add: BITS_def m)
qed

text \<open>
  C6, as amended. For every SWI/SVC instruction whose condition passes, the external
  supervisor-call handler is called once, with the low 16 bits of the immediate (bits 0
  to 15 of the instruction word); then the program counter advances.
\<close>

theorem swi_calls_handler_low16:
  assumes "cond_ok cpu (BITS inst 28 31)"
  shows "exec (InterpreterTranslate_swi inst) cpu = (advance_pc (CallSVC (BITS inst 0 15) cpu), Next)"
  using assms
  by (simp add: InterpreterTranslate_swi_def exec_def SWI_INST_def BITS_0_23_low16)

text \<open>C6, witness: \<open>SVC 0x010005\<close> with condition AL calls the handler with 5.\<close>

theorem swi_calls_handler_low16_witness:
  "cond_ok cpu0 (BITS 0xEF010005 28 31) \<and>
   exec (InterpreterTranslate_swi 0xEF010005) cpu0
     = (advance_pc (CallSVC (BITS 0xEF010005 0 15) cpu0), Next) \<and>
   svc_calls (fst (exec (InterpreterTranslate_swi 0xEF010005) cpu0)) = [5]"
proof -
  have h: "cond_ok cpu0 (BITS 0xEF010005 28 31)"
    by (simp add: cond_ok_def BITS_def)
  show ?thesis
    using h swi_calls_handler_low16 [OF h]
    by (simp add: CallSVC_def advance_pc_def cpu0_def BITS_def)
qed

text \<open>
  C6, counterexample to the claim as stated (the full 24-bit immediate is passed): for
  \<open>SVC 0x010005\<close> the immediate is 0x010005 and the handler receives 5.
\<close>

theorem swi_full_immediate_counterexample:
  "cond_ok cpu0 (cond (InterpreterTranslate_swi 0xEF010005)) \<and>
   BITS 0xEF010005 0 23 = 0x010005 \<and>
   svc_calls (fst (exec (InterpreterTranslate_swi 0xEF010005) cpu0)) = [0x0005]"
  by (simp add: InterpreterTranslate_swi_def exec_def SWI_INST_def cond_ok_def CallSVC_def
      advance_pc_def cpu0_def BITS_def)

section \<open>A failed condition (C2)\<close>

lemma failed_not_ok: "c \<noteq> 0xE \<Longrightarrow> \<not> CondPassed cpu c \<Longrightarrow> \<not> cond_ok cpu c"
  by (simp add: cond_ok_def)

lemma advance_pc_ARM: "TFlag cpu = 0 \<Longrightarrow> advance_pc cpu = set_reg 15 (Reg cpu 15 + 4) cpu"
  by (simp add: advance_pc_def set_reg_def GetInstructionSize_def)

lemma advance_pc_Thumb: "TFlag cpu \<noteq> 0 \<Longrightarrow> advance_pc cpu = set_reg 15 (Reg cpu 15 + 2) cpu"
  by (simp add: advance_pc_def set_reg_def GetInstructionSize_def)

text \<open>
  C2, as amended. For every operation whose handler tests a condition
  (\<open>has_condition\<close>), when the condition code is not AL and evaluates false against the
  current flags, the handler leaves the whole state as it is except the program
  counter, and goes on to the next record or to \<open>DISPATCH\<close>. The program counter
  advances by \<open>GetInstructionSize\<close>, the instruction size of the current state, except
  that \<open>LDRD\<close> always advances it by 4 and the Thumb conditional branch always by 2.
\<close>

theorem failed_condition_only_advances_pc:
  assumes "op_cond i \<noteq> 0xE" and "\<not> CondPassed cpu (op_cond i)"
    and "has_condition i"
  shows "fst (exec i cpu) = cpu\<lparr>Reg := (Reg cpu)(15 := Reg cpu 15 + skipped_size i cpu)\<rparr> \<and>
         (snd (exec i cpu) = Next \<or> snd (exec i cpu) = Dispatch)"
proof (cases "component i")
  case (DataProc op ic)
  then show ?thesis
    using assms by (simp add: exec_def op_cond_def DataProc_INST_def failed_not_ok advance_pc_def skipped_size_def)
next
  case (Move op ic)
  then show ?thesis
    using assms by (simp add: exec_def op_cond_def Move_INST_def failed_not_ok advance_pc_def skipped_size_def)
next
  case (Compare op ic)
  then show ?thesis
    using assms by (simp add: exec_def op_cond_def Compare_INST_def failed_not_ok advance_pc_def skipped_size_def)
next
  case (Branch b)
  then show ?thesis
    using assms
    by (cases b)
      (simp_all add: exec_def op_cond_def has_condition_def skipped_size_def BBL_INST_def
        BLX_INST_def BX_INST_def B_COND_THUMB_INST_def failed_not_ok advance_pc_def set_reg_def
        GetInstructionSize_def)
next
  case (System y)
  then show ?thesis
    using assms
    by (cases y)
      (simp_all add: exec_def op_cond_def has_condition_def MCR_INST_def MRC_INST_def
        MRS_INST_def MSR_INST_def SWI_INST_def BKPT_INST_def failed_not_ok advance_pc_def skipped_size_def)
next
  case (Misc m)
  then show ?thesis
    using assms
    by (cases m)
      (simp_all add: exec_def op_cond_def CLZ_INST_def MUL_INST_def MLA_INST_def REV_INST_def
        SWP_INST_def SWPB_INST_def failed_not_ok advance_pc_def skipped_size_def)
next
  case (Stub op)
  then show ?thesis
    using assms
    by (cases op)
      (simp_all add: exec_def op_cond_def has_condition_def failed_not_ok advance_pc_def skipped_size_def)
next
  case (Load op ic)
  then show ?thesis
    using assms
    by (cases op)
      (simp_all add: exec_def op_cond_def has_condition_def skipped_size_def LDM_INST_def
        LDRCOND_INST_def LDRD_INST_def failed_not_ok advance_pc_def set_reg_def
        GetInstructionSize_def)
next
  case (Store op ic)
  then show ?thesis
    using assms
    by (cases op)
      (simp_all add: exec_def op_cond_def has_condition_def STM_INST_def failed_not_ok
        advance_pc_def skipped_size_def)
next
  case (Generic op ic)
  then show ?thesis
    using assms by (simp add: exec_def op_cond_def Generic_INST_def failed_not_ok advance_pc_def skipped_size_def)
next
  case (Extend op ic)
  then show ?thesis
    using assms by (simp add: exec_def op_cond_def Extend_INST_def failed_not_ok advance_pc_def skipped_size_def)
next
  case (Media op ic)
  then show ?thesis
    using assms by (simp add: exec_def op_cond_def Media_INST_def failed_not_ok advance_pc_def skipped_size_def)
next
  case (Pkh op ic)
  then show ?thesis
    using assms
    by (cases op) (simp_all add: exec_def op_cond_def failed_not_ok advance_pc_def skipped_size_def)
next
  case (Dsp d)
  then show ?thesis
    using assms by (simp add: exec_def op_cond_def Dsp_INST_def failed_not_ok advance_pc_def skipped_size_def)
next
  case (Sat op ic)
  then show ?thesis
    using assms by (simp add: exec_def op_cond_def Sat_INST_def failed_not_ok advance_pc_def skipped_size_def)
qed

text \<open>
  C2, witness: \<open>CMPEQ R0, #1\<close> with the Z flag clear only moves the program counter to
  4; under AL the same record sets N and clears C. \<open>LDRDEQ R0, [R1]\<close> with the Z flag
  clear, in Thumb state, only moves the program counter to 4.
\<close>

theorem failed_condition_only_advances_pc_witness:
  "op_cond cmpeq_rec \<noteq> 0xE \<and> \<not> CondPassed cpu0 (op_cond cmpeq_rec) \<and>
   has_condition cmpeq_rec \<and>
   fst (exec cmpeq_rec cpu0) = cpu0\<lparr>Reg := (Reg cpu0)(15 := 4)\<rparr> \<and>
   CFlag (fst (exec (cmpeq_rec\<lparr>cond := 0xE\<rparr>) cpu0)) = 0 \<and>
   NFlag (fst (exec (cmpeq_rec\<lparr>cond := 0xE\<rparr>) cpu0)) = 1 \<and>
   op_cond ldrdeq_rec \<noteq> 0xE \<and> \<not> CondPassed cpu_thumb (op_cond ldrdeq_rec) \<and>
   has_condition ldrdeq_rec \<and>
   fst (exec ldrdeq_rec cpu_thumb) = cpu_thumb\<lparr>Reg := (Reg cpu_thumb)(15 := 4)\<rparr>"
proof -
  have h: "op_cond cmpeq_rec \<noteq> 0xE" "\<not> CondPassed cpu0 (op_cond cmpeq_rec)"
    "has_condition cmpeq_rec"
    by (simp_all add: op_cond_def cmpeq_rec_def CondPassed_def cpu0_def has_condition_def)
  have k: "op_cond ldrdeq_rec \<noteq> 0xE" "\<not> CondPassed cpu_thumb (op_cond ldrdeq_rec)"
    "has_condition ldrdeq_rec"
    by (simp_all add: op_cond_def ldrdeq_rec_def CondPassed_def cpu_thumb_def cpu0_def
        has_condition_def)
  have pass: "CFlag (fst (exec (cmpeq_rec\<lparr>cond := 0xE\<rparr>) cpu0)) = 0"
    "NFlag (fst (exec (cmpeq_rec\<lparr>cond := 0xE\<rparr>) cpu0)) = 1"
    by (simp_all add: cmpeq_rec_def exec_def Compare_INST_def cond_ok_def rn_val_of_def
        DPO_Immediate_def BITS_def BIT_def ROTATE_RIGHT_32_def set_sco_def cmp_arith_flags_def
        AddWithCarry_def UPDATE_NFLAG_def UPDATE_ZFLAG_def advance_pc_def bool_u32_def
        cpu0_def Let_def unsigned_minus_1_eq_mask mask_eq_exp_minus_1)
  have s: "skipped_size cmpeq_rec cpu0 = 4" "skipped_size ldrdeq_rec cpu_thumb = 4"
    "Reg cpu0 15 = 0" "Reg cpu_thumb 15 = 0"
    by (simp_all add: skipped_size_def cmpeq_rec_def ldrdeq_rec_def GetInstructionSize_def
        cpu_thumb_def cpu0_def)
  show ?thesis
    using h k pass failed_condition_only_advances_pc [OF h]
      failed_condition_only_advances_pc [OF k]
    by (simp add: s)
qed

text \<open>
  C2 as stated fails where the advance is a constant. A block is cached under its
  address alone, so a record can run in the other instruction set state than the one
  it was translated in. In Thumb state the instruction size is 2 and the skipped
  \<open>LDRDEQ\<close> moves the program counter from 0 to 4; in ARM state the size is 4 and the
  skipped Thumb \<open>BEQ\<close> moves it from 0 to 2.
\<close>

theorem failed_condition_fixed_advance_counterexample:
  "cond ldrdeq_rec \<noteq> 0xE \<and> \<not> CondPassed cpu_thumb (cond ldrdeq_rec) \<and>
   GetInstructionSize cpu_thumb = 2 \<and> Reg cpu_thumb 15 = 0 \<and>
   Reg (fst (exec ldrdeq_rec cpu_thumb)) 15 = 4 \<and>
   \<not> CondPassed cpu0 0 \<and> GetInstructionSize cpu0 = 4 \<and> Reg cpu0 15 = 0 \<and>
   Reg (fst (exec beq_thumb_rec cpu0)) 15 = 2"
  by (simp add: ldrdeq_rec_def beq_thumb_rec_def cpu_thumb_def cpu0_def CondPassed_def
      GetInstructionSize_def exec_def LDRD_INST_def B_COND_THUMB_INST_def cond_ok_def
      set_reg_def Let_def)


section \<open>Exclusive access (C4)\<close>

lemma bytes_of_word:
  "(ucast (ucast (v :: u32) :: u8) :: u32) OR push_bit 8 (ucast (ucast (drop_bit 8 v) :: u8))
     OR push_bit 16 (ucast (ucast (drop_bit 16 v) :: u8))
     OR push_bit 24 (ucast (ucast (drop_bit 24 v) :: u8)) = v"
proof (rule bit_word_eqI)
  fix n :: nat
  assume "n < LENGTH(32)"
  then consider "n < 8" | "8 \<le> n" "n < 16" | "16 \<le> n" "n < 24" | "24 \<le> n" "n < 32"
    by fastforce
  then show "bit ((ucast (ucast v :: u8) :: u32) OR push_bit 8 (ucast (ucast (drop_bit 8 v) :: u8))
       OR push_bit 16 (ucast (ucast (drop_bit 16 v) :: u8))
       OR push_bit 24 (ucast (ucast (drop_bit 24 v) :: u8))) n = bit v n"
    by cases (auto simp add: bit_simps)
qed

lemma addr_distinct:
  "(a :: u32) + 1 \<noteq> a" "a + 2 \<noteq> a" "a + 3 \<noteq> a"
  "a + 2 \<noteq> a + 1" "a + 3 \<noteq> a + 1" "a + 3 \<noteq> a + 2"
  by simp_all

lemma ReadMemory32_WriteMemory32:
  "ReadMemory32 (WriteMemory32 a v cpu) a = v"
  using bytes_of_word [of v]
  by (simp add: ReadMemory32_def WriteMemory32_def addr_distinct)


lemma CondPassed_flags:
  "NFlag a = NFlag b \<Longrightarrow> ZFlag a = ZFlag b \<Longrightarrow> CFlag a = CFlag b \<Longrightarrow> VFlag a = VFlag b
     \<Longrightarrow> CondPassed a c = CondPassed b c"
  by (simp add: CondPassed_def)

lemma cond_ok_flags:
  "NFlag a = NFlag b \<Longrightarrow> ZFlag a = ZFlag b \<Longrightarrow> CFlag a = CFlag b \<Longrightarrow> VFlag a = VFlag b
     \<Longrightarrow> cond_ok a c = cond_ok b c"
  by (simp add: cond_ok_def CondPassed_flags [of a b])

lemma ldrex_step:
  assumes "cond_ok cpu (cond i)" and "component i = Generic LDREX ic"
    and "Rd ic \<noteq> 15"
  shows "fst (exec i cpu) =
    advance_pc (set_reg (Rd ic) (ReadMemory32 cpu (Reg cpu (unat (Rn ic))))
      (SetExclusiveMemoryAddress (Reg cpu (unat (Rn ic))) cpu))"
  using assms
  by (simp add: exec_def Generic_INST_def ldrex_body_def finish_rd_def Let_def
      ReadMemory32_def SetExclusiveMemoryAddress_def)

lemma strex_step:
  assumes "cond_ok cpu (cond i)" and "component i = Generic STREX ic"
  shows "fst (exec i cpu) =
    advance_pc (if exclusive cpu = Some (Reg cpu (unat (Rn ic))) then
       set_reg (Rd ic) 0 (WriteMemory32 (Reg cpu (unat (Rn ic))) (Reg cpu (unat (Rm ic)))
         (UnsetExclusiveMemoryAddress cpu))
     else set_reg (Rd ic) 1 cpu)"
  using assms
  by (simp add: exec_def Generic_INST_def strex_body_def strex_write_def Let_def
      IsExclusiveMemoryAccess_def UnsetExclusiveMemoryAddress_def)

lemma clrex_step:
  assumes "component i = Stub CLREX"
  shows "fst (exec i cpu) = advance_pc (UnsetExclusiveMemoryAddress cpu)"
  using assms by (simp add: exec_def)

lemma unat_15: "r \<noteq> (15 :: u32) \<Longrightarrow> unat r \<noteq> 15"
  using word_unat_eq_iff [of r 15] by simp

text \<open>
  C4. \<open>LDREX\<close> on the address in Rn followed by \<open>STREX Rd, Rm\<close> on the same base
  register yields Rd = 0, stores Rm at the address and clears the monitor. With a
  \<open>CLREX\<close> in between, \<open>STREX\<close> yields Rd = 1 and leaves memory unchanged, and so does a
  second \<open>STREX\<close> after the successful one. The conditions of the records pass, the
  base register is not the program counter, \<open>LDREX\<close> does not load into the base
  register or the program counter, and the status registers of the stores are not the
  program counter.
\<close>

theorem exclusive_round_trip:
  assumes ld: "component ld = Generic LDREX ldc" "cond_ok cpu (cond ld)"
    and st: "component st = Generic STREX stc" "cond_ok cpu (cond st)"
    and st2: "component st2 = Generic STREX stc2" "cond_ok cpu (cond st2)"
    and clr: "component clr = Stub CLREX"
    and regs: "Rn stc = Rn ldc" "Rn ldc \<noteq> 15" "Rd ldc \<noteq> 15" "Rd ldc \<noteq> Rn ldc"
      "Rd stc \<noteq> 15" "Rd stc2 \<noteq> 15"
  shows "(let addr = Reg cpu (unat (Rn ldc));
              cpu1 = fst (exec ld cpu);
              cpu2 = fst (exec st cpu1);
              cpu3 = fst (exec st2 cpu2);
              cpu2' = fst (exec st (fst (exec clr cpu1))) in
          Reg cpu2 (unat (Rd stc)) = 0 \<and>
          ReadMemory32 cpu2 addr = Reg cpu1 (unat (Rm stc)) \<and>
          exclusive cpu2 = None \<and>
          Reg cpu2' (unat (Rd stc)) = 1 \<and> mem cpu2' = mem cpu \<and>
          Reg cpu3 (unat (Rd stc2)) = 1 \<and> mem cpu3 = mem cpu2)"
proof -
  define addr where "addr = Reg cpu (unat (Rn ldc))"
  define cpu1 where "cpu1 = fst (exec ld cpu)"
  define cpu1c where "cpu1c = fst (exec clr cpu1)"
  define cpu2 where "cpu2 = fst (exec st cpu1)"
  define cpu2' where "cpu2' = fst (exec st cpu1c)"
  define cpu3 where "cpu3 = fst (exec st2 cpu2)"
  have n15: "unat (Rn ldc) \<noteq> 15" "unat (Rd stc) \<noteq> 15" "unat (Rd stc2) \<noteq> 15"
    using regs by (simp_all add: unat_15)
  have dn: "unat (Rd ldc) \<noteq> unat (Rn ldc)"
    using regs by (simp add: word_unat_eq_iff)
  have cpu1: "cpu1 = advance_pc (set_reg (Rd ldc) (ReadMemory32 cpu addr)
      (SetExclusiveMemoryAddress addr cpu))"
    unfolding cpu1_def addr_def using ldrex_step [OF ld(2) ld(1) regs(3)] .
  have cpu1_addr: "Reg cpu1 (unat (Rn stc)) = addr"
    using n15 dn regs(1)
    by (simp add: cpu1 advance_pc_def set_reg_def SetExclusiveMemoryAddress_def addr_def)
  have cpu1_ex: "exclusive cpu1 = Some addr" "mem cpu1 = mem cpu"
    by (simp_all add: cpu1 advance_pc_def set_reg_def SetExclusiveMemoryAddress_def)
  have ok1: "cond_ok cpu1 (cond st)"
    using st(2) cond_ok_flags [of cpu1 cpu "cond st"]
    by (simp add: cpu1 advance_pc_def set_reg_def SetExclusiveMemoryAddress_def)
  have cpu2: "cpu2 = advance_pc (set_reg (Rd stc) 0
      (WriteMemory32 addr (Reg cpu1 (unat (Rm stc))) (UnsetExclusiveMemoryAddress cpu1)))"
    unfolding cpu2_def using strex_step [OF ok1 st(1)] cpu1_addr cpu1_ex by simp
  have r1: "Reg cpu2 (unat (Rd stc)) = 0"
    using n15 by (simp add: cpu2 advance_pc_def set_reg_def)
  have mem2: "mem cpu2 = mem (WriteMemory32 addr (Reg cpu1 (unat (Rm stc))) cpu1)"
    by (simp add: cpu2 advance_pc_def set_reg_def WriteMemory32_def UnsetExclusiveMemoryAddress_def)
  have r2: "ReadMemory32 cpu2 addr = Reg cpu1 (unat (Rm stc))"
    using ReadMemory32_WriteMemory32 [of addr "Reg cpu1 (unat (Rm stc))" cpu1] mem2
    by (simp add: ReadMemory32_def)
  have r3: "exclusive cpu2 = None"
    by (simp add: cpu2 advance_pc_def set_reg_def WriteMemory32_def UnsetExclusiveMemoryAddress_def)
  have cpu1c: "cpu1c = advance_pc (UnsetExclusiveMemoryAddress cpu1)"
    unfolding cpu1c_def using clrex_step [OF clr] .
  have ok1c: "cond_ok cpu1c (cond st)"
    using ok1 cond_ok_flags [of cpu1c cpu1 "cond st"]
    by (simp add: cpu1c advance_pc_def UnsetExclusiveMemoryAddress_def)
  have cpu2': "cpu2' = advance_pc (set_reg (Rd stc) 1 cpu1c)"
    unfolding cpu2'_def using strex_step [OF ok1c st(1)]
    by (simp add: cpu1c advance_pc_def UnsetExclusiveMemoryAddress_def)
  have r4: "Reg cpu2' (unat (Rd stc)) = 1" "mem cpu2' = mem cpu"
    using n15 cpu1_ex
    by (simp_all add: cpu2' cpu1c advance_pc_def set_reg_def UnsetExclusiveMemoryAddress_def)
  have ok2: "cond_ok cpu2 (cond st2)"
    using st2(2) cond_ok_flags [of cpu2 cpu "cond st2"]
    by (simp add: cpu2 cpu1 advance_pc_def set_reg_def SetExclusiveMemoryAddress_def
        WriteMemory32_def UnsetExclusiveMemoryAddress_def)
  have cpu3: "cpu3 = advance_pc (set_reg (Rd stc2) 1 cpu2)"
    unfolding cpu3_def using strex_step [OF ok2 st2(1)] r3 by simp
  have r5: "Reg cpu3 (unat (Rd stc2)) = 1" "mem cpu3 = mem cpu2"
    using n15 by (simp_all add: cpu3 advance_pc_def set_reg_def)
  show ?thesis
    using r1 r2 r3 r4 r5
    unfolding Let_def addr_def cpu1_def cpu1c_def cpu2_def cpu2'_def cpu3_def by simp
qed


lemmas exclusive_eval = generic_rec_def clrex_rec_def cpu_ex_def cpu0_def exec_def
  Generic_INST_def cond_ok_def ldrex_body_def strex_body_def strex_write_def finish_rd_def
  advance_pc_def set_reg_def GetInstructionSize_def SetExclusiveMemoryAddress_def
  UnsetExclusiveMemoryAddress_def IsExclusiveMemoryAccess_def ReadMemory32_def
  WriteMemory32_def Let_def

text \<open>
  C4, witness: R4 = 0x100, R2 = 0xABCD. \<open>LDREX R0, [R4]; STREX R1, R2, [R4]\<close> gives
  R1 = 0 and 0xABCD at 0x100; with \<open>CLREX\<close> in between, or for a second
  \<open>STREX R1, R3, [R4]\<close>, R1 = 1.
\<close>

theorem exclusive_round_trip_witness:
  "Reg (fst (exec (generic_rec STREX 1 2 4) (fst (exec (generic_rec LDREX 0 0 4) cpu_ex)))) 1 = 0 \<and>
   ReadMemory32 (fst (exec (generic_rec STREX 1 2 4) (fst (exec (generic_rec LDREX 0 0 4) cpu_ex))))
     0x100 = 0xABCD \<and>
   Reg (fst (exec (generic_rec STREX 1 2 4)
     (fst (exec clrex_rec (fst (exec (generic_rec LDREX 0 0 4) cpu_ex)))))) 1 = 1 \<and>
   Reg (fst (exec (generic_rec STREX 1 3 4) (fst (exec (generic_rec STREX 1 2 4)
     (fst (exec (generic_rec LDREX 0 0 4) cpu_ex)))))) 1 = 1"
  using exclusive_round_trip [of "generic_rec LDREX 0 0 4"
      "\<lparr>Ra = 0, Rm = 0, Rn = 4, Rd = 0, op1 = 0, op2 = 0\<rparr>" cpu_ex
      "generic_rec STREX 1 2 4" "\<lparr>Ra = 0, Rm = 2, Rn = 4, Rd = 1, op1 = 0, op2 = 0\<rparr>"
      "generic_rec STREX 1 3 4" "\<lparr>Ra = 0, Rm = 3, Rn = 4, Rd = 1, op1 = 0, op2 = 0\<rparr>"
      clrex_rec]
  by (simp add: exclusive_eval)


section \<open>Coprocessor data operations (C5)\<close>






section \<open>Register lists\<close>

lemma upt_15: "[0..<15] = [0,1,2,3,4,5,6,7,8,9,10,11,12,13,14]"
  by code_simp

lemma upt_16: "[0..<16] = [0,1,2,3,4,5,6,7,8,9,10,11,12,13,14,15]"
  by code_simp

section \<open>The Q flag (C7)\<close>

text \<open>Every primitive of the handlers keeps bit 27 of the status register.\<close>

named_theorems qkeep

lemma qkeep_prims [qkeep]:
  "Q_set (set_sco c cpu) = Q_set cpu"
  "Q_set (set_reg r v cpu) = Q_set cpu"
  "Q_set (advance_pc cpu) = Q_set cpu"
  "Q_set (UPDATE_NFLAG v cpu) = Q_set cpu"
  "Q_set (UPDATE_ZFLAG v cpu) = Q_set cpu"
  "Q_set (UPDATE_CFLAG_WITH_SC cpu) = Q_set cpu"
  "Q_set (Write8 a v cpu) = Q_set cpu"
  "Q_set (WriteMemory16 a v cpu) = Q_set cpu"
  "Q_set (WriteMemory32 a v cpu) = Q_set cpu"
  "Q_set (WriteMemory64 a w cpu) = Q_set cpu"
  "Q_set (SetExclusiveMemoryAddress a cpu) = Q_set cpu"
  "Q_set (UnsetExclusiveMemoryAddress cpu) = Q_set cpu"
  "Q_set (WriteCP15Register v c1 c2 c3 c4 cpu) = Q_set cpu"
  "Q_set (CallSVC v cpu) = Q_set cpu"
  "Q_set (cpu\<lparr>Reg := rf\<rparr>) = Q_set cpu"
  "Q_set (cpu\<lparr>Reg_usr := rf\<rparr>) = Q_set cpu"
  "Q_set (cpu\<lparr>TFlag := t\<rparr>) = Q_set cpu"
  "Q_set (cpu\<lparr>CFlag := cf, VFlag := vf\<rparr>) = Q_set cpu"
  "Q_set (cpu\<lparr>Spsr_copy := sp\<rparr>) = Q_set cpu"
  "Q_set (cpu\<lparr>NumInstrsToExecute := n\<rparr>) = Q_set cpu"
  by (simp_all add: Q_set_def set_sco_def set_reg_def advance_pc_def UPDATE_NFLAG_def
      UPDATE_ZFLAG_def UPDATE_CFLAG_WITH_SC_def Write8_def WriteMemory16_def
      WriteMemory32_def WriteMemory64_def SetExclusiveMemoryAddress_def
      UnsetExclusiveMemoryAddress_def WriteCP15Register_def CallSVC_def)

lemma qkeep_set_Q [qkeep]: "Q_set (set_Q cpu)"
  by (simp add: Q_set_def set_Q_def bit_simps)

lemma qkeep_SAVE_NZCVT [qkeep]: "Q_set cpu \<Longrightarrow> Q_set (SAVE_NZCVT cpu)"
  by (simp add: Q_set_def SAVE_NZCVT_def bit_simps)

lemma qkeep_cpm [qkeep]: "Q_set (ChangePrivilegeMode m cpu) = Q_set cpu"
  by (simp add: Q_set_def ChangePrivilegeMode_def load_bank_def save_bank_def Let_def)

lemma qkeep_shtop [qkeep]: "Q_set (snd (call_shtop f cpu x)) = Q_set cpu"
  by (cases f) (simp_all add: DPO_Immediate_def DPO_Register_def
      DPO_LogicalShiftLeftByImmediate_def DPO_LogicalShiftLeftByRegister_def
      DPO_LogicalShiftRightByImmediate_def DPO_LogicalShiftRightByRegister_def
      DPO_ArithmeticShiftRightByImmediate_def DPO_ArithmeticShiftRightByRegister_def
      DPO_RotateRightByImmediate_def DPO_RotateRightByRegister_def Let_def qkeep)

lemma qkeep_get_addr [qkeep]: "Q_set (snd (call_get_addr f cpu x)) = Q_set cpu"
  by (cases f) (simp_all add: LnSWoUB_ImmediateOffset_def LnSWoUB_RegisterOffset_def
      LnSWoUB_ScaledRegisterOffset_def LnSWoUB_ImmediatePreIndexed_def
      LnSWoUB_RegisterPreIndexed_def LnSWoUB_ScaledRegisterPreIndexed_def
      LnSWoUB_ImmediatePostIndexed_def LnSWoUB_RegisterPostIndexed_def
      LnSWoUB_ScaledRegisterPostIndexed_def MLnS_ImmediateOffset_def MLnS_RegisterOffset_def
      MLnS_ImmediatePreIndexed_def MLnS_RegisterPreIndexed_def MLnS_ImmediatePostIndexed_def
      MLnS_RegisterPostIndexed_def LdnStM_IncrementAfter_def LdnStM_IncrementBefore_def
      LdnStM_DecrementAfter_def LdnStM_DecrementBefore_def Let_def qkeep)

lemma qkeep_calc_addr [qkeep]: "Q_set (snd (calc_addr ic cpu)) = Q_set cpu"
  by (simp add: calc_addr_def qkeep)

lemma qkeep_flags [qkeep]:
  "\<not> (S \<noteq> 0 \<and> rd = 15) \<Longrightarrow> Q_set (arith_flags S rd c v cpu) = Q_set cpu"
  "\<not> (S \<noteq> 0 \<and> rd = 15) \<Longrightarrow> Q_set (logic_flags S rd cpu) = Q_set cpu"
  "Q_set (cmp_arith_flags res cpu) = Q_set cpu"
  "Q_set (mul_flags mi cpu) = Q_set cpu"
  "Q_set (fst (finish_rd rd cpu)) = Q_set cpu"
  "Q_set (rev_result a b c1 d cpu) = Q_set cpu"
  by (auto simp add: arith_flags_def logic_flags_def cmp_arith_flags_def mul_flags_def
      finish_rd_def rev_result_def Let_def qkeep split: prod.splits)

lemma qkeep_saturate [qkeep]: "Q_set cpu \<Longrightarrow> Q_set (snd (saturate ov x cpu))"
  by (simp add: saturate_def qkeep)

lemma qkeep_DataProc:
  "Q_set cpu \<Longrightarrow> \<not> (dp_S ic \<noteq> 0 \<and> dp_Rd ic = 15) \<Longrightarrow> Q_set (fst (DataProc_INST op c ic cpu))"
  by (cases op) (simp_all add: DataProc_INST_def dp_arith_def dp_logic_def Let_def qkeep
      case_prod_beta)

lemma qkeep_Move:
  "Q_set cpu \<Longrightarrow> \<not> (op \<noteq> CPY \<and> mov_S ic \<noteq> 0 \<and> mov_Rd ic = 15)
     \<Longrightarrow> Q_set (fst (Move_INST op c ic cpu))"
  by (cases op) (simp_all add: Move_INST_def Let_def qkeep case_prod_beta)

lemma qkeep_Compare: "Q_set cpu \<Longrightarrow> Q_set (fst (Compare_INST op c ic cpu))"
  by (cases op) (simp_all add: Compare_INST_def Let_def qkeep case_prod_beta)

lemma qkeep_Branch: "Q_set cpu \<Longrightarrow> Q_set (fst (Branch_INST b c cpu))"
  by (cases b) (simp_all add: BBL_INST_def BLX_INST_def BX_INST_def B_2_THUMB_INST_def
      B_COND_THUMB_INST_def BL_1_THUMB_INST_def BL_2_THUMB_INST_def BLX_1_THUMB_INST_def
      Let_def qkeep)

lemma qkeep_CPS: "Q_set cpu \<Longrightarrow> Q_set (fst (CPS_INST ic cpu))"
  by (simp add: CPS_INST_def Let_def qkeep)
    (simp add: Q_set_def ChangePrivilegeMode_def load_bank_def save_bank_def Let_def bit_simps)

lemma qkeep_SETEND: "Q_set cpu \<Longrightarrow> Q_set (fst (SETEND_INST b cpu))"
  by (simp add: SETEND_INST_def Let_def qkeep) (simp add: Q_set_def bit_simps)

lemma qkeep_MSR: "Q_set cpu \<Longrightarrow> R \<noteq> 0 \<Longrightarrow> Q_set (fst (MSR_INST c R inst cpu))"
  by (simp add: MSR_INST_def Let_def qkeep)

lemma qkeep_System:
  "Q_set cpu \<Longrightarrow> \<not> (case y of MSR R inst \<Rightarrow> R = 0 | _ \<Rightarrow> False)
     \<Longrightarrow> Q_set (fst (System_INST y c cpu))"
  by (cases y) (simp_all add: MCR_INST_def MRC_INST_def MRS_INST_def SWI_INST_def
      BKPT_INST_def qkeep_CPS qkeep_SETEND qkeep_MSR Let_def qkeep)

lemma qkeep_Misc: "Q_set cpu \<Longrightarrow> Q_set (fst (Misc_INST m c cpu))"
  by (cases m) (simp_all add: CLZ_INST_def MUL_INST_def MLA_INST_def REV_INST_def
      SWP_INST_def SWPB_INST_def Let_def qkeep)

lemma qkeep_Stub: "Q_set cpu \<Longrightarrow> Q_set (fst (Stub_INST op c cpu))"
  by (cases op) (simp_all add: qkeep)

lemma qkeep_Extend: "Q_set cpu \<Longrightarrow> Q_set (fst (Extend_INST op c ic cpu))"
  by (simp add: Extend_INST_def qkeep)

lemma qkeep_ldm_loop [qkeep]: "Q_set (fst (ldm_loop inst xs cpu addr)) = Q_set cpu"
  by (induction xs arbitrary: cpu addr) (simp_all add: qkeep)

lemma qkeep_ldm_plain_loop [qkeep]: "Q_set (fst (ldm_plain_loop inst xs cpu addr)) = Q_set cpu"
  by (induction xs arbitrary: cpu addr) (simp_all add: Let_def qkeep)

lemma qkeep_stm_user_loop [qkeep]: "Q_set (fst (stm_user_loop inst xs cpu addr)) = Q_set cpu"
  by (induction xs arbitrary: cpu addr) (simp_all add: qkeep)

lemma qkeep_stm_plain_loop [qkeep]:
  "Q_set (fst (stm_plain_loop inst rn old xs cpu addr)) = Q_set cpu"
  by (induction xs arbitrary: cpu addr) (simp_all add: qkeep)

lemma qkeep_user_reg [qkeep]:
  "Q_set (fst (ldm_user_reg inst i k st)) = Q_set (fst st)"
  "Q_set (fst (stm_user_reg inst i k st)) = Q_set (fst st)"
  "Q_set (stm_pc inst st) = Q_set (fst st)"
  by (simp_all add: ldm_user_reg_def stm_user_reg_def stm_pc_def qkeep split: prod.splits)

lemma qkeep_ldm_body:
  "\<not> (BIT (ldst_inst_word ic) 22 \<noteq> 0 \<and> BIT (ldst_inst_word ic) 15 \<noteq> 0)
     \<Longrightarrow> Q_set (ldm_body ic cpu) = Q_set cpu"
  by (auto simp add: ldm_body_def Let_def qkeep case_prod_beta)

lemma qkeep_stm_body [qkeep]: "Q_set (stm_body ic cpu) = Q_set cpu"
  by (simp add: stm_body_def Let_def qkeep case_prod_beta)

lemma qkeep_ldr_body [qkeep]:
  "Q_set (fst (ldr_body ic cpu)) = Q_set cpu"
  "Q_set (fst (load_body op ic cpu)) = Q_set cpu"
  by (simp_all add: ldr_body_def load_body_def Let_def qkeep case_prod_beta)

lemma qkeep_Load:
  "Q_set cpu \<Longrightarrow>
   \<not> ((op = LDM \<and> BIT (ldst_inst_word ic) 22 \<noteq> 0 \<and> BIT (ldst_inst_word ic) 15 \<noteq> 0) \<or> op = RFE)
     \<Longrightarrow> Q_set (fst (Load_INST op c ic cpu))"
  by (cases op) (auto simp add: LDM_INST_def LDR_INST_def LDRCOND_INST_def LDRD_INST_def
      qkeep_ldm_body Let_def qkeep case_prod_beta)

lemma qkeep_store_body [qkeep]: "Q_set (store_body op ic cpu) = Q_set cpu"
  by (cases op) (simp_all add: Let_def qkeep case_prod_beta)

lemma qkeep_Store: "Q_set cpu \<Longrightarrow> Q_set (fst (Store_INST op c ic cpu))"
  by (cases op) (simp_all add: STM_INST_def qkeep Let_def case_prod_beta)

lemma qkeep_qadd: "Q_set cpu \<Longrightarrow> Q_set (qadd_body ic cpu)"
  by (simp add: qadd_body_def Let_def qkeep case_prod_beta)

lemma qkeep_Generic: "Q_set cpu \<Longrightarrow> Q_set (fst (Generic_INST op c ic cpu))"
  by (simp add: Generic_INST_def ldrex_body_def strex_body_def strex_write_def qkeep_qadd
      Let_def qkeep)

lemma qkeep_set_GE [qkeep]:
  "n < 27 \<Longrightarrow> Q_set (set_GE n b cpu) = Q_set cpu"
  "n < 26 \<Longrightarrow> Q_set (set_GE_pair n b cpu) = Q_set cpu"
  by (simp_all add: Q_set_def set_GE_def set_GE_pair_def bit_simps)

lemma qkeep_long_flags [qkeep]: "Q_set (long_flags ic cpu) = Q_set cpu"
  by (simp add: Q_set_def long_flags_def)

lemma qkeep_Pkh: "Q_set cpu \<Longrightarrow> Q_set (fst (Pkh_INST op c ic cpu))"
  by (cases op) (simp_all add: pkhbt_body_def pkhtb_body_def Let_def qkeep)

lemma qkeep_media_body:
  "Q_set (qadd8_body ic cpu) = Q_set cpu"
  "Q_set (sadd8_body ic cpu) = Q_set cpu"
  "Q_set (sel_body ic cpu) = Q_set cpu"
  "Q_set (shadd8_body ic cpu) = Q_set cpu"
  "Q_set (uadd8_body ic cpu) = Q_set cpu"
  "Q_set (uhadd8_body ic cpu) = Q_set cpu"
  "Q_set (uqadd8_body ic cpu) = Q_set cpu"
  "Q_set (usad8_body ic cpu) = Q_set cpu"
  by (simp_all add: qadd8_body_def sadd8_body_def sel_body_def shadd8_body_def uadd8_body_def
      uhadd8_body_def uqadd8_body_def usad8_body_def Let_def case_prod_beta qkeep)

lemma qkeep_Media: "Q_set cpu \<Longrightarrow> Q_set (fst (Media_INST op c ic cpu))"
  by (cases op) (simp_all add: Media_INST_def qkeep_media_body qkeep)

lemma qkeep_Sat: "Q_set cpu \<Longrightarrow> Q_set (fst (Sat_INST op c ic cpu))"
  by (cases op)
    (simp_all add: Sat_INST_def ssat_body_def ssat16_body_def usat_body_def usat16_body_def
      Let_def case_prod_beta qkeep)

lemma qkeep_dsp_body:
  assumes "Q_set cpu"
  shows "Q_set (smla_body a cpu)" "Q_set (smlad_body b cpu)" "Q_set (smlal_body l cpu)"
    "Q_set (smlalxy_body x cpu)" "Q_set (smlaw_body b cpu)" "Q_set (smulw_body b cpu)"
    "Q_set (smlald_body d cpu)" "Q_set (smmla_body b cpu)" "Q_set (smul_body m cpu)"
    "Q_set (smull_body l cpu)" "Q_set (umaal_body u cpu)" "Q_set (umlal_body l cpu)"
    "Q_set (umull_body l cpu)"
  using assms
  by (simp_all add: smla_body_def smlad_body_def smlal_body_def smlalxy_body_def smlaw_body_def
      smulw_body_def smlald_body_def smmla_body_def smul_body_def smull_body_def umaal_body_def
      umlal_body_def umull_body_def Let_def qkeep)

lemma qkeep_Dsp: "Q_set cpu \<Longrightarrow> Q_set (fst (Dsp_INST d c cpu))"
  by (cases d) (simp_all add: Dsp_INST_def qkeep_dsp_body qkeep)

text \<open>
  C7, as amended: the Q flag is sticky. From a state with Q = 1, an operation that
  does not write the whole status register (that is neither \<open>MSR\<close> to the CPSR nor an
  exception return: flag-setting data processing or move to R15, \<open>LDM\<close> with the S bit
  and the program counter in the list, \<open>RFE\<close>) leaves Q = 1.
\<close>

theorem Q_flag_sticky:
  assumes "Q_set cpu" and "\<not> replaces_cpsr i"
  shows "Q_set (fst (exec i cpu))"
  using assms
  by (cases "component i")
    (simp_all add: exec_def replaces_cpsr_def qkeep_DataProc qkeep_Move qkeep_Compare
      qkeep_Branch qkeep_System qkeep_Misc qkeep_Stub qkeep_Load qkeep_Store qkeep_Generic
      qkeep_Extend qkeep_Media qkeep_Pkh qkeep_Dsp qkeep_Sat)

text \<open>
  C7, witness: \<open>QADD R0, R1, R2\<close> keeps a Q flag that is set, and sets it when
  \<open>0x7FFFFFFF + 1\<close> saturates.
\<close>

theorem Q_flag_sticky_witness:
  "Q_set cpu_svc_q \<and> \<not> replaces_cpsr qadd_rec \<and> Q_set (fst (exec qadd_rec cpu_svc_q)) \<and>
   \<not> Q_set cpu0 \<and>
   Q_set (fst (exec qadd_rec (cpu0\<lparr>Reg := (Reg cpu0)(1 := 0x7FFFFFFF, 2 := 1)\<rparr>))) \<and>
   Reg (fst (exec qadd_rec (cpu0\<lparr>Reg := (Reg cpu0)(1 := 0x7FFFFFFF, 2 := 1)\<rparr>))) 0 = 0x7FFFFFFF"
proof -
  have h: "Q_set cpu_svc_q" "\<not> replaces_cpsr qadd_rec"
    by (simp_all add: Q_set_def cpu_svc_q_def cpu0_def replaces_cpsr_def qadd_rec_def)
  have sat: "\<not> Q_set cpu0"
    "Q_set (fst (exec qadd_rec (cpu0\<lparr>Reg := (Reg cpu0)(1 := 0x7FFFFFFF, 2 := 1)\<rparr>)))"
    "Reg (fst (exec qadd_rec (cpu0\<lparr>Reg := (Reg cpu0)(1 := 0x7FFFFFFF, 2 := 1)\<rparr>))) 0 = 0x7FFFFFFF"
    by (simp_all add: Q_set_def cpu0_def qadd_rec_def exec_def Generic_INST_def cond_ok_def
        qadd_body_def saturate_def AddOverflow_def POS_def NEG_def set_Q_def set_reg_def
        advance_pc_def Let_def bit_simps)
  show ?thesis
    using h sat Q_flag_sticky [OF h] by simp
qed

text \<open>
  C7 as stated fails: \<open>LDMIA SP!, {PC}^\<close> in supervisor mode copies the saved status
  register, whose Q bit is 0, over a CPSR whose Q bit is 1. It is no \<open>MSR\<close>.
\<close>

theorem Q_flag_cleared_by_LDM_counterexample:
  "Q_set cpu_svc_q \<and> \<not> Q_set (fst (exec ldm_pc_s_rec cpu_svc_q))"
  by (simp add: Q_set_def cpu_svc_q_def cpu0_def ldm_pc_s_rec_def exec_def LDM_INST_def
      cond_ok_def ldm_body_def calc_addr_def LdnStM_IncrementAfter_def BITS_def BIT_def
      CHECK_READ_REG15_WA_def CondPassed_def set_reg_def restore_cpsr_def
      CurrentModeHasSPSR_def SYSTEM32MODE_def USER32MODE_def FIQ32MODE_def
      ChangePrivilegeMode_def load_bank_def save_bank_def bank_of_def LOAD_NZCVT_def
      ReadMemory32_def Let_def upt_15)

section \<open>Block load of the program counter (C10)\<close>

lemma same_status_refl: "same_status a a"
  by (simp add: same_status_def)

lemma same_status_get_addr: "same_status (snd (call_get_addr f cpu x)) cpu"
  by (cases f) (simp_all add: same_status_def LnSWoUB_ImmediateOffset_def
      LnSWoUB_RegisterOffset_def
      LnSWoUB_ScaledRegisterOffset_def LnSWoUB_ImmediatePreIndexed_def
      LnSWoUB_RegisterPreIndexed_def LnSWoUB_ScaledRegisterPreIndexed_def
      LnSWoUB_ImmediatePostIndexed_def LnSWoUB_RegisterPostIndexed_def
      LnSWoUB_ScaledRegisterPostIndexed_def MLnS_ImmediateOffset_def MLnS_RegisterOffset_def
      MLnS_ImmediatePreIndexed_def MLnS_RegisterPreIndexed_def MLnS_ImmediatePostIndexed_def
      MLnS_RegisterPostIndexed_def LdnStM_IncrementAfter_def LdnStM_IncrementBefore_def
      LdnStM_DecrementAfter_def LdnStM_DecrementBefore_def Let_def set_reg_def)

lemma same_status_calc_addr: "same_status (snd (calc_addr ic cpu)) cpu"
  by (simp add: calc_addr_def same_status_get_addr)

lemma same_status_ldm_loop: "same_status (fst (ldm_loop inst xs cpu addr)) cpu"
proof (induction xs arbitrary: cpu addr)
  case Nil
  then show ?case by (simp add: same_status_def)
next
  case (Cons i xs)
  show ?case
    using Cons.IH [of "cpu\<lparr>Reg := (Reg cpu)(i := ReadMemory32 cpu addr)\<rparr>" "addr + 4"]
      Cons.IH [of cpu addr]
    by (simp add: same_status_def)
qed

lemma ReadMemory32_mem: "mem a = mem b \<Longrightarrow> ReadMemory32 a x = ReadMemory32 b x"
  by (simp add: ReadMemory32_def)

lemma ldm_loop_addr:
  "snd (ldm_loop inst xs cpu addr) = addr + 4 * of_nat (regs_listed inst xs)"
  by (induction xs arbitrary: cpu addr) (simp_all add: regs_listed_def algebra_simps)

lemma ldm_plain_loop_append:
  "ldm_plain_loop inst (xs @ ys) cpu addr =
     ldm_plain_loop inst ys (fst (ldm_plain_loop inst xs cpu addr))
       (snd (ldm_plain_loop inst xs cpu addr))"
  by (induction xs arbitrary: cpu addr) (simp_all add: Let_def)

lemma ldm_plain_loop_low:
  "15 \<notin> set xs \<Longrightarrow> ldm_plain_loop inst xs cpu addr = ldm_loop inst xs cpu addr"
  by (induction xs arbitrary: cpu addr) (simp_all add: Let_def)

lemma ldm_plain_loop_16:
  "ldm_plain_loop inst [0..<16] cpu addr =
     ldm_plain_loop inst [15] (fst (ldm_loop inst [0..<15] cpu addr))
       (snd (ldm_loop inst [0..<15] cpu addr))"
proof -
  have split: "[0..<16] = [0..<15] @ [15]" by (simp add: upt_15 upt_16)
  have "15 \<notin> set [0..<15]" by simp
  then have low: "ldm_plain_loop inst [0..<15] cpu addr = ldm_loop inst [0..<15] cpu addr"
    by (rule ldm_plain_loop_low)
  have "ldm_plain_loop inst [0..<16] cpu addr =
      ldm_plain_loop inst [15] (fst (ldm_plain_loop inst [0..<15] cpu addr))
        (snd (ldm_plain_loop inst [0..<15] cpu addr))"
    unfolding split by (rule ldm_plain_loop_append)
  then show ?thesis
    unfolding low .
qed

lemma restore_cpsr_status:
  "mem (restore_cpsr cpu) = mem cpu"
  "TFlag (restore_cpsr cpu) =
     (if CurrentModeHasSPSR cpu then drop_bit 5 (Cpsr (restore_cpsr cpu)) AND 1 else TFlag cpu)"
  "CurrentModeHasSPSR cpu \<Longrightarrow> Cpsr (restore_cpsr cpu) = Spsr_copy cpu"
  "\<not> CurrentModeHasSPSR cpu \<Longrightarrow> restore_cpsr cpu = cpu"
  by (simp_all add: restore_cpsr_def LOAD_NZCVT_def ChangePrivilegeMode_def load_bank_def
      save_bank_def Let_def)

lemma ldm_body_spsr:
  assumes "BIT (ldst_inst_word ic) 22 \<noteq> 0" and "BIT (ldst_inst_word ic) 15 \<noteq> 0"
  shows "ldm_body ic cpu =
    (let r = ldm_loop (ldst_inst_word ic) [0..<15] (snd (calc_addr ic cpu)) (fst (calc_addr ic cpu));
         cpu3 = restore_cpsr (fst r) in
     cpu3\<lparr>Reg := (Reg cpu3)(15 := ReadMemory32 cpu3 (snd r))\<rparr>)"
  using assms unfolding ldm_body_def Let_def case_prod_beta by (simp only: if_True if_False simp_thms)

lemma ldm_body_plain:
  assumes "BIT (ldst_inst_word ic) 22 = 0"
  shows "ldm_body ic cpu =
    fst (ldm_plain_loop (ldst_inst_word ic) [0..<16] (snd (calc_addr ic cpu))
      (fst (calc_addr ic cpu)))"
  using assms unfolding ldm_body_def Let_def case_prod_beta by (simp only: if_True if_False simp_thms)

lemma ldm_plain_loop_15:
  "BIT inst 15 \<noteq> 0 \<Longrightarrow>
   fst (ldm_plain_loop inst [15] cpu addr) =
     cpu\<lparr>TFlag := ReadMemory32 cpu addr AND 0x1,
         Reg := (Reg cpu)(15 := ReadMemory32 cpu addr AND 0xFFFFFFFE)\<rparr>"
  by (simp add: Let_def)

text \<open>
  C10: an \<open>LDM\<close> whose condition passes and whose list holds the program counter reads
  the word after those of the lower registers. With the S bit, R15 is that word
  unchanged, the Thumb flag is bit 5 of the status register restored from the saved
  one (in a mode without a saved status register neither changes), and bit 0 of the
  word plays no part. Without the S bit, R15 is the word with bit 0 cleared and the
  Thumb flag is bit 0 of the word.
\<close>

theorem ldm_loaded_pc:
  assumes "component i = Load LDM ic" and "cond_ok cpu (cond i)"
    and "BIT (ldst_inst_word ic) 15 \<noteq> 0"
  shows "(let inst = ldst_inst_word ic;
              slot = fst (calc_addr ic cpu) + 4 * of_nat (regs_listed inst [0..<15]);
              loaded = ReadMemory32 cpu slot;
              cpu' = fst (exec i cpu) in
          (if BIT inst 22 \<noteq> 0 then
             Reg cpu' 15 = loaded \<and>
             TFlag cpu' =
               (if CurrentModeHasSPSR cpu then drop_bit 5 (Cpsr cpu') AND 1 else TFlag cpu) \<and>
             (if CurrentModeHasSPSR cpu then Cpsr cpu' = Spsr_copy cpu else Cpsr cpu' = Cpsr cpu)
           else
             Reg cpu' 15 = loaded AND 0xFFFFFFFE \<and> TFlag cpu' = loaded AND 0x1))"
proof -
  define inst where "inst = ldst_inst_word ic"
  define cpu1 where "cpu1 = snd (calc_addr ic cpu)"
  define addr where "addr = fst (calc_addr ic cpu)"
  define cpu2 where "cpu2 = fst (ldm_loop inst [0..<15] cpu1 addr)"
  define slot where "slot = addr + 4 * of_nat (regs_listed inst [0..<15])"
  define loaded where "loaded = ReadMemory32 cpu slot"
  have slot: "snd (ldm_loop inst [0..<15] cpu1 addr) = slot"
    unfolding slot_def by (rule ldm_loop_addr)
  have st2: "same_status cpu2 cpu"
    using same_status_ldm_loop [of inst "[0..<15]" cpu1 addr] same_status_calc_addr [of ic cpu]
    unfolding cpu2_def cpu1_def same_status_def by (simp only:)
  have rd: "ReadMemory32 cpu2 slot = loaded"
    unfolding loaded_def using st2 ReadMemory32_mem [of cpu2 cpu slot]
    by (simp only: same_status_def)
  have mode: "CurrentModeHasSPSR cpu2 = CurrentModeHasSPSR cpu"
    using st2 by (simp only: same_status_def CurrentModeHasSPSR_def)
  have ex: "fst (exec i cpu) = ldm_body ic cpu"
    using assms by (simp add: exec_def LDM_INST_def Let_def)
  have goal: "if BIT inst 22 \<noteq> 0 then
             Reg (ldm_body ic cpu) 15 = loaded \<and>
             TFlag (ldm_body ic cpu) =
               (if CurrentModeHasSPSR cpu then drop_bit 5 (Cpsr (ldm_body ic cpu)) AND 1
                else TFlag cpu) \<and>
             (if CurrentModeHasSPSR cpu then Cpsr (ldm_body ic cpu) = Spsr_copy cpu
              else Cpsr (ldm_body ic cpu) = Cpsr cpu)
           else
             Reg (ldm_body ic cpu) 15 = loaded AND 0xFFFFFFFE \<and>
             TFlag (ldm_body ic cpu) = loaded AND 0x1"
  proof (cases "BIT inst 22 \<noteq> 0")
    case True
    then have b22: "BIT (ldst_inst_word ic) 22 \<noteq> 0" by (simp add: inst_def)
    have body: "ldm_body ic cpu =
        (restore_cpsr cpu2)\<lparr>Reg := (Reg (restore_cpsr cpu2))
           (15 := ReadMemory32 (restore_cpsr cpu2) slot)\<rparr>"
      using ldm_body_spsr [OF b22 assms(3), of cpu] slot
      unfolding inst_def cpu1_def addr_def cpu2_def Let_def by (simp only:)
    have rd3: "ReadMemory32 (restore_cpsr cpu2) slot = loaded"
      using rd ReadMemory32_mem [of "restore_cpsr cpu2" cpu2 slot] restore_cpsr_status(1) [of cpu2]
      by (simp only:)
    show ?thesis
    proof (cases "CurrentModeHasSPSR cpu")
      case spsr: True
      then have m2: "CurrentModeHasSPSR cpu2" using mode by simp
      show ?thesis
        using True spsr m2 st2 rd3 restore_cpsr_status(2) [of cpu2]
          restore_cpsr_status(3) [OF m2]
        by (simp del: upt_rec_numeral add: body same_status_def)
    next
      case nospsr: False
      then have m2: "\<not> CurrentModeHasSPSR cpu2" using mode by simp
      show ?thesis
        using True nospsr st2 rd3 restore_cpsr_status(4) [OF m2]
        by (simp del: upt_rec_numeral add: body same_status_def)
    qed
  next
    case False
    then have b22: "BIT (ldst_inst_word ic) 22 = 0" by (simp add: inst_def)
    have plain: "ldm_body ic cpu = fst (ldm_plain_loop inst [15] cpu2 slot)"
      using ldm_body_plain [OF b22, of cpu] ldm_plain_loop_16 [of inst cpu1 addr] slot
      unfolding inst_def cpu1_def addr_def cpu2_def by (simp only:)
    have b15: "BIT inst 15 \<noteq> 0" using assms(3) by (simp add: inst_def)
    show ?thesis
      using False rd
      unfolding plain ldm_plain_loop_15 [OF b15] by simp
  qed
  show ?thesis
    using goal unfolding Let_def ex inst_def addr_def slot_def loaded_def .
qed

text \<open>
  C10, witness: in supervisor mode with the saved status of ARM state, the word
  \<open>0x8001\<close> is loaded. With the S bit R15 is \<open>0x8001\<close> and the Thumb flag is 0; without
  it R15 is \<open>0x8000\<close> and the Thumb flag is 1.
\<close>

theorem ldm_loaded_pc_witness:
  "cond_ok cpu_ldm (cond ldm_pc_s_rec) \<and> cond_ok cpu_ldm (cond ldm_pc_rec) \<and>
   BIT (0xE8FD8000 :: u32) 15 \<noteq> 0 \<and> BIT (0xE8BD8000 :: u32) 15 \<noteq> 0 \<and>
   ReadMemory32 cpu_ldm 0x100 = 0x8001 \<and>
   Reg (fst (exec ldm_pc_s_rec cpu_ldm)) 15 = 0x8001 \<and>
   Cpsr (fst (exec ldm_pc_s_rec cpu_ldm)) = 0x10 \<and>
   TFlag (fst (exec ldm_pc_s_rec cpu_ldm)) = 0 \<and>
   Reg (fst (exec ldm_pc_rec cpu_ldm)) 15 = 0x8000 \<and>
   TFlag (fst (exec ldm_pc_rec cpu_ldm)) = 1"
proof -
  have c: "cond_ok cpu_ldm (cond ldm_pc_s_rec)" "cond_ok cpu_ldm (cond ldm_pc_rec)"
    by (simp_all add: cond_ok_def ldm_pc_s_rec_def ldm_pc_rec_def)
  have b: "BIT (0xE8FD8000 :: u32) 15 \<noteq> 0" "BIT (0xE8BD8000 :: u32) 15 \<noteq> 0"
    "BIT (0xE8FD8000 :: u32) 22 \<noteq> 0" "BIT (0xE8BD8000 :: u32) 22 = 0"
    by (simp_all add: BIT_def)
  have n: "regs_listed (0xE8FD8000 :: u32) [0..<15] = 0"
    "regs_listed (0xE8BD8000 :: u32) [0..<15] = 0"
    by (simp_all add: regs_listed_def BIT_def upt_15)
  have a: "fst (calc_addr \<lparr>ldst_inst_word = 0xE8FD8000, get_addr = LdnStM_IncrementAfter_fp\<rparr>
             cpu_ldm) = 0x100"
    "fst (calc_addr \<lparr>ldst_inst_word = 0xE8BD8000, get_addr = LdnStM_IncrementAfter_fp\<rparr>
             cpu_ldm) = 0x100"
    by (simp_all add: calc_addr_def LdnStM_IncrementAfter_def BITS_def BIT_def
        CHECK_READ_REG15_WA_def CondPassed_def set_reg_def cpu_ldm_def cpu0_def Let_def)
  have m: "ReadMemory32 cpu_ldm 0x100 = 0x8001"
    by (simp add: ReadMemory32_def cpu_ldm_def cpu0_def)
  have s: "CurrentModeHasSPSR cpu_ldm" "Spsr_copy cpu_ldm = 0x10"
    by (simp_all add: CurrentModeHasSPSR_def SYSTEM32MODE_def USER32MODE_def cpu_ldm_def
        cpu0_def)
  have t1: "Reg (fst (exec ldm_pc_s_rec cpu_ldm)) 15 = 0x8001 \<and>
   Cpsr (fst (exec ldm_pc_s_rec cpu_ldm)) = 0x10 \<and>
   TFlag (fst (exec ldm_pc_s_rec cpu_ldm)) = 0"
    using ldm_loaded_pc [of ldm_pc_s_rec
        "\<lparr>ldst_inst_word = 0xE8FD8000, get_addr = LdnStM_IncrementAfter_fp\<rparr>" cpu_ldm]
      c(1) b n a m s
    by (simp add: ldm_pc_s_rec_def Let_def del: upt_rec_numeral)
  have t2: "Reg (fst (exec ldm_pc_rec cpu_ldm)) 15 = 0x8000 \<and>
   TFlag (fst (exec ldm_pc_rec cpu_ldm)) = 1"
    using ldm_loaded_pc [of ldm_pc_rec
        "\<lparr>ldst_inst_word = 0xE8BD8000, get_addr = LdnStM_IncrementAfter_fp\<rparr>" cpu_ldm]
      c(2) b n a m
    by (simp add: ldm_pc_rec_def Let_def del: upt_rec_numeral)
  show ?thesis using c b m t1 t2 by simp
qed

section \<open>The instruction budget (C1)\<close>

lemma enter_handler_count:
  "num_instrs (fst (enter_handler ls)) = num_instrs ls + 1"
  "executed (fst (enter_handler ls)) = executed ls @ [inst_base ls]"
  by (simp_all add: enter_handler_def Let_def)

lemma prologue_count:
  "num_instrs (dispatch_prologue bb ls) = num_instrs ls"
  "executed (dispatch_prologue bb ls) = executed ls"
  by (simp_all add: dispatch_prologue_def InterpreterTranslate_def Let_def split: option.splits)

lemma END_label_count:
  "num_instrs (END_label ls) = num_instrs ls"
  "executed (END_label ls) = executed ls"
  by (simp_all add: END_label_def)

lemma unat_succ_below:
  fixes n b :: u32
  assumes "\<not> b \<le> n"
  shows "unat (n + 1) = unat n + 1"
proof -
  have "unat n < unat b" using assms by (simp add: word_le_nat_alt)
  then have "unat n + 1 < 2 ^ 32"
    using unsigned_less [of b, where 'a = nat] by simp
  then show ?thesis by (simp add: unat_word_ariths)
qed

lemma counted_END_label: "counted B (END_label ls) = counted B ls"
  by (simp add: counted_def END_label_count)

lemma counted_prologue: "counted B (dispatch_prologue bb ls) = counted B ls"
  by (simp add: counted_def prologue_count)

lemma counted_enter_handler:
  assumes "counted B ls" and "unat (NumInstrsToExecute (ls_cpu ls)) \<le> B"
    and "\<not> NumInstrsToExecute (ls_cpu ls) \<le> num_instrs ls"
  shows "counted B (fst (enter_handler ls))"
    and "unat (NumInstrsToExecute (ls_cpu (fst (enter_handler ls)))) \<le> B"
proof -
  have lt: "unat (num_instrs ls) < unat (NumInstrsToExecute (ls_cpu ls))"
    using assms(3) by (simp add: word_le_nat_alt)
  show "counted B (fst (enter_handler ls))"
    using lt assms(1,2) unat_succ_below [OF assms(3)]
    by (simp add: counted_def enter_handler_count)
  show "unat (NumInstrsToExecute (ls_cpu (fst (enter_handler ls)))) \<le> B"
    using enter_handler_budget(1) [of ls] assms(2) by (simp add: word_le_nat_alt)
qed

lemma run_counted:
  "counted B ls \<Longrightarrow> unat (NumInstrsToExecute (ls_cpu ls)) \<le> B \<Longrightarrow> counted B (run bb d ls)"
proof (induction bb d ls rule: run.induct)
  case (1 bb at_dispatch ls)
  show ?case
  proof (cases at_dispatch)
    case True
    show ?thesis
    proof (cases "NirqSig (ls_cpu ls) = 0 \<and> Cpsr (ls_cpu ls) AND 0x80 = 0")
      case irq: True
      then show ?thesis
        using True "1.prems" by (subst run.simps) (simp add: counted_END_label)
    next
      case noirq: False
      have "counted B (run bb False (dispatch_prologue bb ls))"
        using "1.IH"(1) [OF True noirq] "1.prems"
        by (simp add: counted_prologue prologue_budget)
      then show ?thesis
        using True noirq by (subst run.simps) auto
    qed
  next
    case False
    show ?thesis
    proof (cases "NumInstrsToExecute (ls_cpu ls) \<le> num_instrs ls")
      case stop: True
      then show ?thesis
        using False "1.prems" by (subst run.simps) (simp add: counted_END_label)
    next
      case go: False
      let ?e = "fst (enter_handler ls)"
      note n = counted_enter_handler(1) [OF "1.prems" go]
      note b = counted_enter_handler(2) [OF "1.prems" go]
      show ?thesis
      proof (cases "snd (enter_handler ls)")
        case Return
        then show ?thesis using False go n by (subst run.simps) simp
      next
        case End
        then show ?thesis using False go n by (subst run.simps) (simp add: counted_END_label)
      next
        case Dispatch
        have "counted B (run bb True ?e)"
          using "1.IH"(2) [OF False go _ _ _ n b] Dispatch by simp
        then show ?thesis using False go Dispatch by (subst run.simps) simp
      next
        case Next
        show ?thesis
        proof (cases "br (inst_base ?e) \<noteq> NON_BRANCH")
          case branch: True
          have "counted B (run bb True ?e)"
            using "1.IH"(3) [OF False go _ _ _ branch n b] Next by simp
          then show ?thesis using False go Next branch by (subst run.simps) simp
        next
          case straight: False
          let ?f = "?e\<lparr>inst_base := inst_buf ?e (ptr ?e)\<rparr>"
          have "counted B (run bb False ?f)"
            using "1.IH"(4) [OF False go _ _ _ straight] n b Next by (simp add: counted_def)
          then show ?thesis using False go Next straight by (subst run.simps) simp
        qed
      qed
    qed
  qed
qed

text \<open>
  The loop and the reference agree: neither the block lookup nor \<open>END\<close> looks at the
  counters, and a handler entered by the loop is a handler of the reference.
\<close>

lemma InterpreterTranslate_uncounted:
  "InterpreterTranslate bb (ls\<lparr>num_instrs := a, executed := b\<rparr>) addr
     = (InterpreterTranslate bb ls addr)\<lparr>num_instrs := a, executed := b\<rparr>"
  "InterpreterTranslate bb (ls\<lparr>num_instrs := a, executed := b, ls_cpu := c\<rparr>) addr
     = (InterpreterTranslate bb (ls\<lparr>ls_cpu := c\<rparr>) addr)\<lparr>num_instrs := a, executed := b\<rparr>"
  by (simp_all add: InterpreterTranslate_def Let_def cong: if_cong)

lemma uncounted_commutes:
  "dispatch_prologue bb (uncounted ls) = uncounted (dispatch_prologue bb ls)"
  "END_label (uncounted ls) = uncounted (END_label ls)"
  "interrupt_pending (uncounted ls) = interrupt_pending ls"
proof -
  show "dispatch_prologue bb (uncounted ls) = uncounted (dispatch_prologue bb ls)"
    unfolding dispatch_prologue_def uncounted_def Let_def
    by (simp add: InterpreterTranslate_uncounted split: option.split)
  show "END_label (uncounted ls) = uncounted (END_label ls)"
    by (simp add: uncounted_def END_label_def)
  show "interrupt_pending (uncounted ls) = interrupt_pending ls"
    by (simp add: uncounted_def interrupt_pending_def)
qed

lemma guest_handler_enter_handler:
  "guest_handler (uncounted ls) =
    (let e = enter_handler ls in
     if snd e = Return then (Returned, uncounted (fst e))
     else if snd e = End then (AtEnd, uncounted (fst e))
     else if snd e = Dispatch \<or> br (inst_base (fst e)) \<noteq> NON_BRANCH
       then (AtDispatch, uncounted (fst e))
     else (AtNextInst, uncounted ((fst e)\<lparr>inst_base := inst_buf (fst e) (ptr (fst e))\<rparr>)))"
  by (simp add: guest_handler_def enter_handler_def uncounted_def Let_def)

lemma refines_done:
  "leave_loop bb (p, uncounted ls) = uncounted r \<Longrightarrow> num_instrs r = num_instrs ls
     \<Longrightarrow> refines bb p ls r"
  by (simp add: refines_def)

lemma refines_step:
  assumes "guest_instruction bb (p, uncounted ls) = Some (p', uncounted ls')"
    and "unat (num_instrs ls') = Suc (unat (num_instrs ls))"
    and "refines bb p' ls' r"
  shows "refines bb p ls r"
proof -
  have le: "unat (num_instrs ls') \<le> unat (num_instrs r)"
    using assms(3) by (simp add: refines_def)
  then have m: "unat (num_instrs r) - unat (num_instrs ls)
                  = Suc (unat (num_instrs r) - unat (num_instrs ls'))"
    using assms(2) by simp
  show ?thesis
    using assms(1,3) le assms(2) unfolding refines_def m by simp
qed

lemma refines_prologue:
  assumes "\<not> interrupt_pending ls"
    and "refines bb AtNextInst (dispatch_prologue bb ls) r"
  shows "refines bb AtDispatch ls r"
proof -
  have n: "num_instrs (dispatch_prologue bb ls) = num_instrs ls"
    by (rule prologue_count)
  show ?thesis
  proof (cases "unat (num_instrs r) - unat (num_instrs ls)")
    case 0
    then show ?thesis
      using assms unfolding refines_def n
      by (simp add: leave_loop_def uncounted_commutes)
  next
    case (Suc m)
    then show ?thesis
      using assms unfolding refines_def n
      by (simp add: guest_instruction_def uncounted_commutes)
  qed
qed

lemma run_refines:
  "refines bb (if d then AtDispatch else AtNextInst) ls (run bb d ls)"
proof (induction bb d ls rule: run.induct)
  case (1 bb at_dispatch ls)
  show ?case
  proof (cases at_dispatch)
    case True
    show ?thesis
    proof (cases "interrupt_pending ls")
      case irq: True
      then have r: "run bb at_dispatch ls = END_label ls"
        using True by (subst run.simps) (simp add: interrupt_pending_def)
      show ?thesis
        unfolding r using True irq
        by (simp add: refines_done leave_loop_def uncounted_commutes END_label_count)
    next
      case noirq: False
      then have c: "\<not> (NirqSig (ls_cpu ls) = 0 \<and> Cpsr (ls_cpu ls) AND 0x80 = 0)"
        by (simp add: interrupt_pending_def)
      have r: "run bb at_dispatch ls = run bb False (dispatch_prologue bb ls)"
        using True c by (subst run.simps) auto
      have "refines bb AtNextInst (dispatch_prologue bb ls) (run bb False (dispatch_prologue bb ls))"
        using "1.IH"(1) [OF True c] by simp
      then show ?thesis
        unfolding r using True refines_prologue [OF noirq] by simp
    qed
  next
    case False
    show ?thesis
    proof (cases "NumInstrsToExecute (ls_cpu ls) \<le> num_instrs ls")
      case stop: True
      then have r: "run bb at_dispatch ls = END_label ls"
        using False by (subst run.simps) simp
      show ?thesis
        unfolding r using False
        by (simp add: refines_done leave_loop_def uncounted_commutes END_label_count)
    next
      case go: False
      let ?e = "fst (enter_handler ls)"
      have suc: "unat (num_instrs ?e) = Suc (unat (num_instrs ls))"
        using unat_succ_below [OF go] by (simp add: enter_handler_count)
      show ?thesis
      proof (cases "snd (enter_handler ls)")
        case Return
        then have r: "run bb at_dispatch ls = ?e"
          using False go by (subst run.simps) simp
        have g: "guest_instruction bb (AtNextInst, uncounted ls) = Some (Returned, uncounted ?e)"
          using Return by (simp add: guest_instruction_def guest_handler_enter_handler Let_def)
        have "refines bb Returned ?e ?e"
          by (simp add: refines_done leave_loop_def)
        then show ?thesis
          unfolding r using False refines_step [OF g suc] by simp
      next
        case End
        then have r: "run bb at_dispatch ls = END_label ?e"
          using False go by (subst run.simps) simp
        have g: "guest_instruction bb (AtNextInst, uncounted ls) = Some (AtEnd, uncounted ?e)"
          using End by (simp add: guest_instruction_def guest_handler_enter_handler Let_def)
        have "refines bb AtEnd ?e (END_label ?e)"
          by (simp add: refines_done leave_loop_def uncounted_commutes END_label_count)
        then show ?thesis
          unfolding r using False refines_step [OF g suc] by simp
      next
        case Dispatch
        then have r: "run bb at_dispatch ls = run bb True ?e"
          using False go by (subst run.simps) simp
        have g: "guest_instruction bb (AtNextInst, uncounted ls) = Some (AtDispatch, uncounted ?e)"
          using Dispatch by (simp add: guest_instruction_def guest_handler_enter_handler Let_def)
        have "refines bb AtDispatch ?e (run bb True ?e)"
          using "1.IH"(2) [OF False go] Dispatch by simp
        then show ?thesis
          unfolding r using False refines_step [OF g suc] by simp
      next
        case Next
        show ?thesis
        proof (cases "br (inst_base ?e) \<noteq> NON_BRANCH")
          case branch: True
          then have r: "run bb at_dispatch ls = run bb True ?e"
            using False go Next by (subst run.simps) simp
          have g: "guest_instruction bb (AtNextInst, uncounted ls) = Some (AtDispatch, uncounted ?e)"
            using Next branch by (simp add: guest_instruction_def guest_handler_enter_handler Let_def)
          have "refines bb AtDispatch ?e (run bb True ?e)"
            using "1.IH"(3) [OF False go _ _ _ branch] Next by simp
          then show ?thesis
            unfolding r using False refines_step [OF g suc] by simp
        next
          case straight: False
          let ?f = "?e\<lparr>inst_base := inst_buf ?e (ptr ?e)\<rparr>"
          have r: "run bb at_dispatch ls = run bb False ?f"
            using False go Next straight by (subst run.simps) simp
          have g: "guest_instruction bb (AtNextInst, uncounted ls) = Some (AtNextInst, uncounted ?f)"
            using Next straight
            by (simp add: guest_instruction_def guest_handler_enter_handler Let_def)
          have suc': "unat (num_instrs ?f) = Suc (unat (num_instrs ls))"
            using suc by simp
          have "refines bb AtNextInst ?f (run bb False ?f)"
            using "1.IH"(4) [OF False go _ _ _ straight] Next by simp
          then show ?thesis
            unfolding r using False refines_step [OF g suc'] by simp
        qed
      qed
    qed
  qed
qed

text \<open>
  C1: whatever the budget \<open>NumInstrsToExecute\<close> of the CPU state, positive or not,
  \<open>InterpreterMainLoop\<close> returns. The value \<open>n\<close> it returns never exceeds the budget, on
  every return path, and it is the number of guest instructions executed: the CPU
  state, the arena and the position in it at the return are those reached from the
  entry by exactly \<open>n\<close> guest instructions of the reference, which does not count, and
  the way out of the loop.
\<close>

theorem InterpreterMainLoop_within_budget:
  "(let r = InterpreterMainLoop bb buf top0 cpu; n = unat (fst r) in
    n \<le> unat (NumInstrsToExecute cpu) \<and>
    fst r = num_instrs (snd r) \<and>
    map_option (leave_loop bb) (guest_instructions bb n (AtDispatch, entry_state buf top0 cpu))
      = Some (uncounted (snd r)))"
proof -
  let ?ls = "entry_state buf top0 cpu"
  have run: "InterpreterMainLoop bb buf top0 cpu = (num_instrs (run bb True ?ls), run bb True ?ls)"
    by (simp add: InterpreterMainLoop_def entry_state_def Let_def)
  have "counted (unat (NumInstrsToExecute cpu)) (run bb True ?ls)"
    by (rule run_counted) (simp_all add: counted_def entry_state_def budget)
  then have bound: "unat (num_instrs (run bb True ?ls)) \<le> unat (NumInstrsToExecute cpu)"
    by (simp add: counted_def)
  have zero: "num_instrs ?ls = 0" "uncounted ?ls = ?ls"
    by (simp_all add: entry_state_def uncounted_def)
  have "refines bb AtDispatch ?ls (run bb True ?ls)"
    using run_refines [of bb True ?ls] by simp
  then have "map_option (leave_loop bb)
       (guest_instructions bb (unat (num_instrs (run bb True ?ls))) (AtDispatch, ?ls))
       = Some (uncounted (run bb True ?ls))"
    unfolding refines_def zero by simp
  then show ?thesis
    unfolding run Let_def using bound by simp
qed

text \<open>
  C1, witness: with a budget of 2 and blocks of three \<open>NOP\<close>s the loop returns 2 with
  the program counter at 8, the state after two guest instructions; with a budget of 5
  and a \<open>CDP\<close> it returns 1.
\<close>

theorem InterpreterMainLoop_within_budget_witness:
  "fst (InterpreterMainLoop nop_block (\<lambda>_. stub_rec NOP 0xE) 0 (cpu0\<lparr>NumInstrsToExecute := 2\<rparr>)) = 2 \<and>
   Reg (ls_cpu (snd (InterpreterMainLoop nop_block (\<lambda>_. stub_rec NOP 0xE) 0
       (cpu0\<lparr>NumInstrsToExecute := 2\<rparr>)))) 15 = 8 \<and>
   map_option (leave_loop nop_block)
     (guest_instructions nop_block 2
        (AtDispatch, entry_state (\<lambda>_. stub_rec NOP 0xE) 0 (cpu0\<lparr>NumInstrsToExecute := 2\<rparr>)))
     = Some (uncounted (snd (InterpreterMainLoop nop_block (\<lambda>_. stub_rec NOP 0xE) 0
       (cpu0\<lparr>NumInstrsToExecute := 2\<rparr>)))) \<and>
   fst (InterpreterMainLoop (\<lambda>_ _. [stub_rec CDP 0xE]) (\<lambda>_. stub_rec NOP 0xE) 0 cpu0) = 1 \<and>
   unat (fst (InterpreterMainLoop (\<lambda>_ _. [stub_rec CDP 0xE]) (\<lambda>_. stub_rec NOP 0xE) 0 cpu0))
     \<le> unat (NumInstrsToExecute cpu0)"
proof -
  have a: "fst (InterpreterMainLoop nop_block (\<lambda>_. stub_rec NOP 0xE) 0
       (cpu0\<lparr>NumInstrsToExecute := 2\<rparr>)) = 2"
    "Reg (ls_cpu (snd (InterpreterMainLoop nop_block (\<lambda>_. stub_rec NOP 0xE) 0
       (cpu0\<lparr>NumInstrsToExecute := 2\<rparr>)))) 15 = 8"
    by (simp_all add: InterpreterMainLoop_def run.simps dispatch_prologue_def
        InterpreterTranslate_def enter_handler_def exec_def END_label_def nop_block_def
        stub_rec_def cpu0_def LOAD_NZCVT_def SAVE_NZCVT_def set_reg_def advance_pc_def
        GetInstructionSize_def NON_BRANCH_def Let_def word_le_nat_alt)
  have b: "fst (InterpreterMainLoop (\<lambda>_ _. [stub_rec CDP 0xE]) (\<lambda>_. stub_rec NOP 0xE) 0 cpu0) = 1"
    by (simp add: InterpreterMainLoop_def run.simps dispatch_prologue_def
        InterpreterTranslate_def enter_handler_def exec_def END_label_def cond_ok_def
        stub_rec_def cpu0_def LOAD_NZCVT_def SAVE_NZCVT_def set_reg_def advance_pc_def
        GetInstructionSize_def NON_BRANCH_def Let_def word_le_nat_alt)
  have g: "map_option (leave_loop nop_block)
     (guest_instructions nop_block 2
        (AtDispatch, entry_state (\<lambda>_. stub_rec NOP 0xE) 0 (cpu0\<lparr>NumInstrsToExecute := 2\<rparr>)))
     = Some (uncounted (snd (InterpreterMainLoop nop_block (\<lambda>_. stub_rec NOP 0xE) 0
       (cpu0\<lparr>NumInstrsToExecute := 2\<rparr>))))"
    using InterpreterMainLoop_within_budget
      [of nop_block "\<lambda>_. stub_rec NOP 0xE" 0 "cpu0\<lparr>NumInstrsToExecute := 2\<rparr>"]
    unfolding Let_def a(1) by simp
  have t: "unat (fst (InterpreterMainLoop (\<lambda>_ _. [stub_rec CDP 0xE]) (\<lambda>_. stub_rec NOP 0xE) 0 cpu0))
     \<le> unat (NumInstrsToExecute cpu0)"
    using InterpreterMainLoop_within_budget
      [of "\<lambda>_ _. [stub_rec CDP 0xE]" "\<lambda>_. stub_rec NOP 0xE" 0 cpu0]
    unfolding Let_def by (rule conjunct1)
  show ?thesis
    using a b g t by blast
qed

end
